theory Spec2Isabelle
  imports Main "HOL-Library.List_Lexorder" "HOL-Library.Char_ord"
begin

section \<open>Values of the configuration language (package cty)\<close>

text \<open>
  The generator of \<^verbatim>\<open>generate/genhcl/genhcl.go\<close> inspects evaluated values only through
  \<^verbatim>\<open>Type\<close>, \<^verbatim>\<open>IsNull\<close>, \<^verbatim>\<open>True\<close>, \<^verbatim>\<open>CanIterateElements\<close>, \<^verbatim>\<open>ElementIterator\<close>,
  \<^verbatim>\<open>ForEachElement\<close> and \<^verbatim>\<open>AsString\<close>. Values are known and unmarked. The element type of
  a collection is left out of \<open>ctype\<close>. \<open>NilVal\<close> is the zero value of a Go variable of
  type \<^verbatim>\<open>cty.Value\<close>: it has no type and no payload.
\<close>

datatype ctype =
  TNil | TDynamic | TBool | TString | TNumber | TList | TSet | TMap | TTuple | TObject

datatype Value =
    NilVal
  | NullVal ctype
  | BoolVal bool
  | StringVal string
  | NumberVal int
  | ListVal "Value list"
  | SetVal "Value list"
  | TupleVal "Value list"
  | MapVal "(string \<times> Value) list"
  | ObjectVal "(string \<times> Value) list"

fun TypeOf :: "Value \<Rightarrow> ctype" where
  "TypeOf NilVal = TNil"
| "TypeOf (NullVal t) = t"
| "TypeOf (BoolVal b) = TBool"
| "TypeOf (StringVal s) = TString"
| "TypeOf (NumberVal n) = TNumber"
| "TypeOf (ListVal xs) = TList"
| "TypeOf (SetVal xs) = TSet"
| "TypeOf (TupleVal xs) = TTuple"
| "TypeOf (MapVal kvs) = TMap"
| "TypeOf (ObjectVal kvs) = TObject"

text \<open>\<^verbatim>\<open>IsNull\<close> tests the payload for nil, so it holds of \<open>NilVal\<close> too.\<close>

fun IsNull :: "Value \<Rightarrow> bool" where
  "IsNull NilVal = True"
| "IsNull (NullVal t) = True"
| "IsNull v = False"

text \<open>
  \<^verbatim>\<open>True\<close> is \<^verbatim>\<open>val.Equals(cty.True)\<close> read as a Go bool; the callers test the type for
  \<^verbatim>\<open>cty.Bool\<close> first. A null boolean is not equal to true.
\<close>

fun IsTrue :: "Value \<Rightarrow> bool" where
  "IsTrue (BoolVal b) = b"
| "IsTrue v = False"

text \<open>\<^verbatim>\<open>CanIterateElements\<close> looks at the type alone: a null list or map passes it.\<close>

definition CanIterateElements :: "Value \<Rightarrow> bool" where
  "CanIterateElements v = (TypeOf v \<in> {TList, TMap, TSet, TTuple, TObject})"

definition IsObjectType :: "ctype \<Rightarrow> bool" where
  "IsObjectType t = (t = TObject)"

definition IsMapType :: "ctype \<Rightarrow> bool" where
  "IsMapType t = (t = TMap)"

fun indexed :: "nat \<Rightarrow> Value list \<Rightarrow> (Value \<times> Value) list" where
  "indexed i [] = []"
| "indexed i (x # xs) = (NumberVal (int i), x) # indexed (Suc i) xs"

text \<open>
  The key/value pairs of a collection in the order in which cty iterates it: lists and
  tuples by index, sets with each element as its own key, maps and objects by key (the
  entries of \<open>MapVal\<close> and \<open>ObjectVal\<close> are held in that order). cty panics on a null value
  and on a value that is no collection: \<open>None\<close>.
\<close>

fun ElementIterator :: "Value \<Rightarrow> (Value \<times> Value) list option" where
  "ElementIterator (ListVal xs) = Some (indexed 0 xs)"
| "ElementIterator (TupleVal xs) = Some (indexed 0 xs)"
| "ElementIterator (SetVal xs) = Some (map (\<lambda>x. (x, x)) xs)"
| "ElementIterator (MapVal kvs) = Some (map (\<lambda>(k, v). (StringVal k, v)) kvs)"
| "ElementIterator (ObjectVal kvs) = Some (map (\<lambda>(k, v). (StringVal k, v)) kvs)"
| "ElementIterator v = None"

fun AsString :: "Value \<Rightarrow> string option" where
  "AsString (StringVal s) = Some s"
| "AsString v = None"

section \<open>Source syntax tree (package hclsyntax)\<close>

datatype Range = SrcRange (Filename: string) (StartByte: nat) (EndByte: nat)

text \<open>
  The generator tells three classes of expression apart (the type switch of
  \<^verbatim>\<open>appendDynamicBlock\<close>): a literal value, an object constructor, and anything else.
  \<open>ScopeTraversalExpr\<close> is a reference \<^verbatim>\<open>root.attr...\<close>; \<open>OpaqueExpr\<close> stands for every other
  class of expression, told apart by a number.
\<close>

datatype Expression =
    LiteralValueExpr Value Range
  | ObjectConsExpr "(Expression \<times> Expression) list" Range
  | ScopeTraversalExpr "string list" Range
  | OpaqueExpr nat Range

fun exprRange :: "Expression \<Rightarrow> Range" where
  "exprRange (LiteralValueExpr v r) = r"
| "exprRange (ObjectConsExpr its r) = r"
| "exprRange (ScopeTraversalExpr tr r) = r"
| "exprRange (OpaqueExpr n r) = r"

datatype Attribute = Attribute (Name: string) (Expr: Expression) (AttrRange: Range)

text \<open>
  \<open>Attributes\<close> is a Go map from names to attributes; the list holds its entries in the
  order in which a \<^verbatim>\<open>range\<close> loop over the map visits them, which Go leaves open.
  The parser gives every block a body, so the test \<^verbatim>\<open>block.Body != nil\<close> of
  \<^verbatim>\<open>appendBlock\<close> always passes.
\<close>

datatype Block =
  Block (Type: string) (Labels: "string list") (BlockBody: Body)
        (LabelRanges: "Range list") (TypeRange: Range)
and Body =
  Body (Attributes: "Attribute list") (Blocks: "Block list") (BodyRange: Range)

section \<open>Errors (package errors)\<close>

datatype Kind =
    ErrParsing | ErrContentEval | ErrConditionEval | ErrInheritEval
  | ErrInvalidConditionType | ErrInvalidInheritType | ErrInvalidDynamicIterator
  | ErrInvalidDynamicLabels | ErrDynamicAttrsEval | ErrDynamicConditionEval
  | ErrDynamicAttrsConflict

fun KindText :: "Kind \<Rightarrow> string" where
  "KindText ErrParsing = ''parsing generate_hcl block''"
| "KindText ErrContentEval = ''evaluating content''"
| "KindText ErrConditionEval = ''evaluating condition attribute''"
| "KindText ErrInheritEval = ''evaluating inherit attribute''"
| "KindText ErrInvalidConditionType = ''invalid condition type''"
| "KindText ErrInvalidInheritType = ''invalid inherit type''"
| "KindText ErrInvalidDynamicIterator = ''invalid tm_dynamic.iterator''"
| "KindText ErrInvalidDynamicLabels = ''invalid tm_dynamic.labels''"
| "KindText ErrDynamicAttrsEval = ''evaluating tm_dynamic.attributes''"
| "KindText ErrDynamicConditionEval = ''evaluating tm_dynamic.condition''"
| "KindText ErrDynamicAttrsConflict =
     ''tm_dynamic.attributes and tm_dynamic.content have conflicting fields''"

datatype Arg = ArgStr string | ArgType ctype | ArgExpr Expression | ArgVal Value

text \<open>
  Modelled from the spec: the error values of package \<^verbatim>\<open>errors\<close>, which is not among the
  sources. \<open>E\<close> keeps what a call \<^verbatim>\<open>errors.E(...)\<close> is given: the kind, the source ranges,
  the format string with its arguments, and the error it wraps. \<open>L\<close> is the aggregate of
  an error list. \<open>Panic\<close> is a Go panic, which no caller catches.
\<close>

datatype error =
    E (ekind: "Kind option") (eranges: "Range list") (emsg: string) (eargs: "Arg list")
      (ecause: "error option")
  | L "error list"
  | Panic string

fun errs_of :: "error \<Rightarrow> error list" where
  "errs_of (L es) = concat (map errs_of es)"
| "errs_of e = [e]"

text \<open>
  Modelled from the spec: \<^verbatim>\<open>errors.L()\<close> is a growable list of errors; \<^verbatim>\<open>Append\<close> skips
  nil and adds the members of an error list one by one; \<^verbatim>\<open>AsError\<close> is nil for the empty
  list and the aggregate otherwise.
\<close>

fun Append :: "error list \<Rightarrow> error option \<Rightarrow> error list" where
  "Append errs None = errs"
| "Append errs (Some e) = errs @ errs_of e"

fun AsError :: "error list \<Rightarrow> error option" where
  "AsError [] = None"
| "AsError es = Some (L es)"

definition attrErr :: "Attribute \<Rightarrow> string \<Rightarrow> Arg list \<Rightarrow> error" where
  "attrErr a m args = E (Some ErrParsing) [exprRange (Expr a)] m args None"

definition wrapAttrErr :: "error \<Rightarrow> Attribute \<Rightarrow> string \<Rightarrow> Arg list \<Rightarrow> error" where
  "wrapAttrErr err a m args = E (Some ErrParsing) [exprRange (Expr a)] m args (Some err)"

section \<open>Destination tree (package hclwrite)\<close>

text \<open>
  Tokens are kept as what they were made from. A destination body is the sequence of
  its attributes and blocks. \<^verbatim>\<open>SetAttributeRaw\<close> replaces the tokens of an attribute of
  that name, or adds the attribute at the end.
\<close>

datatype Tokens = TokensForExpression Expression | TokensForValue Value

datatype Item = AttributeItem string Tokens | BlockItem string "string list" "Item list"

fun SetAttributeRaw :: "string \<Rightarrow> Tokens \<Rightarrow> Item list \<Rightarrow> Item list" where
  "SetAttributeRaw n t [] = [AttributeItem n t]"
| "SetAttributeRaw n t (AttributeItem m u # its) =
     (if m = n then AttributeItem n t # its
      else AttributeItem m u # SetAttributeRaw n t its)"
| "SetAttributeRaw n t (BlockItem ty ls b # its) = BlockItem ty ls b # SetAttributeRaw n t its"

section \<open>Evaluation context and collaborators\<close>

datatype Function = VendorFunc string string | HCLExpressionFunc

record Context =
  namespaces :: "string \<rightharpoonup> (string \<times> Value) list"
  funcs :: "string \<rightharpoonup> Function"

text \<open>
  Modelled from the spec: the context operations of package \<^verbatim>\<open>eval\<close>
  (\<^verbatim>\<open>SetNamespace(name, bindings)\<close>, \<^verbatim>\<open>DeleteNamespace(name)\<close>, \<^verbatim>\<open>SetFunction(name, callable)\<close>),
  which is not among the sources. A namespace is a map from names to values; its
  entries are listed by name.
\<close>

definition SetNamespace :: "string \<Rightarrow> (string \<times> Value) list \<Rightarrow> Context \<Rightarrow> Context" where
  "SetNamespace n vals ctx = ctx\<lparr>namespaces := (namespaces ctx)(n \<mapsto> vals)\<rparr>"

definition DeleteNamespace :: "string \<Rightarrow> Context \<Rightarrow> Context" where
  "DeleteNamespace n ctx = ctx\<lparr>namespaces := (namespaces ctx)(n := None)\<rparr>"

definition SetFunction :: "string \<Rightarrow> Function \<Rightarrow> Context \<Rightarrow> Context" where
  "SetFunction n f ctx = ctx\<lparr>funcs := (funcs ctx)(n \<mapsto> f)\<rparr>"

record AssertConfig =
  acRange :: Range
  acWarning :: "Expression option"
  acAssertion :: Expression
  acMessage :: Expression

record Assert =
  aRange :: Range
  Warning :: bool
  Assertion :: bool
  Message :: string

text \<open>
  The collaborators the generator calls and that are not among the sources, taken as
  parameters: the expression evaluator (\<open>Eval\<close> fails on an unknown reference,
  \<open>PartialEval\<close> rewrites an expression and leaves such a reference as it is), the
  traversal analysis of package hcl, the identifier test of hclsyntax, the helpers of
  packages \<^verbatim>\<open>hcl\<close>, \<^verbatim>\<open>ast\<close>, \<^verbatim>\<open>lets\<close>, \<^verbatim>\<open>config\<close>, \<^verbatim>\<open>fmt\<close>, \<^verbatim>\<open>stdlib\<close> and \<^verbatim>\<open>project\<close>,
  and the rendering \<^verbatim>\<open>Bytes\<close> of a destination tree.
  \<open>AbsTraversalForExpr\<close> is \<open>None\<close> where the analysis reports diagnostics, and the names
  of the steps of the traversal otherwise.
\<close>

record Env =
  Eval :: "Context \<Rightarrow> Expression \<Rightarrow> error + Value"
  PartialEval :: "Context \<Rightarrow> Expression \<Rightarrow> error + Expression"
  AbsTraversalForExpr :: "Expression \<Rightarrow> string list option"
  ValidIdentifier :: "string \<Rightarrow> bool"
  ValueAsStringList :: "Value \<Rightarrow> error + string list"
  SortRawAttributes :: "Attribute list \<Rightarrow> Attribute list"
  LetsLoad :: "(string \<times> Expression) list \<Rightarrow> Context \<Rightarrow> error + Context"
  EvalAssert :: "Context \<Rightarrow> AssertConfig \<Rightarrow> error + Assert"
  Bytes :: "Item list \<Rightarrow> string"
  FormatMultiline :: "string \<Rightarrow> string \<Rightarrow> error + string"
  stdlibName :: "string \<Rightarrow> string"
  vendorTargetDir :: "string \<Rightarrow> string \<Rightarrow> string"
  PrjAbsPath :: "string \<Rightarrow> string \<Rightarrow> string"

section \<open>Expanding \<^verbatim>\<open>tm_dynamic\<close> blocks\<close>

record tmAttribute =
  name :: string
  tokens :: Tokens
  info :: Range

record dynBlockAttributes =
  attributes :: "Attribute option"
  iterator :: "Attribute option"
  foreach :: "Attribute option"
  labels :: "Attribute option"
  dcondition :: "Attribute option"

definition noDynBlockAttributes :: dynBlockAttributes where
  "noDynBlockAttributes =
     \<lparr>attributes = None, iterator = None, foreach = None, labels = None, dcondition = None\<rparr>"

text \<open>
  One turn of the loop of \<^verbatim>\<open>getDynamicBlockAttrs\<close> over the attributes of the block. The
  source wraps the expression of \<^verbatim>\<open>attributes\<close> in a \<^verbatim>\<open>CloneExpression\<close>, which evaluates
  as the expression itself.
\<close>

definition dynAttrStep :: "Attribute \<Rightarrow> dynBlockAttributes \<times> error list
    \<Rightarrow> dynBlockAttributes \<times> error list" where
  "dynAttrStep a st =
     (case st of (d, errs) \<Rightarrow>
        if Name a = ''attributes'' then (d\<lparr>attributes := Some a\<rparr>, errs)
        else if Name a = ''for_each'' then (d\<lparr>foreach := Some a\<rparr>, errs)
        else if Name a = ''labels'' then (d\<lparr>labels := Some a\<rparr>, errs)
        else if Name a = ''iterator'' then (d\<lparr>iterator := Some a\<rparr>, errs)
        else if Name a = ''condition'' then (d\<lparr>dcondition := Some a\<rparr>, errs)
        else (d, Append errs
               (Some (attrErr a ''tm_dynamic unsupported attribute %q'' [ArgStr (Name a)]))))"

definition getDynamicBlockAttrs :: "Block \<Rightarrow> dynBlockAttributes \<times> error option" where
  "getDynamicBlockAttrs b =
     (case fold dynAttrStep (Attributes (BlockBody b)) (noDynBlockAttributes, []) of
        (d, errs) \<Rightarrow> (d, AsError errs))"

fun contentBlockLoop :: "Block list \<Rightarrow> Block option \<Rightarrow> error list
    \<Rightarrow> Block option \<times> error list" where
  "contentBlockLoop [] cb errs = (cb, errs)"
| "contentBlockLoop (b # bs) cb errs =
     (if Type b \<noteq> ''content'' then
        contentBlockLoop bs cb (Append errs
          (Some (E (Some ErrParsing) [TypeRange b] ''unrecognized block %s''
             [ArgStr (Type b)] None)))
      else if cb \<noteq> None then
        contentBlockLoop bs cb (Append errs
          (Some (E (Some ErrParsing) [TypeRange b]
             ''multiple definitions of the `content` block'' [] None)))
      else contentBlockLoop bs (Some b) errs)"

definition getContentBlock :: "Block list \<Rightarrow> Block option \<times> error option" where
  "getContentBlock bs =
     (case contentBlockLoop bs None [] of
        (cb, errs) \<Rightarrow>
          (case AsError errs of Some err \<Rightarrow> (None, Some err) | None \<Rightarrow> (cb, None)))"

definition evalLabels :: "Env \<Rightarrow> Context \<Rightarrow> Attribute option \<Rightarrow> error + string list" where
  "evalLabels env ctx la =
     (case la of
        None \<Rightarrow> Inr []
      | Some a \<Rightarrow>
          (case Eval env ctx (Expr a) of
             Inl err \<Rightarrow> Inl (E (Some ErrInvalidDynamicLabels) [AttrRange a]
                               ''failed to evaluate tm_dynamic.labels'' [] (Some err))
           | Inr v \<Rightarrow>
               (case ValueAsStringList env v of
                  Inl err \<Rightarrow> Inl (E (Some ErrInvalidDynamicLabels) [AttrRange a]
                                    ''tm_dynamic.labels is not a string list'' [] (Some err))
                | Inr ls \<Rightarrow> Inr ls)))"

text \<open>The loop over the elements of a literal \<^verbatim>\<open>attributes\<close> value.\<close>

fun literalItems :: "Range \<Rightarrow> (Value \<times> Value) list \<Rightarrow> error + tmAttribute list" where
  "literalItems r [] = Inr []"
| "literalItems r ((k, v) # kvs) =
     (case k of
        StringVal s \<Rightarrow>
          (case literalItems r kvs of
             Inl err \<Rightarrow> Inl err
           | Inr rest \<Rightarrow> Inr (\<lparr>name = s, tokens = TokensForValue v, info = r\<rparr> # rest))
      | _ \<Rightarrow> Inl (Panic ''unreachable''))"

text \<open>The loop over the items of an object constructor.\<close>

fun objectConsItems :: "Env \<Rightarrow> Context \<Rightarrow> (Expression \<times> Expression) list
    \<Rightarrow> error + tmAttribute list" where
  "objectConsItems env ctx [] = Inr []"
| "objectConsItems env ctx ((ke, ve) # its) =
     (case Eval env ctx ke of
        Inl err \<Rightarrow> Inl (E (Some ErrDynamicAttrsEval) [exprRange ke]
                          ''evaluating tm_dynamic.attributes key'' [] (Some err))
      | Inr keyVal \<Rightarrow>
          if TypeOf keyVal \<noteq> TString then
            Inl (E (Some ErrParsing) [exprRange ke]
                   ''tm_dynamic.attributes key %q has type %q, must be a string''
                   [ArgVal keyVal, ArgType (TypeOf keyVal)] None)
          else
            (case PartialEval env ctx ve of
               Inl err \<Rightarrow> Inl (E (Some ErrDynamicAttrsEval) [exprRange ve]
                                 ''failed to evaluate attribute value: %s'' [ArgExpr ve] None)
             | Inr valExpr \<Rightarrow>
                 (case AsString keyVal of
                    None \<Rightarrow> Inl (Panic ''value is null'')
                  | Some s \<Rightarrow>
                      (case objectConsItems env ctx its of
                         Inl err \<Rightarrow> Inl err
                       | Inr rest \<Rightarrow>
                           Inr (\<lparr>name = s, tokens = TokensForExpression valExpr,
                                 info = exprRange ve\<rparr> # rest)))))"

text \<open>
  The evaluation of \<^verbatim>\<open>tm_dynamic.attributes\<close> into the list \<^verbatim>\<open>tmAttrs\<close> (the first half
  of the branch \<^verbatim>\<open>attrs.attributes != nil\<close> of \<^verbatim>\<open>appendDynamicBlock\<close>).
\<close>

definition evalAttributes :: "Env \<Rightarrow> Context \<Rightarrow> Attribute \<Rightarrow> error + tmAttribute list" where
  "evalAttributes env ctx a =
     (case PartialEval env ctx (Expr a) of
        Inl err \<Rightarrow> Inl (E (Some ErrDynamicAttrsEval) [AttrRange a] [] [] (Some err))
      | Inr attrsExpr \<Rightarrow>
          (case attrsExpr of
             LiteralValueExpr val r \<Rightarrow>
               if IsNull val then Inl (E (Some ErrParsing) [r] ''attributes is null'' [] None)
               else if \<not> IsObjectType (TypeOf val) \<and> \<not> IsMapType (TypeOf val) then
                 Inl (attrErr a ''tm_dynamic attributes must be an object/map, got %s instead''
                        [ArgType (TypeOf val)])
               else
                 (case ElementIterator val of
                    None \<Rightarrow> Inl (Panic ''ElementIterator'')
                  | Some kvs \<Rightarrow> literalItems r kvs)
           | ObjectConsExpr its r \<Rightarrow> objectConsItems env ctx its
           | _ \<Rightarrow> Inl (attrErr a ''tm_dynamic attributes must be an object, got %T instead''
                        [ArgExpr attrsExpr])))"

fun setBodyAttributes :: "Env \<Rightarrow> Item list \<Rightarrow> tmAttribute list \<Rightarrow> error option \<times> Item list" where
  "setBodyAttributes env bd [] = (None, bd)"
| "setBodyAttributes env bd (a # as) =
     (if \<not> ValidIdentifier env (name a) then
        (Some (E (Some ErrParsing) [info a]
                 ''tm_dynamic.attributes key %q is not a valid HCL identifier''
                 [ArgStr (name a)] None), bd)
      else setBodyAttributes env (SetAttributeRaw (name a) (tokens a) bd) as)"

text \<open>
  The whole branch \<^verbatim>\<open>attrs.attributes != nil\<close>: the error if any, the body of the new
  block, and \<^verbatim>\<open>attributeNames\<close>, which is filled only when every attribute was set.
\<close>

definition applyAttributes :: "Env \<Rightarrow> Context \<Rightarrow> Attribute option
    \<Rightarrow> error option \<times> Item list \<times> string list" where
  "applyAttributes env ctx ao =
     (case ao of
        None \<Rightarrow> (None, [], [])
      | Some a \<Rightarrow>
          (case evalAttributes env ctx a of
             Inl err \<Rightarrow> (Some err, [], [])
           | Inr tmAttrs \<Rightarrow>
               (case setBodyAttributes env [] tmAttrs of
                  (Some err, bd) \<Rightarrow> (Some err, bd, [])
                | (None, bd) \<Rightarrow> (None, bd, map name tmAttrs))))"

text \<open>The loop over the attributes of the content block that looks for a collision.\<close>

fun conflictingField :: "string list \<Rightarrow> Attribute list \<Rightarrow> error option" where
  "conflictingField attributeNames [] = None"
| "conflictingField attributeNames (a # as) =
     (if Name a \<in> set attributeNames then
        Some (E (Some ErrDynamicAttrsConflict) [AttrRange a]
                ''attribute %s already set by tm_dynamic.attributes'' [ArgStr (Name a)] None)
      else conflictingField attributeNames as)"

text \<open>The loop of \<^verbatim>\<open>copyBody\<close> over the sorted attributes of the source body.\<close>

fun copyAttributes :: "Env \<Rightarrow> Context \<Rightarrow> Item list \<Rightarrow> Attribute list
    \<Rightarrow> error option \<times> Item list" where
  "copyAttributes env ctx dest [] = (None, dest)"
| "copyAttributes env ctx dest (a # as) =
     (case PartialEval env ctx (Expr a) of
        Inl err \<Rightarrow> (Some (E None [exprRange (Expr a)] [] [] (Some err)), dest)
      | Inr newexpr \<Rightarrow>
          copyAttributes env ctx
            (SetAttributeRaw (Name a) (TokensForExpression newexpr) dest) as)"

text \<open>The guard of a \<^verbatim>\<open>tm_dynamic\<close> block: absent counts as true.\<close>

definition dynamicCondition :: "Env \<Rightarrow> Context \<Rightarrow> Attribute option \<Rightarrow> error + bool" where
  "dynamicCondition env ctx co =
     (case co of
        None \<Rightarrow> Inr True
      | Some a \<Rightarrow>
          (case Eval env ctx (Expr a) of
             Inl err \<Rightarrow> Inl (E (Some ErrDynamicConditionEval) [] [] [] (Some err))
           | Inr v \<Rightarrow>
               if TypeOf v \<noteq> TBool then
                 Inl (E (Some ErrDynamicConditionEval) [] ''want boolean got %s''
                        [ArgType (TypeOf v)] None)
               else Inr (IsTrue v)))"

text \<open>The value of \<^verbatim>\<open>foreach\<close>: the zero value when the attribute is absent.\<close>

definition evalForEach :: "Env \<Rightarrow> Context \<Rightarrow> Attribute option \<Rightarrow> error + Value" where
  "evalForEach env ctx fo =
     (case fo of
        None \<Rightarrow> Inr NilVal
      | Some a \<Rightarrow>
          (case Eval env ctx (Expr a) of
             Inl err \<Rightarrow> Inl (wrapAttrErr err a ''evaluating `for_each` expression'' [])
           | Inr v \<Rightarrow>
               if \<not> CanIterateElements v then
                 Inl (attrErr a ''`for_each` expression of type %s cannot be iterated''
                        [ArgType (TypeOf v)])
               else Inr v))"

text \<open>The name of the loop variable: the generated block type unless \<^verbatim>\<open>iterator\<close> is set.\<close>

definition iteratorName :: "Env \<Rightarrow> string \<Rightarrow> Attribute option \<Rightarrow> error + string" where
  "iteratorName env genBlockType io =
     (case io of
        None \<Rightarrow> Inr genBlockType
      | Some a \<Rightarrow>
          (case AbsTraversalForExpr env (Expr a) of
             None \<Rightarrow> Inl (E (Some ErrInvalidDynamicIterator) [AttrRange a]
                            ''dynamic iterator must be a single variable name'' [] None)
           | Some tr \<Rightarrow>
               (case tr of
                  [root] \<Rightarrow> Inr root
                | _ \<Rightarrow> Inl (E (Some ErrInvalidDynamicIterator) [AttrRange a]
                              ''dynamic iterator must be a single variable name'' [] None))))"

text \<open>
  The structural checks at the head of \<^verbatim>\<open>appendDynamicBlocks\<close>. \<open>dynamicBlockErrors\<close> is
  the error list \<^verbatim>\<open>errs\<close> as it stands when \<^verbatim>\<open>errs.AsError()\<close> is tested;
  \<open>dynamicBlockChecks\<close> gives the control attributes, the content block, and that test.
\<close>

definition dynamicBlockErrors :: "Block \<Rightarrow> error list" where
  "dynamicBlockErrors dynblock =
     (let errs0 = (if length (Labels dynblock) \<noteq> 1 then
                     Append [] (Some (E (Some ErrParsing) (LabelRanges dynblock)
                                        ''tm_dynamic requires a single label'' [] None))
                   else []);
          r1 = getDynamicBlockAttrs dynblock;
          errs1 = Append errs0 (snd r1);
          r2 = getContentBlock (Blocks (BlockBody dynblock));
          errs2 = Append errs1 (snd r2)
      in if fst r2 = None \<and> attributes (fst r1) = None then
           Append errs2 (Some (E (Some ErrParsing) [BodyRange (BlockBody dynblock)]
                                ''`content` block or `attributes` obj must be defined''
                                [] None))
         else errs2)"

definition dynamicBlockChecks :: "Block
    \<Rightarrow> dynBlockAttributes \<times> Block option \<times> error option" where
  "dynamicBlockChecks dynblock =
     (fst (getDynamicBlockAttrs dynblock),
      fst (getContentBlock (Blocks (BlockBody dynblock))),
      AsError (dynamicBlockErrors dynblock))"

section \<open>Copying a body with partial evaluation\<close>

text \<open>
  A call returns its error (if any), the destination as the call leaves it, and the
  evaluation context as the call leaves it: the source writes into the destination and
  the context in place, also on the paths that end in an error. The block a call of
  \<^verbatim>\<open>AppendBlock\<close> adds is filled after it was added, so a failed expansion leaves the
  block behind with what was set up to the failure.
\<close>

type_synonym Result = "error option \<times> Item list \<times> Context"

definition optsize :: "Block option \<Rightarrow> nat" where
  "optsize cbo = (case cbo of None \<Rightarrow> 0 | Some b \<Rightarrow> size b)"

function copyBody :: "Env \<Rightarrow> Item list \<Rightarrow> Body \<Rightarrow> Context \<Rightarrow> Result"
and copyBlocks :: "Env \<Rightarrow> Item list \<Rightarrow> Block list \<Rightarrow> Context \<Rightarrow> Result"
and appendBlock :: "Env \<Rightarrow> Item list \<Rightarrow> Block \<Rightarrow> Context \<Rightarrow> Result"
and appendDynamicBlock :: "Env \<Rightarrow> Item list \<Rightarrow> Context \<Rightarrow> string \<Rightarrow> dynBlockAttributes
    \<Rightarrow> Block option \<Rightarrow> Result"
and forEachElement :: "Env \<Rightarrow> Item list \<Rightarrow> Context \<Rightarrow> string \<Rightarrow> string
    \<Rightarrow> dynBlockAttributes \<Rightarrow> Block option \<Rightarrow> (Value \<times> Value) list \<Rightarrow> Result"
and appendDynamicBlocks :: "Env \<Rightarrow> Item list \<Rightarrow> Block \<Rightarrow> Context \<Rightarrow> Result"
where
  "copyBody env dest (Body ats bs br) ctx =
     (case copyAttributes env ctx dest (SortRawAttributes env ats) of
        (Some err, d) \<Rightarrow> (Some err, d, ctx)
      | (None, d) \<Rightarrow> copyBlocks env d bs ctx)"
| "copyBlocks env dest [] ctx = (None, dest, ctx)"
| "copyBlocks env dest (b # bs) ctx =
     (case appendBlock env dest b ctx of
        (Some err, d, c) \<Rightarrow> (Some err, d, c)
      | (None, d, c) \<Rightarrow> copyBlocks env d bs c)"
| "appendBlock env target (Block ty ls bd lr tr) ctx =
     (if ty = ''tm_dynamic'' then appendDynamicBlocks env target (Block ty ls bd lr tr) ctx
      else
        (case copyBody env [] bd ctx of
           (err, inner, c) \<Rightarrow> (err, target @ [BlockItem ty ls inner], c)))"
| "appendDynamicBlock env destination ctx genBlockType attrs contentBlock =
     (case evalLabels env ctx (labels attrs) of
        Inl err \<Rightarrow> (Some err, destination, ctx)
      | Inr ls \<Rightarrow>
          (case applyAttributes env ctx (attributes attrs) of
             (Some err, bd, attributeNames) \<Rightarrow>
               (Some err, destination @ [BlockItem genBlockType ls bd], ctx)
           | (None, bd, attributeNames) \<Rightarrow>
               (case contentBlock of
                  None \<Rightarrow> (None, destination @ [BlockItem genBlockType ls bd], ctx)
                | Some cb \<Rightarrow>
                    (case conflictingField attributeNames (Attributes (BlockBody cb)) of
                       Some err \<Rightarrow> (Some err, destination @ [BlockItem genBlockType ls bd], ctx)
                     | None \<Rightarrow>
                         (case copyBody env bd (BlockBody cb) ctx of
                            (err, bd', c) \<Rightarrow>
                              (err, destination @ [BlockItem genBlockType ls bd'], c))))))"
| "forEachElement env target ctx it genBlockType attrs contentBlock [] = (None, target, ctx)"
| "forEachElement env target ctx it genBlockType attrs contentBlock ((k, v) # kvs) =
     (case appendDynamicBlock env target
             (SetNamespace it [(''key'', k), (''value'', v)] ctx)
             genBlockType attrs contentBlock of
        (Some err, d, c) \<Rightarrow> (Some err, d, c)
      | (None, d, c) \<Rightarrow> forEachElement env d c it genBlockType attrs contentBlock kvs)"
| "appendDynamicBlocks env target (Block ty ls (Body ats bs br) lr tr) ctx =
     (case dynamicBlockChecks (Block ty ls (Body ats bs br) lr tr) of
        (attrs, contentBlock, Some err) \<Rightarrow> (Some err, target, ctx)
      | (attrs, contentBlock, None) \<Rightarrow>
          (case ls of
             [] \<Rightarrow> (Some (Panic ''index out of range''), target, ctx)
           | genBlockType # _ \<Rightarrow>
               (case dynamicCondition env ctx (dcondition attrs) of
                  Inl err \<Rightarrow> (Some err, target, ctx)
                | Inr False \<Rightarrow> (None, target, ctx)
                | Inr True \<Rightarrow>
                    (case evalForEach env ctx (foreach attrs) of
                       Inl err \<Rightarrow> (Some err, target, ctx)
                     | Inr fe \<Rightarrow>
                         if IsNull fe then
                           (case iterator attrs of
                              Some i \<Rightarrow>
                                (Some (E (Some ErrInvalidDynamicIterator) [AttrRange i]
                                   ''iterator should not be defined when for_each is omitted''
                                   [] None), target, ctx)
                            | None \<Rightarrow>
                                appendDynamicBlock env target ctx genBlockType attrs contentBlock)
                         else
                           (case iteratorName env genBlockType (iterator attrs) of
                              Inl err \<Rightarrow> (Some err, target, ctx)
                            | Inr it \<Rightarrow>
                                (case ElementIterator fe of
                                   None \<Rightarrow> (Some (Panic ''ElementIterator''), target, ctx)
                                 | Some kvs \<Rightarrow>
                                     (case forEachElement env target ctx it genBlockType attrs
                                             contentBlock kvs of
                                        (err, d, c) \<Rightarrow> (err, d, DeleteNamespace it c))))))))"

  by pat_completeness auto


termination
proof -
  have loop: "c \<in> set bs \<or> cb = Some c"
    if "contentBlockLoop bs cb errs = (Some c, es)" for bs cb errs c es
    using that
    by (induction bs cb errs rule: contentBlockLoop.induct) (auto split: if_splits)
  have mem: "c \<in> set (Blocks (BlockBody b))"
    if "fst (snd (dynamicBlockChecks b)) = Some c" for b c
    using that loop [of "Blocks (BlockBody b)" None "[]" c]
    by (auto simp: dynamicBlockChecks_def getContentBlock_def
          split: prod.splits option.splits)
  have small: "optsize cbo < size b"
    if "fst (snd (dynamicBlockChecks b)) = cbo" for b cbo
  proof (cases cbo)
    case None
    then show ?thesis by (cases b) (simp add: optsize_def)
  next
    case (Some c)
    with that mem have "c \<in> set (Blocks (BlockBody b))" by simp
    then have "size c \<le> size_list size (Blocks (BlockBody b))"
      by (simp add: size_list_estimation')
    moreover have "size_list size (Blocks (BlockBody b)) < size b"
      by (cases b; cases "BlockBody b") simp
    ultimately show ?thesis using Some by (simp add: optsize_def)
  qed
  have body: "size (BlockBody c) < optsize (Some c)" for c
    by (cases c) (simp add: optsize_def)
  have small':
    "optsize cbo < Suc (Suc (size_list size bs))"
    if "(a, y) = dynamicBlockChecks (Block ty ls (Body ats bs br) lr tr)" and "(cbo, e) = y"
    for a y cbo e ty ls ats bs br lr tr
  proof -
    from that have "fst (snd (dynamicBlockChecks (Block ty ls (Body ats bs br) lr tr))) = cbo"
      by (metis fst_conv snd_conv)
    from small [OF this] show ?thesis by simp
  qed
  show ?thesis
    apply (relation "inv_image (less_than <*lex*> less_than)
      (case_sum
        (case_sum (\<lambda>(env, dest, bd, ctx). (size bd, 0::nat))
          (case_sum (\<lambda>(env, dest, bs, ctx). (size_list size bs, 0))
                    (\<lambda>(env, dest, b, ctx). (size b, 1))))
        (case_sum (\<lambda>(env, dest, ctx, ty, attrs, cbo). (optsize cbo, 0))
          (case_sum (\<lambda>(env, dest, ctx, it, ty, attrs, cbo, kvs). (optsize cbo, Suc (length kvs)))
                    (\<lambda>(env, target, b, ctx). (size b, 0)))))")
              apply (intro wf_inv_image wf_lex_prod wf_less_than)
             apply (simp_all add: body)
     apply (erule (1) small')+
    done
qed

section \<open>Loading the \<^verbatim>\<open>generate_hcl\<close> blocks of a stack\<close>

datatype CommentStyle = SlashComment | HashComment | invalid

definition DefaultComment :: CommentStyle where
  "DefaultComment = SlashComment"

definition commentStyleFromString :: "string \<Rightarrow> error + CommentStyle" where
  "commentStyleFromString str =
     (if str = ''//'' then Inr SlashComment
      else if str = ''#'' then Inr HashComment
      else Inl (Panic ''invalid comment style''))"

record HCL =
  magicCommentStyle :: CommentStyle
  label :: string
  origin :: Range
  body :: string
  condition :: bool
  asserts :: "Assert list"

text \<open>
  A compiled glob is what \<^verbatim>\<open>Match\<close> answers on a string. A nil glob-set is \<open>None\<close>.
\<close>

type_synonym glob = "string \<Rightarrow> bool"

record StackFilterConfig =
  ProjectPaths :: "glob list option"
  RepositoryPaths :: "glob list option"

text \<open>
  Modelled from the spec: \<^verbatim>\<open>hcl.MatchAnyGlob\<close>, which is not among the sources: a
  glob-set matches a path when at least one of its globs does.
\<close>

definition MatchAnyGlob :: "glob list \<Rightarrow> string \<Rightarrow> bool" where
  "MatchAnyGlob globs s = list_ex (\<lambda>g. g s) globs"

text \<open>
  A project path is the list of its components, the root the empty list: \<^verbatim>\<open>Dir\<close> drops
  the last component and leaves the root as it is.
\<close>

type_synonym Path = "string list"

definition PathString :: "Path \<Rightarrow> string" where
  "PathString p = (if p = [] then ''/'' else concat (map (\<lambda>c. ''/'' @ c) p))"

definition PathDir :: "Path \<Rightarrow> Path" where
  "PathDir p = butlast p"

record GenHCLBlock =
  Label :: string
  Dir :: Path
  BlockRange :: Range
  StackFilters :: "StackFilterConfig list"
  Condition :: "Attribute option"
  Inherit :: "Attribute option"
  Lets :: "(string \<times> Expression) list"
  Asserts :: "AssertConfig list"
  Content :: "Body option"
  IsImplicitBlock :: bool

text \<open>
  \<open>Content\<close> is \<open>None\<close> when the body of the content block is not a \<^verbatim>\<open>*hclsyntax.Body\<close>.
\<close>

record Tree =
  IsEmptyConfig :: bool
  GenerateHCLs :: "GenHCLBlock list"

record Root =
  Lookup :: "Path \<Rightarrow> Tree option"
  HCLMagicHeaderCommentStyle :: "string option"
  RootDir :: string

record Stack =
  StackDir :: Path

definition CommentStyleFromConfig :: "Root \<Rightarrow> error + CommentStyle" where
  "CommentStyleFromConfig root =
     (case HCLMagicHeaderCommentStyle root of
        None \<Rightarrow> Inr DefaultComment
      | Some str \<Rightarrow> commentStyleFromString str)"

text \<open>
  \<^verbatim>\<open>loadGenHCLBlocks\<close> climbs from the directory to the root, the blocks of the closer
  directory first. No path of it makes an error.
\<close>

function loadGenHCLBlocks :: "Root \<Rightarrow> Path \<Rightarrow> GenHCLBlock list" where
  "loadGenHCLBlocks root cfgdir =
     (let res = (case Lookup root cfgdir of
                   None \<Rightarrow> []
                 | Some cfg \<Rightarrow> if \<not> IsEmptyConfig cfg then GenerateHCLs cfg else [])
      in if PathDir cfgdir = cfgdir then res
         else res @ loadGenHCLBlocks root (PathDir cfgdir))"
  by pat_completeness auto
termination
  by (relation "measure (\<lambda>(root, cfgdir). length cfgdir)")
     (auto simp: PathDir_def, case_tac cfgdir, auto)

text \<open>
  The loop over the two glob-sets of one filter. Go visits the entries of the map
  literal in an order it leaves open; the list is that order.
\<close>

fun globSetsMatch :: "string \<Rightarrow> glob list option list \<Rightarrow> bool" where
  "globSetsMatch dir [] = True"
| "globSetsMatch dir (globs # rest) =
     (case globs of
        None \<Rightarrow> globSetsMatch dir rest
      | Some gs \<Rightarrow> if \<not> MatchAnyGlob gs dir then False else globSetsMatch dir rest)"

definition filterMatched :: "string \<Rightarrow> StackFilterConfig \<Rightarrow> bool" where
  "filterMatched dir cond = globSetsMatch dir [ProjectPaths cond, RepositoryPaths cond]"

fun stackFiltersLoop :: "string \<Rightarrow> StackFilterConfig list \<Rightarrow> bool \<Rightarrow> bool" where
  "stackFiltersLoop dir [] matchedAny = matchedAny"
| "stackFiltersLoop dir (cond # conds) matchedAny =
     stackFiltersLoop dir conds (matchedAny \<or> filterMatched dir cond)"

definition matchedAnyStackFilter :: "Stack \<Rightarrow> GenHCLBlock \<Rightarrow> bool" where
  "matchedAnyStackFilter st hclBlock =
     stackFiltersLoop (PathString (StackDir st)) (StackFilters hclBlock)
       (length (StackFilters hclBlock) = 0)"

definition evalCondition :: "Env \<Rightarrow> Context \<Rightarrow> Attribute option \<Rightarrow> error + bool" where
  "evalCondition env ctx co =
     (case co of
        None \<Rightarrow> Inr True
      | Some a \<Rightarrow>
          (case Eval env ctx (Expr a) of
             Inl err \<Rightarrow> Inl (E (Some ErrConditionEval) [] [] [] (Some err))
           | Inr v \<Rightarrow>
               if TypeOf v \<noteq> TBool then
                 Inl (E (Some ErrInvalidConditionType) []
                        ''condition has type %s but must be boolean'' [ArgType (TypeOf v)] None)
               else Inr (IsTrue v)))"

definition evalInherit :: "Env \<Rightarrow> Context \<Rightarrow> Attribute option \<Rightarrow> error + bool" where
  "evalInherit env ctx io =
     (case io of
        None \<Rightarrow> Inr True
      | Some a \<Rightarrow>
          (case Eval env ctx (Expr a) of
             Inl err \<Rightarrow> Inl (E (Some ErrInheritEval) [] [] [] (Some err))
           | Inr v \<Rightarrow>
               if TypeOf v \<noteq> TBool then
                 Inl (E (Some ErrInvalidInheritType) []
                        ''\"inherit\" has type %s but must be boolean'' [ArgType (TypeOf v)] None)
               else Inr (IsTrue v)))"

definition zeroAssert :: Assert where
  "zeroAssert = \<lparr>aRange = SrcRange [] 0 0, Warning = False, Assertion = False, Message = []\<rparr>"

text \<open>
  The loop over the assertions of a block: the evaluated assertions (the zero value
  where the evaluation failed), the errors met, and \<^verbatim>\<open>assertFailed\<close>.
\<close>

fun assertsLoop :: "Env \<Rightarrow> Context \<Rightarrow> AssertConfig list
    \<Rightarrow> Assert list \<times> error list \<times> bool \<Rightarrow> Assert list \<times> error list \<times> bool" where
  "assertsLoop env ctx [] acc = acc"
| "assertsLoop env ctx (assertCfg # cfgs) acc =
     (case acc of (done, assertsErrs, assertFailed) \<Rightarrow>
        (case EvalAssert env ctx assertCfg of
           Inl err \<Rightarrow>
             assertsLoop env ctx cfgs (done @ [zeroAssert], Append assertsErrs (Some err),
               assertFailed)
         | Inr a \<Rightarrow>
             assertsLoop env ctx cfgs
               (done @ [a], assertsErrs, assertFailed \<or> (\<not> Assertion a \<and> \<not> Warning a))))"

definition evalErr :: "Env \<Rightarrow> string \<Rightarrow> Kind \<Rightarrow> GenHCLBlock \<Rightarrow> error \<Rightarrow> error" where
  "evalErr env rootdir kind blk err =
     (if IsImplicitBlock blk then
        E (Some kind) [] ''tmgen file \"%s\"''
          [ArgStr (PrjAbsPath env rootdir (Filename (BlockRange blk)))] (Some err)
      else E (Some kind) [] ''generate_hcl %q'' [ArgStr (Label blk)] (Some err))"

text \<open>What one turn of the loop of \<^verbatim>\<open>Load\<close> does with the list of results.\<close>

datatype Outcome = Emit HCL | Skip | Abort error

text \<open>
  The last stage of a turn: the content of the block is copied into a new file and
  formatted.
\<close>

definition generateContent :: "Env \<Rightarrow> Root \<Rightarrow> Context \<Rightarrow> CommentStyle \<Rightarrow> GenHCLBlock
    \<Rightarrow> bool \<Rightarrow> Assert list \<Rightarrow> Outcome" where
  "generateContent env root ctx commentStyle hclBlock cnd as =
     (let ctx' = SetFunction (stdlibName env ''hcl_expression'') HCLExpressionFunc ctx in
      case Content hclBlock of
        None \<Rightarrow> Abort (Panic ''unexpected block body type'')
      | Some blockBody \<Rightarrow>
          (case copyBody env [] blockBody ctx' of
             (Some err, gen, c) \<Rightarrow> Abort (evalErr env (RootDir root) ErrContentEval hclBlock err)
           | (None, gen, c) \<Rightarrow>
               (case FormatMultiline env (Bytes env gen) (Filename (BlockRange hclBlock)) of
                  Inl err \<Rightarrow> Abort (Panic ''internal error: formatting generated code'')
                | Inr formatted \<Rightarrow>
                    Emit \<lparr>magicCommentStyle = commentStyle, label = Label hclBlock,
                          origin = BlockRange hclBlock, body = formatted, condition = cnd,
                          asserts = as\<rparr>)))"

text \<open>
  The evaluation context of one turn: a copy of the given context with the vendor
  function of the block registered and the \<^verbatim>\<open>lets\<close> of the block loaded. The channel of
  vendor requests is left out.
\<close>

definition blockContext :: "Env \<Rightarrow> Stack \<Rightarrow> Context \<Rightarrow> string \<Rightarrow> GenHCLBlock
    \<Rightarrow> error + Context" where
  "blockContext env st evalctx vendorDir hclBlock =
     LetsLoad env (Lets hclBlock)
       (SetFunction (stdlibName env ''vendor'')
          (VendorFunc (vendorTargetDir env (PathString (StackDir st)) (Label hclBlock))
             vendorDir)
          evalctx)"

text \<open>One turn of the loop of \<^verbatim>\<open>Load\<close>, for one block.\<close>

definition loadBlock :: "Env \<Rightarrow> Root \<Rightarrow> Stack \<Rightarrow> Context \<Rightarrow> string \<Rightarrow> CommentStyle
    \<Rightarrow> GenHCLBlock \<Rightarrow> Outcome" where
  "loadBlock env root st evalctx vendorDir commentStyle hclBlock =
     (if \<not> matchedAnyStackFilter st hclBlock then
        Emit \<lparr>magicCommentStyle = commentStyle, label = Label hclBlock,
              origin = BlockRange hclBlock, body = [], condition = False, asserts = []\<rparr>
      else
        (case blockContext env st evalctx vendorDir hclBlock of
           Inl err \<Rightarrow> Abort err
         | Inr ctx \<Rightarrow>
             (case evalCondition env ctx (Condition hclBlock) of
                Inl err \<Rightarrow> Abort err
              | Inr cnd \<Rightarrow>
                  if \<not> cnd then
                    Emit \<lparr>magicCommentStyle = commentStyle, label = Label hclBlock,
                          origin = BlockRange hclBlock, body = [], condition = cnd,
                          asserts = []\<rparr>
                  else
                    (case evalInherit env ctx (Inherit hclBlock) of
                       Inl err \<Rightarrow> Abort err
                     | Inr inh \<Rightarrow>
                         if \<not> inh \<and> Dir hclBlock \<noteq> StackDir st then Skip
                         else
                           (case assertsLoop env ctx (Asserts hclBlock) ([], [], False) of
                              (as, assertsErrs, assertFailed) \<Rightarrow>
                                (case AsError assertsErrs of
                                   Some err \<Rightarrow> Abort err
                                 | None \<Rightarrow>
                                     if assertFailed then
                                       Emit \<lparr>magicCommentStyle = commentStyle,
                                             label = Label hclBlock,
                                             origin = BlockRange hclBlock, body = [],
                                             condition = cnd, asserts = as\<rparr>
                                     else generateContent env root ctx commentStyle hclBlock
                                            cnd as))))))"

fun LoadLoop :: "Env \<Rightarrow> Root \<Rightarrow> Stack \<Rightarrow> Context \<Rightarrow> string \<Rightarrow> CommentStyle
    \<Rightarrow> GenHCLBlock list \<Rightarrow> HCL list \<Rightarrow> error + HCL list" where
  "LoadLoop env root st evalctx vendorDir commentStyle [] hcls = Inr hcls"
| "LoadLoop env root st evalctx vendorDir commentStyle (hclBlock # rest) hcls =
     (case loadBlock env root st evalctx vendorDir commentStyle hclBlock of
        Emit h \<Rightarrow> LoadLoop env root st evalctx vendorDir commentStyle rest (hcls @ [h])
      | Skip \<Rightarrow> LoadLoop env root st evalctx vendorDir commentStyle rest hcls
      | Abort err \<Rightarrow> Inl err)"

text \<open>
  \<^verbatim>\<open>Load\<close>: the results of the turns, sorted by label with a stable sort. Strings are
  ordered as Go orders them, byte by byte.
\<close>

definition Load :: "Env \<Rightarrow> Root \<Rightarrow> Stack \<Rightarrow> Context \<Rightarrow> string \<Rightarrow> error + HCL list" where
  "Load env root st evalctx vendorDir =
     (case CommentStyleFromConfig root of
        Inl err \<Rightarrow> Inl err
      | Inr commentStyle \<Rightarrow>
          (case LoadLoop env root st evalctx vendorDir commentStyle
                  (loadGenHCLBlocks root (StackDir st)) [] of
             Inl err \<Rightarrow> Inl err
           | Inr hcls \<Rightarrow> Inr (sort_key label hcls)))"

section \<open>A reference instance of the collaborators\<close>

text \<open>
  Modelled from the spec: the evaluator, the \<^verbatim>\<open>lets\<close> loader, the assertion evaluator and
  the other collaborators of section 6 of the specification are not among the sources.
  The theorems below hold for every instance of \<open>Env\<close>; this instance runs them on
  concrete inputs. Its expressions are literals and references \<^verbatim>\<open>namespace.attribute\<close>:
  \<open>refEval\<close> fails on a reference into a namespace that is not bound, \<open>refPartialEval\<close>
  leaves such a reference as it is, an \<open>OpaqueExpr\<close> is a call of a function that does
  not exist and fails under both. Attributes are sorted by name. The rendering
  \<open>refBytes\<close> keeps the names of attributes and blocks only.
\<close>

fun refEval :: "Context \<Rightarrow> Expression \<Rightarrow> error + Value" where
  "refEval ctx (LiteralValueExpr v r) = Inr v"
| "refEval ctx (ScopeTraversalExpr tr r) =
     (case tr of
        [ns, at] \<Rightarrow>
          (case namespaces ctx ns of
             None \<Rightarrow> Inl (E None [r] ''unknown variable %s'' [ArgStr ns] None)
           | Some vals \<Rightarrow>
               (case map_of vals at of
                  None \<Rightarrow> Inl (E None [r] ''unsupported attribute %s'' [ArgStr at] None)
                | Some v \<Rightarrow> Inr v))
      | _ \<Rightarrow> Inl (E None [r] ''unsupported traversal'' [] None))"
| "refEval ctx (ObjectConsExpr its r) = Inl (E None [r] ''unsupported expression'' [] None)"
| "refEval ctx (OpaqueExpr n r) = Inl (E None [r] ''call to unknown function'' [] None)"

fun refPartialLeaf :: "Context \<Rightarrow> Expression \<Rightarrow> error + Expression" where
  "refPartialLeaf ctx (LiteralValueExpr v r) = Inr (LiteralValueExpr v r)"
| "refPartialLeaf ctx (ScopeTraversalExpr tr r) =
     (case tr of
        [] \<Rightarrow> Inr (ScopeTraversalExpr tr r)
      | ns # rest \<Rightarrow>
          if namespaces ctx ns = None then Inr (ScopeTraversalExpr tr r)
          else
            (case refEval ctx (ScopeTraversalExpr tr r) of
               Inl err \<Rightarrow> Inl err
             | Inr v \<Rightarrow> Inr (LiteralValueExpr v r)))"
| "refPartialLeaf ctx (ObjectConsExpr its r) = Inr (ObjectConsExpr its r)"
| "refPartialLeaf ctx (OpaqueExpr n r) = Inl (E None [r] ''call to unknown function'' [] None)"

fun refPartialItems :: "Context \<Rightarrow> (Expression \<times> Expression) list
    \<Rightarrow> error + (Expression \<times> Expression) list" where
  "refPartialItems ctx [] = Inr []"
| "refPartialItems ctx ((ke, ve) # its) =
     (case refPartialLeaf ctx ke of
        Inl err \<Rightarrow> Inl err
      | Inr ke' \<Rightarrow>
          (case refPartialLeaf ctx ve of
             Inl err \<Rightarrow> Inl err
           | Inr ve' \<Rightarrow>
               (case refPartialItems ctx its of
                  Inl err \<Rightarrow> Inl err
                | Inr rest \<Rightarrow> Inr ((ke', ve') # rest))))"

fun refPartialEval :: "Context \<Rightarrow> Expression \<Rightarrow> error + Expression" where
  "refPartialEval ctx (ObjectConsExpr its r) =
     (case refPartialItems ctx its of
        Inl err \<Rightarrow> Inl err
      | Inr its' \<Rightarrow> Inr (ObjectConsExpr its' r))"
| "refPartialEval ctx e = refPartialLeaf ctx e"

fun refStrings :: "Value list \<Rightarrow> error + string list" where
  "refStrings [] = Inr []"
| "refStrings (v # vs) =
     (case AsString v of
        None \<Rightarrow> Inl (E None [] ''value is not a string'' [ArgType (TypeOf v)] None)
      | Some s \<Rightarrow> (case refStrings vs of Inl err \<Rightarrow> Inl err | Inr rest \<Rightarrow> Inr (s # rest)))"

fun refValueAsStringList :: "Value \<Rightarrow> error + string list" where
  "refValueAsStringList (ListVal vs) = refStrings vs"
| "refValueAsStringList (TupleVal vs) = refStrings vs"
| "refValueAsStringList v =
     (if IsNull v then Inr []
      else Inl (E None [] ''value must be a list'' [ArgType (TypeOf v)] None))"

fun refLetsLoop :: "Context \<Rightarrow> (string \<times> Expression) list \<Rightarrow> (string \<times> Value) list
    \<Rightarrow> error + Context" where
  "refLetsLoop ctx [] vals = Inr (SetNamespace ''let'' vals ctx)"
| "refLetsLoop ctx ((n, e) # rest) vals =
     (case refEval (SetNamespace ''let'' vals ctx) e of
        Inl err \<Rightarrow> Inl (E None [exprRange e] ''evaluating lets'' [ArgStr n] (Some err))
      | Inr v \<Rightarrow> refLetsLoop ctx rest (vals @ [(n, v)]))"

definition refLetsLoad :: "(string \<times> Expression) list \<Rightarrow> Context \<Rightarrow> error + Context" where
  "refLetsLoad lets ctx = refLetsLoop ctx lets []"

definition refEvalAssert :: "Context \<Rightarrow> AssertConfig \<Rightarrow> error + Assert" where
  "refEvalAssert ctx cfg =
     (case refEval ctx (acAssertion cfg) of
        Inl err \<Rightarrow> Inl (E None [acRange cfg] ''evaluating assert.assertion'' [] (Some err))
      | Inr (BoolVal a) \<Rightarrow>
          (case refEval ctx (acMessage cfg) of
             Inr (StringVal m) \<Rightarrow>
               (case acWarning cfg of
                  None \<Rightarrow> Inr \<lparr>aRange = acRange cfg, Warning = False, Assertion = a, Message = m\<rparr>
                | Some we \<Rightarrow>
                    (case refEval ctx we of
                       Inr (BoolVal w) \<Rightarrow>
                         Inr \<lparr>aRange = acRange cfg, Warning = w, Assertion = a, Message = m\<rparr>
                     | _ \<Rightarrow> Inl (E None [acRange cfg] ''evaluating assert.warning'' [] None)))
           | _ \<Rightarrow> Inl (E None [acRange cfg] ''evaluating assert.message'' [] None))
      | Inr v \<Rightarrow> Inl (E None [acRange cfg] ''assert.assertion must be boolean'' [] None))"

fun refBytes :: "Item list \<Rightarrow> string" where
  "refBytes [] = []"
| "refBytes (AttributeItem n t # its) = n @ '' = ...; '' @ refBytes its"
| "refBytes (BlockItem ty ls bd # its) = ty @ '' { '' @ refBytes bd @ ''} '' @ refBytes its"

definition refEnv :: Env where
  "refEnv =
     \<lparr>Eval = refEval,
      PartialEval = refPartialEval,
      AbsTraversalForExpr = (\<lambda>e. case e of ScopeTraversalExpr tr r \<Rightarrow> Some tr | _ \<Rightarrow> None),
      ValidIdentifier = (\<lambda>s. s \<noteq> [] \<and> CHR '' '' \<notin> set s),
      ValueAsStringList = refValueAsStringList,
      SortRawAttributes = sort_key Name,
      LetsLoad = refLetsLoad,
      EvalAssert = refEvalAssert,
      Bytes = refBytes,
      FormatMultiline = (\<lambda>s p. Inr s),
      stdlibName = (\<lambda>n. ''tm_'' @ n),
      vendorTargetDir = (\<lambda>d n. d),
      PrjAbsPath = (\<lambda>r p. p)\<rparr>"

section \<open>Concrete inputs\<close>

text \<open>
  A stack at \<^verbatim>\<open>/stacks/a\<close>, an empty evaluation context, and a \<^verbatim>\<open>generate_hcl\<close> block
  declared in the directory of the stack, with no filter, no condition, no assertion
  and an empty content. The runs below vary it.
\<close>

definition exRange :: Range where
  "exRange = SrcRange ''/stacks/gen.tm'' 0 0"

definition exStack :: Stack where
  "exStack = \<lparr>StackDir = [''stacks'', ''a'']\<rparr>"

definition exRoot :: Root where
  "exRoot = \<lparr>Lookup = (\<lambda>p. None), HCLMagicHeaderCommentStyle = None, RootDir = ''/repo''\<rparr>"

definition exContext :: Context where
  "exContext = \<lparr>namespaces = Map.empty, funcs = Map.empty\<rparr>"

definition exBlock :: GenHCLBlock where
  "exBlock =
     \<lparr>Label = ''main.tf'', Dir = [''stacks'', ''a''], BlockRange = exRange, StackFilters = [],
      Condition = None, Inherit = None, Lets = [], Asserts = [],
      Content = Some (Body [] [] exRange), IsImplicitBlock = False\<rparr>"

definition exFilter :: StackFilterConfig where
  "exFilter = \<lparr>ProjectPaths = Some [\<lambda>s. s = ''/other''], RepositoryPaths = None\<rparr>"

definition exBlockContext :: Context where
  "exBlockContext =
     SetNamespace ''let'' []
       (SetFunction ''tm_vendor'' (VendorFunc ''/stacks/a'' ''/vendor'') exContext)"

definition exAttr :: "string \<Rightarrow> Value \<Rightarrow> Attribute" where
  "exAttr n v = Attribute n (LiteralValueExpr v exRange) exRange"

definition exInvalidContent :: Body where
  "exInvalidContent = Body [Attribute ''x'' (OpaqueExpr 0 exRange) exRange] [] exRange"

definition exRootWith :: "GenHCLBlock list \<Rightarrow> GenHCLBlock list \<Rightarrow> Root" where
  "exRootWith own inherited =
     \<lparr>Lookup = (\<lambda>p. if p = [''stacks'', ''a''] then Some \<lparr>IsEmptyConfig = False, GenerateHCLs = own\<rparr>
                    else if p = [] then Some \<lparr>IsEmptyConfig = False, GenerateHCLs = inherited\<rparr>
                    else None),
      HCLMagicHeaderCommentStyle = None, RootDir = ''/repo''\<rparr>"

definition exCondFalse :: GenHCLBlock where
  "exCondFalse = exBlock\<lparr>Condition := Some (exAttr ''condition'' (BoolVal False))\<rparr>"

definition exCondString :: GenHCLBlock where
  "exCondString = exBlock\<lparr>Condition := Some (exAttr ''condition'' (StringVal ''yes''))\<rparr>"

definition exArtifact :: "string \<Rightarrow> bool \<Rightarrow> HCL" where
  "exArtifact l c =
     \<lparr>magicCommentStyle = SlashComment, label = l, origin = exRange, body = [], condition = c,
      asserts = []\<rparr>"

definition exAncestor :: GenHCLBlock where
  "exAncestor =
     exBlock\<lparr>Dir := [], Condition := Some (exAttr ''condition'' (BoolVal False)),
             Inherit := Some (exAttr ''inherit'' (BoolVal False))\<rparr>"

definition exNotInherited :: GenHCLBlock where
  "exNotInherited = exBlock\<lparr>Dir := [], Inherit := Some (exAttr ''inherit'' (BoolVal False))\<rparr>"

definition exOwnNotInherited :: GenHCLBlock where
  "exOwnNotInherited = exBlock\<lparr>Inherit := Some (exAttr ''inherit'' (BoolVal False))\<rparr>"

definition exInheritString :: GenHCLBlock where
  "exInheritString = exBlock\<lparr>Inherit := Some (exAttr ''inherit'' (StringVal ''no''))\<rparr>"

definition exAssertCfg :: "Expression \<Rightarrow> Expression option \<Rightarrow> AssertConfig" where
  "exAssertCfg a w =
     \<lparr>acRange = exRange, acWarning = w, acAssertion = a,
      acMessage = LiteralValueExpr (StringVal ''msg'') exRange\<rparr>"

definition exLit :: "Value \<Rightarrow> Expression" where
  "exLit v = LiteralValueExpr v exRange"

definition exAssert :: "bool \<Rightarrow> bool \<Rightarrow> Assert" where
  "exAssert a w = \<lparr>aRange = exRange, Warning = w, Assertion = a, Message = ''msg''\<rparr>"

definition exAssertError :: error where
  "exAssertError =
     E None [exRange] ''evaluating assert.assertion'' []
       (Some (E None [exRange] ''call to unknown function'' [] None))"

definition exContent :: Body where
  "exContent = Body [exAttr ''a'' (NumberVal 1)] [] exRange"

definition exAssertBad :: AssertConfig where
  "exAssertBad = exAssertCfg (OpaqueExpr 0 exRange) None"

definition exAssertWarn :: AssertConfig where
  "exAssertWarn = exAssertCfg (exLit (BoolVal False)) (Some (exLit (BoolVal True)))"

definition exAssertFail :: AssertConfig where
  "exAssertFail = exAssertCfg (exLit (BoolVal False)) None"

definition exBody :: "Attribute list \<Rightarrow> Block list \<Rightarrow> Body" where
  "exBody as bs = Body as bs exRange"

definition exContentBlock :: "Attribute list \<Rightarrow> Block" where
  "exContentBlock as = Block ''content'' [] (exBody as []) [] exRange"

definition exDynamic :: "string list \<Rightarrow> Attribute list \<Rightarrow> Block list \<Rightarrow> Block" where
  "exDynamic ls as bs = Block ''tm_dynamic'' ls (exBody as bs) (map (\<lambda>l. exRange) ls) exRange"

definition exInvalidDynamic :: Block where
  "exInvalidDynamic =
     exDynamic [''a'', ''b'']
       [exAttr ''foo'' (NumberVal 1), exAttr ''for_each'' (ListVal []), exAttr ''bar'' (NumberVal 2)]
       [Block ''other'' [] (exBody [] []) [] exRange, exContentBlock [], exContentBlock []]"

definition exIteratorAttr :: Attribute where
  "exIteratorAttr = Attribute ''iterator'' (ScopeTraversalExpr [''x''] exRange) exRange"

definition exGuarded :: Block where
  "exGuarded =
     exDynamic [''b''] [exAttr ''condition'' (BoolVal False), exIteratorAttr] [exContentBlock []]"

definition exIteratorOnly :: Block where
  "exIteratorOnly = exDynamic [''b''] [exIteratorAttr] [exContentBlock []]"

definition exSingle :: Block where
  "exSingle = exDynamic [''b''] [] [exContentBlock [exAttr ''a'' (NumberVal 1)]]"

definition exNullForEach :: "Attribute list \<Rightarrow> Attribute list \<Rightarrow> Block" where
  "exNullForEach as cs = exDynamic [''b''] (exAttr ''for_each'' (NullVal TMap) # as) [exContentBlock cs]"

definition exForEachAttr :: Attribute where
  "exForEachAttr = exAttr ''for_each'' (ListVal [StringVal ''u'', StringVal ''v''])"

definition exLoop :: "Attribute list \<Rightarrow> Attribute list \<Rightarrow> Block" where
  "exLoop as cs = exDynamic [''b''] (exForEachAttr # as) [exContentBlock cs]"

definition exLoopAttrs :: dynBlockAttributes where
  "exLoopAttrs = noDynBlockAttributes\<lparr>foreach := Some exForEachAttr\<rparr>"

definition exValueRef :: Attribute where
  "exValueRef = Attribute ''val'' (ScopeTraversalExpr [''b'', ''value''] exRange) exRange"

definition exBadAttr :: Attribute where
  "exBadAttr = Attribute ''val'' (OpaqueExpr 0 exRange) exRange"

definition exValBlock :: "string \<Rightarrow> Item" where
  "exValBlock s =
     BlockItem ''b'' []
       [AttributeItem ''val'' (TokensForExpression (LiteralValueExpr (StringVal s) exRange))]"

definition exAttributesAttr :: "Value \<Rightarrow> Attribute" where
  "exAttributesAttr v =
     Attribute ''attributes'' (ObjectConsExpr [(exLit (StringVal ''a''), exLit v)] exRange) exRange"

definition exWithAttributes :: dynBlockAttributes where
  "exWithAttributes =
     noDynBlockAttributes\<lparr>attributes := Some (exAttributesAttr (NumberVal 1))\<rparr>"

definition exTmAttribute :: tmAttribute where
  "exTmAttribute = \<lparr>name = ''a'', tokens = TokensForExpression (exLit (NumberVal 1)), info = exRange\<rparr>"

definition exGuardedLoopAttrs :: dynBlockAttributes where
  "exGuardedLoopAttrs = exLoopAttrs\<lparr>dcondition := Some (exAttr ''condition'' (BoolVal False))\<rparr>"

definition exBadIteratorAttr :: Attribute where
  "exBadIteratorAttr = Attribute ''iterator'' (ScopeTraversalExpr [''x'', ''y''] exRange) exRange"

definition exBadIteratorAttrs :: dynBlockAttributes where
  "exBadIteratorAttrs = exLoopAttrs\<lparr>iterator := Some exBadIteratorAttr\<rparr>"

definition exGuardedInvalid :: Block where
  "exGuardedInvalid = exDynamic [''b''] [exForEachAttr, exAttr ''condition'' (BoolVal False)] []"

definition exNamedLoopAttrs :: dynBlockAttributes where
  "exNamedLoopAttrs = exLoopAttrs\<lparr>iterator := Some exIteratorAttr\<rparr>"

definition exNamedValueRef :: Attribute where
  "exNamedValueRef = Attribute ''val'' (ScopeTraversalExpr [''x'', ''value''] exRange) exRange"

section \<open>Stack filters\<close>

lemma globSetsMatch_iff:
  "globSetsMatch dir sets \<longleftrightarrow> (\<forall>gs. Some gs \<in> set sets \<longrightarrow> MatchAnyGlob gs dir)"
  by (induction sets) (auto split: option.splits)

lemma stackFiltersLoop_iff:
  "stackFiltersLoop dir fs acc \<longleftrightarrow> acc \<or> (\<exists>f\<in>set fs. filterMatched dir f)"
  by (induction fs arbitrary: acc) auto

lemma matchedAnyStackFilter_iff:
  "matchedAnyStackFilter st b \<longleftrightarrow>
     StackFilters b = [] \<or> (\<exists>f\<in>set (StackFilters b). filterMatched (PathString (StackDir st)) f)"
  by (simp add: matchedAnyStackFilter_def stackFiltersLoop_iff)

lemma filterMatched_iff:
  "filterMatched dir f \<longleftrightarrow>
     (\<forall>gs. ProjectPaths f = Some gs \<longrightarrow> (\<exists>g\<in>set gs. g dir)) \<and>
     (\<forall>gs. RepositoryPaths f = Some gs \<longrightarrow> (\<exists>g\<in>set gs. g dir))"
  by (auto simp: filterMatched_def globSetsMatch_iff MatchAnyGlob_def list_ex_iff)

lemma loadBlock_unmatched:
  "\<not> matchedAnyStackFilter st b \<Longrightarrow>
   loadBlock env root st evalctx vd cs b =
     Emit \<lparr>magicCommentStyle = cs, label = Label b, origin = BlockRange b, body = [],
           condition = False, asserts = []\<rparr>"
  by (simp add: loadBlock_def)

text \<open>
  C9. A block with no stack filter matches every stack. A block with filters matches the
  stack exactly when one of its filters does, and a filter matches exactly when each of
  its glob-sets that is not nil has a glob that matches the path of the stack, in
  whichever order the two glob-sets are visited. A block that does not match is not an
  error: the turn emits an artifact with \<open>condition = False\<close> and an empty body.
\<close>

theorem stack_filters_match:
  "(StackFilters b = [] \<longrightarrow> matchedAnyStackFilter st b) \<and>
   (StackFilters b \<noteq> [] \<longrightarrow>
      matchedAnyStackFilter st b =
        (\<exists>f\<in>set (StackFilters b). filterMatched (PathString (StackDir st)) f)) \<and>
   filterMatched dir f =
     ((\<forall>gs. ProjectPaths f = Some gs \<longrightarrow> (\<exists>g\<in>set gs. g dir)) \<and>
      (\<forall>gs. RepositoryPaths f = Some gs \<longrightarrow> (\<exists>g\<in>set gs. g dir))) \<and>
   globSetsMatch dir [RepositoryPaths f, ProjectPaths f] = filterMatched dir f \<and>
   (\<not> matchedAnyStackFilter st b \<longrightarrow>
      loadBlock env root st evalctx vd cs b =
        Emit \<lparr>magicCommentStyle = cs, label = Label b, origin = BlockRange b, body = [],
              condition = False, asserts = []\<rparr>)"
proof (intro conjI impI)
  show "globSetsMatch dir [RepositoryPaths f, ProjectPaths f] = filterMatched dir f"
    by (auto simp: filterMatched_def globSetsMatch_iff)
qed (simp_all add: matchedAnyStackFilter_iff filterMatched_iff [symmetric] loadBlock_unmatched)

theorem stack_filters_match_witness:
  "StackFilters exBlock = [] \<and> matchedAnyStackFilter exStack exBlock \<and>
   StackFilters (exBlock\<lparr>StackFilters := [exFilter]\<rparr>) \<noteq> [] \<and>
   \<not> matchedAnyStackFilter exStack (exBlock\<lparr>StackFilters := [exFilter]\<rparr>) \<and>
   \<not> filterMatched (PathString (StackDir exStack)) exFilter \<and>
   filterMatched ''/other'' exFilter \<and>
   loadBlock refEnv exRoot exStack exContext ''/vendor'' SlashComment
       (exBlock\<lparr>StackFilters := [exFilter]\<rparr>) =
     Emit \<lparr>magicCommentStyle = SlashComment, label = ''main.tf'', origin = exRange, body = [],
           condition = False, asserts = []\<rparr>"
proof -
  have a: "StackFilters exBlock = []" by (simp add: exBlock_def)
  have b: "StackFilters (exBlock\<lparr>StackFilters := [exFilter]\<rparr>) \<noteq> []" by simp
  have c: "\<not> filterMatched (PathString (StackDir exStack)) exFilter"
    by (simp add: filterMatched_def exFilter_def exStack_def PathString_def MatchAnyGlob_def)
  have d: "filterMatched ''/other'' exFilter"
    by (simp add: filterMatched_def exFilter_def MatchAnyGlob_def)
  note t1 = stack_filters_match [of exBlock exStack "''/other''" exFilter]
  note t2 = stack_filters_match [of "exBlock\<lparr>StackFilters := [exFilter]\<rparr>" exStack "''/other''"
      exFilter refEnv exRoot exContext "''/vendor''" SlashComment]
  from t1 a have e: "matchedAnyStackFilter exStack exBlock" by blast
  from t2 b c have f: "\<not> matchedAnyStackFilter exStack (exBlock\<lparr>StackFilters := [exFilter]\<rparr>)"
    by simp
  from t2 f have g: "loadBlock refEnv exRoot exStack exContext ''/vendor'' SlashComment
       (exBlock\<lparr>StackFilters := [exFilter]\<rparr>) =
     Emit \<lparr>magicCommentStyle = SlashComment, label = Label (exBlock\<lparr>StackFilters := [exFilter]\<rparr>),
           origin = BlockRange (exBlock\<lparr>StackFilters := [exFilter]\<rparr>), body = [],
           condition = False, asserts = []\<rparr>" by blast
  show ?thesis using a b c d e f g by (simp add: exBlock_def)
qed

section \<open>The gates of \<^verbatim>\<open>Load\<close>\<close>

declare loadGenHCLBlocks.simps [simp del]

lemma exRootWith_blocks:
  "loadGenHCLBlocks (exRootWith own inherited) (StackDir exStack) = own @ inherited"
  by (simp add: loadGenHCLBlocks.simps [of _ "[''stacks'', ''a'']"]
        loadGenHCLBlocks.simps [of _ "[''stacks'']"] loadGenHCLBlocks.simps [of _ "[]"]
        exRootWith_def exStack_def PathDir_def)

lemma evalCondition_None: "evalCondition env ctx None = Inr True"
  by (simp add: evalCondition_def)

lemma evalCondition_bool:
  "Eval env ctx (Expr a) = Inr (BoolVal x) \<Longrightarrow> evalCondition env ctx (Some a) = Inr x"
  by (simp add: evalCondition_def)

lemma evalCondition_type:
  "Eval env ctx (Expr a) = Inr v \<Longrightarrow> TypeOf v \<noteq> TBool \<Longrightarrow>
   evalCondition env ctx (Some a) =
     Inl (E (Some ErrInvalidConditionType) [] ''condition has type %s but must be boolean''
            [ArgType (TypeOf v)] None)"
  by (simp add: evalCondition_def)

lemma evalInherit_None: "evalInherit env ctx None = Inr True"
  by (simp add: evalInherit_def)

lemma evalInherit_bool:
  "Eval env ctx (Expr a) = Inr (BoolVal x) \<Longrightarrow> evalInherit env ctx (Some a) = Inr x"
  by (simp add: evalInherit_def)

lemma evalInherit_type:
  "Eval env ctx (Expr a) = Inr v \<Longrightarrow> TypeOf v \<noteq> TBool \<Longrightarrow>
   evalInherit env ctx (Some a) =
     Inl (E (Some ErrInvalidInheritType) [] ''\"inherit\" has type %s but must be boolean''
            [ArgType (TypeOf v)] None)"
  by (simp add: evalInherit_def)

lemma blockContext_Content [simp]:
  "blockContext env st evalctx vd (b\<lparr>Content := c\<rparr>) = blockContext env st evalctx vd b"
  by (simp add: blockContext_def)

lemma blockContext_Inherit [simp]:
  "blockContext env st evalctx vd (b\<lparr>Inherit := c\<rparr>) = blockContext env st evalctx vd b"
  by (simp add: blockContext_def)

lemma matched_Content [simp]:
  "matchedAnyStackFilter st (b\<lparr>Content := c\<rparr>) = matchedAnyStackFilter st b"
  by (simp add: matchedAnyStackFilter_def)

lemma matched_Inherit [simp]:
  "matchedAnyStackFilter st (b\<lparr>Inherit := c\<rparr>) = matchedAnyStackFilter st b"
  by (simp add: matchedAnyStackFilter_def)

lemma loadBlock_condition_false:
  assumes "blockContext env st evalctx vd b = Inr ctx"
    and "evalCondition env ctx (Condition b) = Inr False"
  shows "loadBlock env root st evalctx vd cs b =
     Emit \<lparr>magicCommentStyle = cs, label = Label b, origin = BlockRange b, body = [],
           condition = False, asserts = []\<rparr>"
  using assms by (simp add: loadBlock_def)

lemma loadBlock_condition_error:
  assumes "matchedAnyStackFilter st b" and "blockContext env st evalctx vd b = Inr ctx"
    and "evalCondition env ctx (Condition b) = Inl err"
  shows "loadBlock env root st evalctx vd cs b = Abort err"
  using assms by (simp add: loadBlock_def)

lemma generateContent_condition:
  "generateContent env root ctx cs b cnd as = Emit h \<Longrightarrow> condition h = cnd"
  by (auto simp: generateContent_def Let_def split: option.splits prod.splits sum.splits)

lemma loadBlock_condition_true:
  assumes "matchedAnyStackFilter st b" and "blockContext env st evalctx vd b = Inr ctx"
    and "evalCondition env ctx (Condition b) = Inr True"
    and "loadBlock env root st evalctx vd cs b = Emit h"
  shows "condition h"
  using assms
  by (auto simp: loadBlock_def split: sum.splits if_splits prod.splits option.splits
        dest: generateContent_condition)

lemma blockContext_updates [simp]:
  "blockContext env st evalctx vd (b\<lparr>Dir := d\<rparr>) = blockContext env st evalctx vd b"
  "blockContext env st evalctx vd (b\<lparr>Condition := c\<rparr>) = blockContext env st evalctx vd b"
  "blockContext env st evalctx vd (b\<lparr>Asserts := a\<rparr>) = blockContext env st evalctx vd b"
  by (simp_all add: blockContext_def)

lemma matched_updates [simp]:
  "matchedAnyStackFilter st (b\<lparr>Dir := d\<rparr>) = matchedAnyStackFilter st b"
  "matchedAnyStackFilter st (b\<lparr>Condition := c\<rparr>) = matchedAnyStackFilter st b"
  "matchedAnyStackFilter st (b\<lparr>Asserts := a\<rparr>) = matchedAnyStackFilter st b"
  by (simp_all add: matchedAnyStackFilter_def)

lemma exBlock_matched [simp]:
  "matchedAnyStackFilter exStack (exBlock\<lparr>Condition := c\<rparr>)"
  "matchedAnyStackFilter exStack (exBlock\<lparr>Inherit := i\<rparr>)"
  "matchedAnyStackFilter exStack (exBlock\<lparr>Dir := d, Inherit := i\<rparr>)"
  "matchedAnyStackFilter exStack (exBlock\<lparr>Asserts := a\<rparr>)"
  "matchedAnyStackFilter exStack exBlock"
  by (simp_all add: matchedAnyStackFilter_def exBlock_def)

lemma exBlock_context' [simp]:
  "blockContext refEnv exStack exContext ''/vendor'' (exBlock\<lparr>Condition := c\<rparr>) = Inr exBlockContext"
  "blockContext refEnv exStack exContext ''/vendor'' (exBlock\<lparr>Inherit := i\<rparr>) = Inr exBlockContext"
  "blockContext refEnv exStack exContext ''/vendor'' (exBlock\<lparr>Dir := d, Inherit := i\<rparr>) = Inr exBlockContext"
  "blockContext refEnv exStack exContext ''/vendor'' (exBlock\<lparr>Asserts := a\<rparr>) = Inr exBlockContext"
  "blockContext refEnv exStack exContext ''/vendor'' exBlock = Inr exBlockContext"
  by (simp_all add: blockContext_def refEnv_def refLetsLoad_def exBlock_def exBlockContext_def
        exStack_def PathString_def)

lemma exBlock_load:
  "loadBlock refEnv root exStack exContext ''/vendor'' SlashComment (exBlock\<lparr>Label := l\<rparr>) =
     Emit (exArtifact l True)"
  by (simp add: loadBlock_def matchedAnyStackFilter_def blockContext_def refEnv_def
        refLetsLoad_def exBlock_def exStack_def PathString_def evalCondition_def evalInherit_def
        generateContent_def exArtifact_def)

lemma exInvalidContent_fails:
  "fst (copyBody refEnv [] exInvalidContent ctx) \<noteq> None"
  by (simp add: exInvalidContent_def refEnv_def)

text \<open>
  C2. When the condition of a block evaluates to false in the context of the block,
  the turn emits an artifact with \<open>condition = False\<close> and an empty body whatever the
  content of the block is (the content is not looked at), and the loop goes on with the
  next block. A block without a condition counts as true: every artifact it yields has
  \<open>condition = True\<close>. When the condition is evaluated and its value is not a boolean, the
  turn and the whole loop end in the error of kind \<^verbatim>\<open>invalid condition type\<close>.
\<close>

theorem condition_false_artifact:
  "(blockContext env st evalctx vd b = Inr ctx \<and> Condition b = Some a \<and>
      Eval env ctx (Expr a) = Inr (BoolVal False) \<longrightarrow>
      (\<forall>c. loadBlock env root st evalctx vd cs (b\<lparr>Content := c\<rparr>) =
            Emit \<lparr>magicCommentStyle = cs, label = Label b, origin = BlockRange b, body = [],
                  condition = False, asserts = []\<rparr>) \<and>
      LoadLoop env root st evalctx vd cs (b # rest) hcls =
        LoadLoop env root st evalctx vd cs rest
          (hcls @ [\<lparr>magicCommentStyle = cs, label = Label b, origin = BlockRange b, body = [],
                    condition = False, asserts = []\<rparr>])) \<and>
   (matchedAnyStackFilter st b \<and> blockContext env st evalctx vd b = Inr ctx \<and>
      Condition b = None \<longrightarrow>
      evalCondition env ctx (Condition b) = Inr True \<and>
      (\<forall>h. loadBlock env root st evalctx vd cs b = Emit h \<longrightarrow> condition h)) \<and>
   (matchedAnyStackFilter st b \<and> blockContext env st evalctx vd b = Inr ctx \<and>
      Condition b = Some a \<and> Eval env ctx (Expr a) = Inr v \<and> TypeOf v \<noteq> TBool \<longrightarrow>
      loadBlock env root st evalctx vd cs b =
        Abort (E (Some ErrInvalidConditionType) [] ''condition has type %s but must be boolean''
                 [ArgType (TypeOf v)] None) \<and>
      LoadLoop env root st evalctx vd cs (b # rest) hcls =
        Inl (E (Some ErrInvalidConditionType) [] ''condition has type %s but must be boolean''
               [ArgType (TypeOf v)] None) \<and>
      KindText ErrInvalidConditionType = ''invalid condition type'')"
proof (intro conjI impI allI)
  assume h: "blockContext env st evalctx vd b = Inr ctx \<and> Condition b = Some a \<and>
      Eval env ctx (Expr a) = Inr (BoolVal False)"
  then have f: "evalCondition env ctx (Condition b) = Inr False"
    by (simp add: evalCondition_bool)
  show "loadBlock env root st evalctx vd cs (b\<lparr>Content := c\<rparr>) =
      Emit \<lparr>magicCommentStyle = cs, label = Label b, origin = BlockRange b, body = [],
            condition = False, asserts = []\<rparr>" for c
    using loadBlock_condition_false [of env st evalctx vd "b\<lparr>Content := c\<rparr>" ctx root cs] h f
    by simp
  show "LoadLoop env root st evalctx vd cs (b # rest) hcls =
      LoadLoop env root st evalctx vd cs rest
        (hcls @ [\<lparr>magicCommentStyle = cs, label = Label b, origin = BlockRange b, body = [],
                  condition = False, asserts = []\<rparr>])"
    using loadBlock_condition_false [of env st evalctx vd b ctx root cs] h f by simp
next
  assume h: "matchedAnyStackFilter st b \<and> blockContext env st evalctx vd b = Inr ctx \<and>
      Condition b = None"
  then show "evalCondition env ctx (Condition b) = Inr True"
    by (simp add: evalCondition_None)
  show "condition h'" if "loadBlock env root st evalctx vd cs b = Emit h'" for h'
    using loadBlock_condition_true [of st b env evalctx vd ctx root cs h'] h that
    by (simp add: evalCondition_None)
next
  assume h: "matchedAnyStackFilter st b \<and> blockContext env st evalctx vd b = Inr ctx \<and>
      Condition b = Some a \<and> Eval env ctx (Expr a) = Inr v \<and> TypeOf v \<noteq> TBool"
  then have e: "evalCondition env ctx (Condition b) =
      Inl (E (Some ErrInvalidConditionType) [] ''condition has type %s but must be boolean''
             [ArgType (TypeOf v)] None)"
    by (simp add: evalCondition_type)
  from loadBlock_condition_error [OF _ _ e] h
  show l: "loadBlock env root st evalctx vd cs b =
      Abort (E (Some ErrInvalidConditionType) [] ''condition has type %s but must be boolean''
               [ArgType (TypeOf v)] None)"
    by simp
  then show "LoadLoop env root st evalctx vd cs (b # rest) hcls =
      Inl (E (Some ErrInvalidConditionType) [] ''condition has type %s but must be boolean''
             [ArgType (TypeOf v)] None)"
    by simp
  show "KindText ErrInvalidConditionType = ''invalid condition type''" by simp
qed

theorem condition_false_artifact_witness:
  "blockContext refEnv exStack exContext ''/vendor'' exCondFalse = Inr exBlockContext \<and>
   Condition exCondFalse = Some (exAttr ''condition'' (BoolVal False)) \<and>
   Eval refEnv exBlockContext (Expr (exAttr ''condition'' (BoolVal False))) = Inr (BoolVal False) \<and>
   fst (copyBody refEnv [] exInvalidContent exBlockContext) \<noteq> None \<and>
   loadBlock refEnv exRoot exStack exContext ''/vendor'' SlashComment
       (exCondFalse\<lparr>Content := Some exInvalidContent\<rparr>) = Emit (exArtifact ''main.tf'' False) \<and>
   LoadLoop refEnv exRoot exStack exContext ''/vendor'' SlashComment
       [exCondFalse, exBlock\<lparr>Label := ''a.tf''\<rparr>] [] =
     Inr [exArtifact ''main.tf'' False, exArtifact ''a.tf'' True] \<and>
   matchedAnyStackFilter exStack exBlock \<and> Condition exBlock = None \<and>
   loadBlock refEnv exRoot exStack exContext ''/vendor'' SlashComment exBlock =
     Emit (exArtifact ''main.tf'' True) \<and>
   matchedAnyStackFilter exStack exCondString \<and>
   Condition exCondString = Some (exAttr ''condition'' (StringVal ''yes'')) \<and>
   Eval refEnv exBlockContext (Expr (exAttr ''condition'' (StringVal ''yes''))) =
     Inr (StringVal ''yes'') \<and>
   TypeOf (StringVal ''yes'') \<noteq> TBool \<and>
   LoadLoop refEnv exRoot exStack exContext ''/vendor'' SlashComment [exCondString, exBlock] [] =
     Inl (E (Some ErrInvalidConditionType) [] ''condition has type %s but must be boolean''
            [ArgType TString] None)"
proof -
  let ?a = "exAttr ''condition'' (BoolVal False)"
  let ?s = "exAttr ''condition'' (StringVal ''yes'')"
  have c1: "blockContext refEnv exStack exContext ''/vendor'' exCondFalse = Inr exBlockContext"
    by (simp add: exCondFalse_def)
  have c2: "Condition exCondFalse = Some ?a" by (simp add: exCondFalse_def)
  have c3: "Eval refEnv exBlockContext (Expr ?a) = Inr (BoolVal False)"
    by (simp add: refEnv_def exAttr_def)
  note t = condition_false_artifact [of refEnv exStack exContext "''/vendor''" exCondFalse
      exBlockContext ?a exRoot SlashComment "[exBlock\<lparr>Label := ''a.tf''\<rparr>]" "[]"]
  from t c1 c2 c3 have
    l1: "loadBlock refEnv exRoot exStack exContext ''/vendor'' SlashComment
          (exCondFalse\<lparr>Content := Some exInvalidContent\<rparr>) =
        Emit \<lparr>magicCommentStyle = SlashComment, label = Label exCondFalse,
              origin = BlockRange exCondFalse, body = [], condition = False, asserts = []\<rparr>"
    and l2: "LoadLoop refEnv exRoot exStack exContext ''/vendor'' SlashComment
          [exCondFalse, exBlock\<lparr>Label := ''a.tf''\<rparr>] [] =
        LoadLoop refEnv exRoot exStack exContext ''/vendor'' SlashComment
          [exBlock\<lparr>Label := ''a.tf''\<rparr>]
          ([] @ [\<lparr>magicCommentStyle = SlashComment, label = Label exCondFalse,
                  origin = BlockRange exCondFalse, body = [], condition = False, asserts = []\<rparr>])"
    by blast+
  have d1: "matchedAnyStackFilter exStack exCondString" by (simp add: exCondString_def)
  have d2: "blockContext refEnv exStack exContext ''/vendor'' exCondString = Inr exBlockContext"
    by (simp add: exCondString_def)
  have d3: "Condition exCondString = Some ?s" by (simp add: exCondString_def)
  have d4: "Eval refEnv exBlockContext (Expr ?s) = Inr (StringVal ''yes'')"
    by (simp add: refEnv_def exAttr_def)
  note u = condition_false_artifact [of refEnv exStack exContext "''/vendor''" exCondString
      exBlockContext ?s exRoot SlashComment "[exBlock]" "[]" "StringVal ''yes''"]
  from u d1 d2 d3 d4 have
    l3: "LoadLoop refEnv exRoot exStack exContext ''/vendor'' SlashComment [exCondString, exBlock] [] =
         Inl (E (Some ErrInvalidConditionType) [] ''condition has type %s but must be boolean''
                [ArgType (TypeOf (StringVal ''yes''))] None)"
    by simp
  have l4: "loadBlock refEnv exRoot exStack exContext ''/vendor'' SlashComment exBlock =
     Emit (exArtifact ''main.tf'' True)"
    using exBlock_load [of exRoot "''main.tf''"] by (simp add: exBlock_def)
  have n: "Label exCondFalse = ''main.tf''" "BlockRange exCondFalse = exRange"
    by (simp_all add: exCondFalse_def exBlock_def)
  have l1': "loadBlock refEnv exRoot exStack exContext ''/vendor'' SlashComment
       (exCondFalse\<lparr>Content := Some exInvalidContent\<rparr>) = Emit (exArtifact ''main.tf'' False)"
    by (simp only: l1 n exArtifact_def)
  have l2': "LoadLoop refEnv exRoot exStack exContext ''/vendor'' SlashComment
       [exCondFalse, exBlock\<lparr>Label := ''a.tf''\<rparr>] [] =
     Inr [exArtifact ''main.tf'' False, exArtifact ''a.tf'' True]"
    by (subst l2) (simp add: exBlock_load n exArtifact_def)
  have l3': "LoadLoop refEnv exRoot exStack exContext ''/vendor'' SlashComment [exCondString, exBlock] [] =
     Inl (E (Some ErrInvalidConditionType) [] ''condition has type %s but must be boolean''
            [ArgType TString] None)"
    by (subst l3) simp
  have e: "Condition exBlock = None" by (simp add: exBlock_def)
  have f: "TypeOf (StringVal ''yes'') \<noteq> TBool" by simp
  from c1 c2 c3 exInvalidContent_fails [of exBlockContext] l1' l2' exBlock_matched(5) e l4
    d1 d3 d4 f l3'
  show ?thesis by blast
qed

lemma loadBlock_inherit_error:
  assumes "matchedAnyStackFilter st b" and "blockContext env st evalctx vd b = Inr ctx"
    and "evalCondition env ctx (Condition b) = Inr True"
    and "evalInherit env ctx (Inherit b) = Inl err"
  shows "loadBlock env root st evalctx vd cs b = Abort err"
  using assms by (simp add: loadBlock_def)

lemma loadBlock_not_inherited:
  assumes "matchedAnyStackFilter st b" and "blockContext env st evalctx vd b = Inr ctx"
    and "evalCondition env ctx (Condition b) = Inr True"
    and "evalInherit env ctx (Inherit b) = Inr False" and "Dir b \<noteq> StackDir st"
  shows "loadBlock env root st evalctx vd cs b = Skip"
  using assms by (simp add: loadBlock_def)

lemma generateContent_Inherit [simp]:
  "generateContent env root ctx cs (b\<lparr>Inherit := i\<rparr>) cnd as = generateContent env root ctx cs b cnd as"
  by (auto simp: generateContent_def evalErr_def Let_def split: option.splits prod.splits sum.splits)

lemma loadBlock_own_directory:
  assumes "evalInherit env ctx (Inherit b) = Inr i"
    and "blockContext env st evalctx vd b = Inr ctx" and "Dir b = StackDir st"
  shows "loadBlock env root st evalctx vd cs b =
         loadBlock env root st evalctx vd cs (b\<lparr>Inherit := None\<rparr>)"
  using assms
  by (auto simp: loadBlock_def evalInherit_None split: sum.splits prod.splits option.splits)

lemma exEval_literal [simp]: "Eval refEnv ctx (Expr (exAttr n v)) = Inr v"
  by (simp add: refEnv_def exAttr_def)

lemma exRootWith_style: "CommentStyleFromConfig (exRootWith own inherited) = Inr SlashComment"
  by (simp add: CommentStyleFromConfig_def exRootWith_def DefaultComment_def)

text \<open>
  C3, as the source has it. The inherit gate comes after the filter match and the
  condition gate. For a block that matches the stack and whose condition is absent or
  true: when \<^verbatim>\<open>inherit\<close> evaluates to false and the block is declared in another directory
  than the stack, the turn yields nothing and the loop goes on; and a value of
  \<^verbatim>\<open>inherit\<close> that is not a boolean ends the turn in the error of kind
  \<^verbatim>\<open>invalid inherit type\<close>. For a block declared in the directory of the stack, a boolean
  \<^verbatim>\<open>inherit\<close> changes nothing: the turn yields what it yields without the attribute.
\<close>

theorem inherit_gate:
  "(matchedAnyStackFilter st b \<and> blockContext env st evalctx vd b = Inr ctx \<and>
      evalCondition env ctx (Condition b) = Inr True \<and> Inherit b = Some a \<and>
      Eval env ctx (Expr a) = Inr (BoolVal False) \<and> Dir b \<noteq> StackDir st \<longrightarrow>
      loadBlock env root st evalctx vd cs b = Skip \<and>
      LoadLoop env root st evalctx vd cs (b # rest) hcls =
        LoadLoop env root st evalctx vd cs rest hcls) \<and>
   (blockContext env st evalctx vd b = Inr ctx \<and> Inherit b = Some a \<and>
      Eval env ctx (Expr a) = Inr (BoolVal i) \<and> Dir b = StackDir st \<longrightarrow>
      loadBlock env root st evalctx vd cs b =
        loadBlock env root st evalctx vd cs (b\<lparr>Inherit := None\<rparr>)) \<and>
   (matchedAnyStackFilter st b \<and> blockContext env st evalctx vd b = Inr ctx \<and>
      evalCondition env ctx (Condition b) = Inr True \<and> Inherit b = Some a \<and>
      Eval env ctx (Expr a) = Inr v \<and> TypeOf v \<noteq> TBool \<longrightarrow>
      loadBlock env root st evalctx vd cs b =
        Abort (E (Some ErrInvalidInheritType) [] ''\"inherit\" has type %s but must be boolean''
                 [ArgType (TypeOf v)] None) \<and>
      KindText ErrInvalidInheritType = ''invalid inherit type'')"
proof (intro conjI impI)
  assume h: "matchedAnyStackFilter st b \<and> blockContext env st evalctx vd b = Inr ctx \<and>
      evalCondition env ctx (Condition b) = Inr True \<and> Inherit b = Some a \<and>
      Eval env ctx (Expr a) = Inr (BoolVal False) \<and> Dir b \<noteq> StackDir st"
  then have "evalInherit env ctx (Inherit b) = Inr False"
    by (simp add: evalInherit_bool)
  with h show s: "loadBlock env root st evalctx vd cs b = Skip"
    by (simp add: loadBlock_not_inherited)
  then show "LoadLoop env root st evalctx vd cs (b # rest) hcls =
      LoadLoop env root st evalctx vd cs rest hcls"
    by simp
next
  assume h: "blockContext env st evalctx vd b = Inr ctx \<and> Inherit b = Some a \<and>
      Eval env ctx (Expr a) = Inr (BoolVal i) \<and> Dir b = StackDir st"
  then have "evalInherit env ctx (Inherit b) = Inr i"
    by (simp add: evalInherit_bool)
  with h show "loadBlock env root st evalctx vd cs b =
      loadBlock env root st evalctx vd cs (b\<lparr>Inherit := None\<rparr>)"
    by (simp add: loadBlock_own_directory)
next
  assume h: "matchedAnyStackFilter st b \<and> blockContext env st evalctx vd b = Inr ctx \<and>
      evalCondition env ctx (Condition b) = Inr True \<and> Inherit b = Some a \<and>
      Eval env ctx (Expr a) = Inr v \<and> TypeOf v \<noteq> TBool"
  then have "evalInherit env ctx (Inherit b) =
      Inl (E (Some ErrInvalidInheritType) [] ''\"inherit\" has type %s but must be boolean''
             [ArgType (TypeOf v)] None)"
    by (simp add: evalInherit_type)
  with h show "loadBlock env root st evalctx vd cs b =
      Abort (E (Some ErrInvalidInheritType) [] ''\"inherit\" has type %s but must be boolean''
               [ArgType (TypeOf v)] None)"
    by (simp add: loadBlock_inherit_error)
  show "KindText ErrInvalidInheritType = ''invalid inherit type''" by simp
qed

text \<open>
  C3, as the claim states it, fails: a block of the root directory with
  \<^verbatim>\<open>condition = false\<close> and \<^verbatim>\<open>inherit = false\<close>, loaded for the stack \<^verbatim>\<open>/stacks/a\<close>, yields an
  artifact (with \<open>condition = False\<close>), since the condition gate emits it before
  \<^verbatim>\<open>inherit\<close> is looked at.
\<close>

theorem inherit_false_ancestor_counterexample:
  "Inherit exAncestor = Some (exAttr ''inherit'' (BoolVal False)) \<and>
   blockContext refEnv exStack exContext ''/vendor'' exAncestor = Inr exBlockContext \<and>
   Eval refEnv exBlockContext (Expr (exAttr ''inherit'' (BoolVal False))) = Inr (BoolVal False) \<and>
   Dir exAncestor \<noteq> StackDir exStack \<and>
   loadGenHCLBlocks (exRootWith [] [exAncestor]) (StackDir exStack) = [exAncestor] \<and>
   Load refEnv (exRootWith [] [exAncestor]) exStack exContext ''/vendor'' =
     Inr [exArtifact ''main.tf'' False]"
proof -
  have c: "blockContext refEnv exStack exContext ''/vendor'' exAncestor = Inr exBlockContext"
    by (simp add: exAncestor_def)
  have l: "loadBlock refEnv root exStack exContext ''/vendor'' SlashComment exAncestor =
      Emit (exArtifact ''main.tf'' False)" for root
    using loadBlock_condition_false [of refEnv exStack exContext "''/vendor''" exAncestor
        exBlockContext root SlashComment] c
    by (simp add: evalCondition_bool exAncestor_def exArtifact_def exBlock_def)
  have "Load refEnv (exRootWith [] [exAncestor]) exStack exContext ''/vendor'' =
     Inr [exArtifact ''main.tf'' False]"
    by (simp add: Load_def exRootWith_style exRootWith_blocks l)
  then show ?thesis
    using c by (simp add: exRootWith_blocks) (simp add: exAncestor_def exStack_def exBlock_def)
qed

theorem inherit_gate_witness:
  "matchedAnyStackFilter exStack exNotInherited \<and>
   blockContext refEnv exStack exContext ''/vendor'' exNotInherited = Inr exBlockContext \<and>
   evalCondition refEnv exBlockContext (Condition exNotInherited) = Inr True \<and>
   Inherit exNotInherited = Some (exAttr ''inherit'' (BoolVal False)) \<and>
   Eval refEnv exBlockContext (Expr (exAttr ''inherit'' (BoolVal False))) = Inr (BoolVal False) \<and>
   Dir exNotInherited \<noteq> StackDir exStack \<and>
   LoadLoop refEnv exRoot exStack exContext ''/vendor'' SlashComment [exNotInherited, exBlock] [] =
     Inr [exArtifact ''main.tf'' True] \<and>
   Inherit exOwnNotInherited = Some (exAttr ''inherit'' (BoolVal False)) \<and>
   Dir exOwnNotInherited = StackDir exStack \<and>
   loadBlock refEnv exRoot exStack exContext ''/vendor'' SlashComment exOwnNotInherited =
     Emit (exArtifact ''main.tf'' True) \<and>
   Inherit exInheritString = Some (exAttr ''inherit'' (StringVal ''no'')) \<and>
   TypeOf (StringVal ''no'') \<noteq> TBool \<and>
   loadBlock refEnv exRoot exStack exContext ''/vendor'' SlashComment exInheritString =
     Abort (E (Some ErrInvalidInheritType) [] ''\"inherit\" has type %s but must be boolean''
              [ArgType TString] None)"
proof -
  let ?f = "exAttr ''inherit'' (BoolVal False)"
  let ?s = "exAttr ''inherit'' (StringVal ''no'')"
  have a1: "matchedAnyStackFilter exStack exNotInherited"
    by (simp add: exNotInherited_def)
  have a2: "blockContext refEnv exStack exContext ''/vendor'' exNotInherited = Inr exBlockContext"
    by (simp add: exNotInherited_def)
  have a3: "evalCondition refEnv exBlockContext (Condition exNotInherited) = Inr True"
    by (simp add: exNotInherited_def exBlock_def evalCondition_None)
  have a4: "Inherit exNotInherited = Some ?f" by (simp add: exNotInherited_def)
  have a5: "Eval refEnv exBlockContext (Expr ?f) = Inr (BoolVal False)" by simp
  have a6: "Dir exNotInherited \<noteq> StackDir exStack"
    by (simp add: exNotInherited_def exStack_def)
  note t = inherit_gate [of exStack exNotInherited refEnv exContext "''/vendor''" exBlockContext
      ?f exRoot SlashComment "[exBlock]" "[]"]
  from t a1 a2 a3 a4 a5 a6
  have l: "LoadLoop refEnv exRoot exStack exContext ''/vendor'' SlashComment
        [exNotInherited, exBlock] [] =
      LoadLoop refEnv exRoot exStack exContext ''/vendor'' SlashComment [exBlock] []"
    by blast
  have x: "loadBlock refEnv exRoot exStack exContext ''/vendor'' SlashComment exBlock =
      Emit (exArtifact ''main.tf'' True)"
    using exBlock_load [of exRoot "''main.tf''"] by (simp add: exBlock_def)
  have l': "LoadLoop refEnv exRoot exStack exContext ''/vendor'' SlashComment
        [exNotInherited, exBlock] [] = Inr [exArtifact ''main.tf'' True]"
    by (subst l) (simp add: x)
  have b1: "blockContext refEnv exStack exContext ''/vendor'' exOwnNotInherited = Inr exBlockContext"
    by (simp add: exOwnNotInherited_def)
  have b2: "Inherit exOwnNotInherited = Some ?f" by (simp add: exOwnNotInherited_def)
  have b3: "Dir exOwnNotInherited = StackDir exStack"
    by (simp add: exOwnNotInherited_def exStack_def exBlock_def)
  note u = inherit_gate [of exStack exOwnNotInherited refEnv exContext "''/vendor''"
      exBlockContext ?f exRoot SlashComment _ _ False]
  from u b1 b2 b3 a5
  have m: "loadBlock refEnv exRoot exStack exContext ''/vendor'' SlashComment exOwnNotInherited =
      loadBlock refEnv exRoot exStack exContext ''/vendor'' SlashComment
        (exOwnNotInherited\<lparr>Inherit := None\<rparr>)"
    by blast
  have m': "loadBlock refEnv exRoot exStack exContext ''/vendor'' SlashComment exOwnNotInherited =
      Emit (exArtifact ''main.tf'' True)"
    by (subst m) (simp add: exOwnNotInherited_def x [unfolded exBlock_def] exBlock_def)
  have c1: "matchedAnyStackFilter exStack exInheritString"
    by (simp add: exInheritString_def)
  have c2: "blockContext refEnv exStack exContext ''/vendor'' exInheritString = Inr exBlockContext"
    by (simp add: exInheritString_def)
  have c3: "evalCondition refEnv exBlockContext (Condition exInheritString) = Inr True"
    by (simp add: exInheritString_def exBlock_def evalCondition_None)
  have c4: "Inherit exInheritString = Some ?s" by (simp add: exInheritString_def)
  have c5: "Eval refEnv exBlockContext (Expr ?s) = Inr (StringVal ''no'')" by simp
  have c6: "TypeOf (StringVal ''no'') \<noteq> TBool" by simp
  note w = inherit_gate [of exStack exInheritString refEnv exContext "''/vendor''"
      exBlockContext ?s exRoot SlashComment _ _ _ "StringVal ''no''"]
  from w c1 c2 c3 c4 c5 c6
  have n: "loadBlock refEnv exRoot exStack exContext ''/vendor'' SlashComment exInheritString =
     Abort (E (Some ErrInvalidInheritType) [] ''\"inherit\" has type %s but must be boolean''
              [ArgType (TypeOf (StringVal ''no''))] None)"
    by blast
  have n': "loadBlock refEnv exRoot exStack exContext ''/vendor'' SlashComment exInheritString =
     Abort (E (Some ErrInvalidInheritType) [] ''\"inherit\" has type %s but must be boolean''
              [ArgType TString] None)"
    by (subst n) simp
  from a1 a2 a3 a4 a5 a6 l' b2 b3 m' c4 c6 n' show ?thesis by blast
qed

section \<open>The assertions of a block\<close>

lemma assertsLoop_eq:
  "assertsLoop env ctx cfgs (ds, errs, failed) =
     (ds @ map (\<lambda>cfg. case EvalAssert env ctx cfg of Inl e \<Rightarrow> zeroAssert | Inr a \<Rightarrow> a) cfgs,
      errs @ concat (map (\<lambda>cfg. case EvalAssert env ctx cfg of Inl e \<Rightarrow> errs_of e | Inr a \<Rightarrow> [])
                      cfgs),
      failed \<or> (\<exists>cfg\<in>set cfgs. \<exists>a. EvalAssert env ctx cfg = Inr a \<and> \<not> Assertion a \<and> \<not> Warning a))"
  by (induction cfgs arbitrary: ds errs failed) (auto split: sum.splits)

lemma asserts_all_good:
  "\<forall>cfg\<in>set cfgs. \<exists>a. EvalAssert env ctx cfg = Inr a \<Longrightarrow>
   concat (map (\<lambda>cfg. case EvalAssert env ctx cfg of Inl e \<Rightarrow> errs_of e | Inr a \<Rightarrow> []) cfgs) = []"
  by (induction cfgs) auto

lemma AsError_nonempty: "es \<noteq> [] \<Longrightarrow> AsError es = Some (L es)"
  by (cases es) simp_all

lemma generateContent_Content_cong:
  "Content b = Content b' \<Longrightarrow> Label b = Label b' \<Longrightarrow> BlockRange b = BlockRange b' \<Longrightarrow>
   IsImplicitBlock b = IsImplicitBlock b' \<Longrightarrow>
   generateContent env root ctx cs b cnd as = generateContent env root ctx cs b' cnd as"
  by (auto simp: generateContent_def evalErr_def Let_def split: option.splits prod.splits sum.splits)

lemma loadBlock_asserts:
  assumes "matchedAnyStackFilter st b" and "blockContext env st evalctx vd b = Inr ctx"
    and "evalCondition env ctx (Condition b) = Inr True"
    and "evalInherit env ctx (Inherit b) = Inr inh" and "inh \<or> Dir b = StackDir st"
  shows "loadBlock env root st evalctx vd cs b =
     (case assertsLoop env ctx (Asserts b) ([], [], False) of
        (as, errs, failed) \<Rightarrow>
          (case AsError errs of
             Some err \<Rightarrow> Abort err
           | None \<Rightarrow>
               if failed then
                 Emit \<lparr>magicCommentStyle = cs, label = Label b, origin = BlockRange b,
                       body = [], condition = True, asserts = as\<rparr>
               else generateContent env root ctx cs b True as))"
  using assms by (auto simp: loadBlock_def)

lemma exEvalAssert [simp]:
  "EvalAssert refEnv ctx exAssertBad = Inl exAssertError"
  "EvalAssert refEnv ctx exAssertWarn = Inr (exAssert False True)"
  "EvalAssert refEnv ctx exAssertFail = Inr (exAssert False False)"
  by (simp_all add: refEnv_def refEvalAssert_def exAssertBad_def exAssertWarn_def
        exAssertFail_def exAssertCfg_def exLit_def exAssertError_def exAssert_def)

lemma exAssert_fields [simp]:
  "Assertion (exAssert a w) = a" "Warning (exAssert a w) = w"
  by (simp_all add: exAssert_def)

lemma exBlock_gates [simp]:
  "evalCondition refEnv ctx (Condition exBlock) = Inr True"
  "evalInherit refEnv ctx (Inherit exBlock) = Inr True"
  "Dir exBlock = StackDir exStack"
  by (simp_all add: exBlock_def evalCondition_None evalInherit_None exStack_def)

text \<open>
  C5. For a block that reaches the assertions (it matches the stack, its condition is
  absent or true, and the inherit gate lets it through), every assertion is evaluated:
  the errors of all the evaluations that fail are gathered, in order, and if there are
  any the turn ends in their aggregate. When every assertion evaluates and one of them
  has \<open>Assertion = False\<close> and \<open>Warning = False\<close>, the turn emits an artifact with
  \<open>condition = True\<close>, the evaluated assertions and an empty body, whatever the content
  is. When every assertion evaluates and each one passes or is a warning, the turn goes
  on to generate the content.
\<close>

theorem assertions_stage:
  "matchedAnyStackFilter st b \<and> blockContext env st evalctx vd b = Inr ctx \<and>
   evalCondition env ctx (Condition b) = Inr True \<and>
   evalInherit env ctx (Inherit b) = Inr inh \<and> (inh \<or> Dir b = StackDir st) \<longrightarrow>
     (concat (map (\<lambda>cfg. case EvalAssert env ctx cfg of Inl e \<Rightarrow> errs_of e | Inr a \<Rightarrow> [])
                (Asserts b)) \<noteq> [] \<longrightarrow>
        loadBlock env root st evalctx vd cs b =
          Abort (L (concat (map (\<lambda>cfg. case EvalAssert env ctx cfg of
                                          Inl e \<Rightarrow> errs_of e | Inr a \<Rightarrow> []) (Asserts b))))) \<and>
     (\<forall>cfg\<in>set (Asserts b). \<forall>e. EvalAssert env ctx cfg = Inl e \<longrightarrow>
        set (errs_of e) \<subseteq>
          set (concat (map (\<lambda>cfg. case EvalAssert env ctx cfg of
                                   Inl e \<Rightarrow> errs_of e | Inr a \<Rightarrow> []) (Asserts b)))) \<and>
     ((\<forall>cfg\<in>set (Asserts b). \<exists>a. EvalAssert env ctx cfg = Inr a) \<and>
      (\<exists>cfg\<in>set (Asserts b). \<exists>a. EvalAssert env ctx cfg = Inr a \<and> \<not> Assertion a \<and> \<not> Warning a)
      \<longrightarrow>
        (\<forall>c. loadBlock env root st evalctx vd cs (b\<lparr>Content := c\<rparr>) =
              Emit \<lparr>magicCommentStyle = cs, label = Label b, origin = BlockRange b, body = [],
                    condition = True,
                    asserts = map (\<lambda>cfg. case EvalAssert env ctx cfg of
                                           Inl e \<Rightarrow> zeroAssert | Inr a \<Rightarrow> a) (Asserts b)\<rparr>)) \<and>
     ((\<forall>cfg\<in>set (Asserts b). \<exists>a. EvalAssert env ctx cfg = Inr a \<and> (Assertion a \<or> Warning a))
      \<longrightarrow>
        loadBlock env root st evalctx vd cs b =
          generateContent env root ctx cs b True
            (map (\<lambda>cfg. case EvalAssert env ctx cfg of Inl e \<Rightarrow> zeroAssert | Inr a \<Rightarrow> a)
               (Asserts b)))"
proof (intro impI conjI allI ballI)
  assume h: "matchedAnyStackFilter st b \<and> blockContext env st evalctx vd b = Inr ctx \<and>
     evalCondition env ctx (Condition b) = Inr True \<and>
     evalInherit env ctx (Inherit b) = Inr inh \<and> (inh \<or> Dir b = StackDir st)"
  let ?errs = "concat (map (\<lambda>cfg. case EvalAssert env ctx cfg of
                                    Inl e \<Rightarrow> errs_of e | Inr a \<Rightarrow> []) (Asserts b))"
  let ?as = "map (\<lambda>cfg. case EvalAssert env ctx cfg of Inl e \<Rightarrow> zeroAssert | Inr a \<Rightarrow> a)
               (Asserts b)"
  have loop: "assertsLoop env ctx (Asserts b) ([], [], False) =
      (?as, ?errs, \<exists>cfg\<in>set (Asserts b). \<exists>a. EvalAssert env ctx cfg = Inr a \<and>
                      \<not> Assertion a \<and> \<not> Warning a)"
    by (simp add: assertsLoop_eq)
  note eq = loadBlock_asserts [of st _ env evalctx vd ctx inh root cs]
  {
    assume "?errs \<noteq> []"
    then have "AsError ?errs = Some (L ?errs)" by (rule AsError_nonempty)
    then show "loadBlock env root st evalctx vd cs b = Abort (L ?errs)"
      using h by (subst eq) (simp_all add: loop)
  }
  {
    fix cfg e
    assume "cfg \<in> set (Asserts b)" and "EvalAssert env ctx cfg = Inl e"
    then show "set (errs_of e) \<subseteq> set ?errs"
      by (auto intro!: bexI [of _ cfg])
  }
  {
    fix c
    assume g: "(\<forall>cfg\<in>set (Asserts b). \<exists>a. EvalAssert env ctx cfg = Inr a) \<and>
      (\<exists>cfg\<in>set (Asserts b). \<exists>a. EvalAssert env ctx cfg = Inr a \<and> \<not> Assertion a \<and> \<not> Warning a)"
    then have e: "AsError ?errs = None" by (simp add: asserts_all_good)
    from g have f: "(\<exists>cfg\<in>set (Asserts b). \<exists>a. EvalAssert env ctx cfg = Inr a \<and>
        \<not> Assertion a \<and> \<not> Warning a) = True"
      by simp
    show "loadBlock env root st evalctx vd cs (b\<lparr>Content := c\<rparr>) =
        Emit \<lparr>magicCommentStyle = cs, label = Label b, origin = BlockRange b, body = [],
              condition = True, asserts = ?as\<rparr>"
      using h by (subst eq) (simp_all add: loop e f)
  }
  {
    assume g: "\<forall>cfg\<in>set (Asserts b). \<exists>a. EvalAssert env ctx cfg = Inr a \<and> (Assertion a \<or> Warning a)"
    then have "\<forall>cfg\<in>set (Asserts b). \<exists>a. EvalAssert env ctx cfg = Inr a" by blast
    then have e: "AsError ?errs = None" by (simp add: asserts_all_good)
    from g have f: "(\<exists>cfg\<in>set (Asserts b). \<exists>a. EvalAssert env ctx cfg = Inr a \<and>
        \<not> Assertion a \<and> \<not> Warning a) = False"
      by fastforce
    show "loadBlock env root st evalctx vd cs b = generateContent env root ctx cs b True ?as"
      using h by (subst eq) (simp_all add: loop e f)
  }
qed

theorem assertions_stage_witness:
  "matchedAnyStackFilter exStack (exBlock\<lparr>Asserts := [exAssertBad, exAssertFail, exAssertBad]\<rparr>) \<and>
   blockContext refEnv exStack exContext ''/vendor''
       (exBlock\<lparr>Asserts := [exAssertBad, exAssertFail, exAssertBad]\<rparr>) = Inr exBlockContext \<and>
   EvalAssert refEnv exBlockContext exAssertBad = Inl exAssertError \<and>
   loadBlock refEnv exRoot exStack exContext ''/vendor'' SlashComment
       (exBlock\<lparr>Asserts := [exAssertBad, exAssertFail, exAssertBad]\<rparr>) =
     Abort (L [exAssertError, exAssertError]) \<and>
   EvalAssert refEnv exBlockContext exAssertWarn = Inr (exAssert False True) \<and>
   EvalAssert refEnv exBlockContext exAssertFail = Inr (exAssert False False) \<and>
   fst (copyBody refEnv [] exInvalidContent
          (SetFunction ''tm_hcl_expression'' HCLExpressionFunc exBlockContext)) \<noteq> None \<and>
   loadBlock refEnv exRoot exStack exContext ''/vendor'' SlashComment
       (exBlock\<lparr>Asserts := [exAssertWarn, exAssertFail], Content := Some exInvalidContent\<rparr>) =
     Emit \<lparr>magicCommentStyle = SlashComment, label = ''main.tf'', origin = exRange, body = [],
           condition = True, asserts = [exAssert False True, exAssert False False]\<rparr> \<and>
   loadBlock refEnv exRoot exStack exContext ''/vendor'' SlashComment
       (exBlock\<lparr>Asserts := [exAssertWarn], Content := Some exContent\<rparr>) =
     Emit \<lparr>magicCommentStyle = SlashComment, label = ''main.tf'', origin = exRange,
           body = ''a = ...; '', condition = True, asserts = [exAssert False True]\<rparr>"
proof -
  let ?b1 = "exBlock\<lparr>Asserts := [exAssertBad, exAssertFail, exAssertBad]\<rparr>"
  let ?b2 = "exBlock\<lparr>Asserts := [exAssertWarn, exAssertFail]\<rparr>"
  let ?b3 = "exBlock\<lparr>Asserts := [exAssertWarn], Content := Some exContent\<rparr>"
  have m: "matchedAnyStackFilter exStack (exBlock\<lparr>Asserts := a\<rparr>)" for a by simp
  have c: "blockContext refEnv exStack exContext ''/vendor'' (exBlock\<lparr>Asserts := a\<rparr>) =
      Inr exBlockContext" for a by simp
  have n: "Label exBlock = ''main.tf''" "BlockRange exBlock = exRange"
    by (simp_all add: exBlock_def)
  note t1 = assertions_stage [of exStack ?b1 refEnv exContext "''/vendor''" exBlockContext True
      exRoot SlashComment]
  have l1: "loadBlock refEnv exRoot exStack exContext ''/vendor'' SlashComment ?b1 =
      Abort (L [exAssertError, exAssertError])"
    using t1 m [of "[exAssertBad, exAssertFail, exAssertBad]"]
      c [of "[exAssertBad, exAssertFail, exAssertBad]"]
    by (simp add: exAssertError_def)
  note t2 = assertions_stage [of exStack ?b2 refEnv exContext "''/vendor''" exBlockContext True
      exRoot SlashComment]
  have "\<forall>c. loadBlock refEnv exRoot exStack exContext ''/vendor'' SlashComment (?b2\<lparr>Content := c\<rparr>) =
      Emit \<lparr>magicCommentStyle = SlashComment, label = Label ?b2, origin = BlockRange ?b2,
            body = [], condition = True,
            asserts = map (\<lambda>cfg. case EvalAssert refEnv exBlockContext cfg of
                                   Inl e \<Rightarrow> zeroAssert | Inr a \<Rightarrow> a) (Asserts ?b2)\<rparr>"
    using t2 m [of "[exAssertWarn, exAssertFail]"] c [of "[exAssertWarn, exAssertFail]"]
    by simp
  then have l2: "loadBlock refEnv exRoot exStack exContext ''/vendor'' SlashComment
       (exBlock\<lparr>Asserts := [exAssertWarn, exAssertFail], Content := Some exInvalidContent\<rparr>) =
     Emit \<lparr>magicCommentStyle = SlashComment, label = ''main.tf'', origin = exRange, body = [],
           condition = True, asserts = [exAssert False True, exAssert False False]\<rparr>"
    by (simp add: n)
  note t3 = assertions_stage [of exStack ?b3 refEnv exContext "''/vendor''" exBlockContext True
      exRoot SlashComment]
  have "loadBlock refEnv exRoot exStack exContext ''/vendor'' SlashComment ?b3 =
      generateContent refEnv exRoot exBlockContext SlashComment ?b3 True
        (map (\<lambda>cfg. case EvalAssert refEnv exBlockContext cfg of
                       Inl e \<Rightarrow> zeroAssert | Inr a \<Rightarrow> a) (Asserts ?b3))"
    using t3 m [of "[exAssertWarn]"] c [of "[exAssertWarn]"]
    by simp
  then have l3a: "loadBlock refEnv exRoot exStack exContext ''/vendor'' SlashComment ?b3 =
      generateContent refEnv exRoot exBlockContext SlashComment ?b3 True [exAssert False True]"
    by simp
  have l3b: "generateContent refEnv exRoot exBlockContext SlashComment ?b3 True as =
     Emit \<lparr>magicCommentStyle = SlashComment, label = ''main.tf'', origin = exRange,
           body = ''a = ...; '', condition = True, asserts = as\<rparr>" for as
    by (simp add: generateContent_def exContent_def exAttr_def refEnv_def exBlock_def)
  have l3: "loadBlock refEnv exRoot exStack exContext ''/vendor'' SlashComment ?b3 =
     Emit \<lparr>magicCommentStyle = SlashComment, label = ''main.tf'', origin = exRange,
           body = ''a = ...; '', condition = True, asserts = [exAssert False True]\<rparr>"
    by (simp only: l3a l3b)
  have i: "fst (copyBody refEnv [] exInvalidContent
          (SetFunction ''tm_hcl_expression'' HCLExpressionFunc exBlockContext)) \<noteq> None"
    by (rule exInvalidContent_fails)
  from m [of "[exAssertBad, exAssertFail, exAssertBad]"]
    c [of "[exAssertBad, exAssertFail, exAssertBad]"] exEvalAssert [of exBlockContext] l1 i l2 l3
  show ?thesis by blast
qed

section \<open>The structural checks of a \<^verbatim>\<open>tm_dynamic\<close> block\<close>

lemma Append_AsError: "\<forall>e\<in>set es. errs_of e = [e] \<Longrightarrow> Append errs (AsError es) = errs @ es"
proof (cases es)
  case Nil
  then show ?thesis by simp
next
  case (Cons a as)
  assume "\<forall>e\<in>set es. errs_of e = [e]"
  then have "concat (map errs_of es) = es"
    by (induction es) auto
  with Cons show ?thesis by simp
qed

lemma fold_dynAttrStep_errs:
  "snd (fold dynAttrStep as (d, errs)) =
     errs @ map (\<lambda>a. attrErr a ''tm_dynamic unsupported attribute %q'' [ArgStr (Name a)])
              (filter (\<lambda>a. Name a \<notin> {''attributes'', ''for_each'', ''labels'', ''iterator'',
                                       ''condition''}) as)"
  by (induction as arbitrary: d errs) (auto simp: dynAttrStep_def attrErr_def)

lemma getDynamicBlockAttrs_errs:
  "snd (getDynamicBlockAttrs b) =
     AsError (map (\<lambda>a. attrErr a ''tm_dynamic unsupported attribute %q'' [ArgStr (Name a)])
                (filter (\<lambda>a. Name a \<notin> {''attributes'', ''for_each'', ''labels'', ''iterator'',
                                         ''condition''}) (Attributes (BlockBody b))))"
  using fold_dynAttrStep_errs [of "Attributes (BlockBody b)" noDynBlockAttributes "[]"]
  by (simp add: getDynamicBlockAttrs_def case_prod_beta)

lemma fold_dynAttrStep_attributes:
  "attributes (fst (fold dynAttrStep as (d, errs))) = None \<longleftrightarrow>
     attributes d = None \<and> (\<forall>a\<in>set as. Name a \<noteq> ''attributes'')"
  by (induction as arbitrary: d errs) (auto simp: dynAttrStep_def)

lemma getDynamicBlockAttrs_attributes:
  "attributes (fst (getDynamicBlockAttrs b)) = None \<longleftrightarrow>
     (\<forall>a\<in>set (Attributes (BlockBody b)). Name a \<noteq> ''attributes'')"
  using fold_dynAttrStep_attributes [of "Attributes (BlockBody b)" noDynBlockAttributes "[]"]
  by (simp add: getDynamicBlockAttrs_def noDynBlockAttributes_def case_prod_beta)

lemma contentBlockLoop_mono:
  "set errs \<subseteq> set (snd (contentBlockLoop bs cb errs))"
  by (induction bs cb errs rule: contentBlockLoop.induct) auto

lemma contentBlockLoop_atomic:
  "\<forall>e\<in>set errs. errs_of e = [e] \<Longrightarrow> \<forall>e\<in>set (snd (contentBlockLoop bs cb errs)). errs_of e = [e]"
  by (induction bs cb errs rule: contentBlockLoop.induct) auto

lemma contentBlockLoop_unrecognized:
  "b \<in> set bs \<Longrightarrow> Type b \<noteq> ''content'' \<Longrightarrow>
   E (Some ErrParsing) [TypeRange b] ''unrecognized block %s'' [ArgStr (Type b)] None
     \<in> set (snd (contentBlockLoop bs cb errs))"
proof (induction bs cb errs rule: contentBlockLoop.induct)
  case (1 cb errs)
  then show ?case by simp
next
  case (2 x xs cb errs)
  let ?e = "E (Some ErrParsing) [TypeRange x] ''unrecognized block %s'' [ArgStr (Type x)] None"
  show ?case
  proof (cases "b = x")
    case True
    have "?e \<in> set (Append errs (Some ?e))" by simp
    with contentBlockLoop_mono [of "Append errs (Some ?e)" xs cb] True 2
    show ?thesis by auto
  next
    case False
    with 2 show ?thesis by auto
  qed
qed

lemma contentBlockLoop_multiple:
  "b \<in> set bs \<Longrightarrow> Type b = ''content'' \<Longrightarrow> cb \<noteq> None \<Longrightarrow>
   E (Some ErrParsing) [TypeRange b] ''multiple definitions of the `content` block'' [] None
     \<in> set (snd (contentBlockLoop bs cb errs))"
proof (induction bs cb errs rule: contentBlockLoop.induct)
  case (1 cb errs)
  then show ?case by simp
next
  case (2 x xs cb errs)
  let ?e = "E (Some ErrParsing) [TypeRange x] ''multiple definitions of the `content` block''
              [] None"
  show ?case
  proof (cases "b = x")
    case True
    have "?e \<in> set (Append errs (Some ?e))" by simp
    with contentBlockLoop_mono [of "Append errs (Some ?e)" xs cb] True 2
    show ?thesis by auto
  next
    case False
    with 2 show ?thesis by auto
  qed
qed

lemma contentBlockLoop_second:
  "Type c1 = ''content'' \<Longrightarrow> Type c2 = ''content'' \<Longrightarrow>
   E (Some ErrParsing) [TypeRange c2] ''multiple definitions of the `content` block'' [] None
     \<in> set (snd (contentBlockLoop (pre @ c1 # mid @ c2 # post) cb errs))"
proof (induction pre arbitrary: cb errs)
  case Nil
  then show ?case
    by (cases cb) (auto intro!: contentBlockLoop_multiple)
next
  case (Cons x xs)
  then show ?case by auto
qed

lemma contentBlockLoop_none:
  "fst (contentBlockLoop bs cb errs) = None \<longleftrightarrow> cb = None \<and> (\<forall>b\<in>set bs. Type b \<noteq> ''content'')"
  by (induction bs cb errs rule: contentBlockLoop.induct) auto

lemma getContentBlock_snd:
  "snd (getContentBlock bs) = AsError (snd (contentBlockLoop bs None []))"
  by (simp add: getContentBlock_def case_prod_beta split: option.splits)

lemma getContentBlock_errs:
  "Append errs (snd (getContentBlock bs)) = errs @ snd (contentBlockLoop bs None [])"
  using contentBlockLoop_atomic [of "[]" bs None]
  by (simp add: getContentBlock_snd Append_AsError)

lemma getContentBlock_none:
  "(\<forall>b\<in>set bs. Type b \<noteq> ''content'') \<Longrightarrow> fst (getContentBlock bs) = None"
  using contentBlockLoop_none [of bs None "[]"]
  by (auto simp: getContentBlock_def case_prod_beta split: option.splits)

lemma dynamicBlockErrors_eq:
  "dynamicBlockErrors b =
     (if length (Labels b) \<noteq> 1
      then [E (Some ErrParsing) (LabelRanges b) ''tm_dynamic requires a single label'' [] None]
      else []) @
     map (\<lambda>a. attrErr a ''tm_dynamic unsupported attribute %q'' [ArgStr (Name a)])
       (filter (\<lambda>a. Name a \<notin> {''attributes'', ''for_each'', ''labels'', ''iterator'',
                                ''condition''}) (Attributes (BlockBody b))) @
     snd (contentBlockLoop (Blocks (BlockBody b)) None []) @
     (if fst (getContentBlock (Blocks (BlockBody b))) = None \<and>
         attributes (fst (getDynamicBlockAttrs b)) = None
      then [E (Some ErrParsing) [BodyRange (BlockBody b)]
              ''`content` block or `attributes` obj must be defined'' [] None]
      else [])"
proof -
  have "\<forall>e\<in>set (map (\<lambda>a. attrErr a ''tm_dynamic unsupported attribute %q'' [ArgStr (Name a)])
       (filter (\<lambda>a. Name a \<notin> {''attributes'', ''for_each'', ''labels'', ''iterator'',
                                ''condition''}) (Attributes (BlockBody b)))). errs_of e = [e]"
    by (auto simp: attrErr_def)
  then show ?thesis
    by (simp add: dynamicBlockErrors_def Let_def getDynamicBlockAttrs_errs Append_AsError
          getContentBlock_errs)
qed

declare appendDynamicBlock.simps [simp del]

lemma appendDynamicBlocks_invalid:
  "dynamicBlockErrors blk \<noteq> [] \<Longrightarrow>
   appendDynamicBlocks env target blk ctx = (Some (L (dynamicBlockErrors blk)), target, ctx)"
  by (cases blk; cases "BlockBody blk") (auto simp: dynamicBlockChecks_def AsError_nonempty)

lemma exInvalidDynamic_errors:
  "dynamicBlockErrors exInvalidDynamic =
     [E (Some ErrParsing) [exRange, exRange] ''tm_dynamic requires a single label'' [] None,
      E (Some ErrParsing) [exRange] ''tm_dynamic unsupported attribute %q'' [ArgStr ''foo''] None,
      E (Some ErrParsing) [exRange] ''tm_dynamic unsupported attribute %q'' [ArgStr ''bar''] None,
      E (Some ErrParsing) [exRange] ''unrecognized block %s'' [ArgStr ''other''] None,
      E (Some ErrParsing) [exRange] ''multiple definitions of the `content` block'' [] None,
      E (Some ErrParsing) [exRange] ''`content` block or `attributes` obj must be defined'' []
        None]"
  by (simp add: dynamicBlockErrors_def exInvalidDynamic_def exDynamic_def exBody_def
        exContentBlock_def exAttr_def getDynamicBlockAttrs_def dynAttrStep_def attrErr_def
        getContentBlock_def noDynBlockAttributes_def)

text \<open>
  C8. The structural checks of a \<^verbatim>\<open>tm_dynamic\<close> block do not stop at the first
  violation. The error list holds an error for a number of labels other than one, one
  for each attribute that is not a control attribute, one for each nested block that is
  not \<^verbatim>\<open>content\<close>, one for each \<^verbatim>\<open>content\<close> block after the first, and one when the block
  has neither a \<^verbatim>\<open>content\<close> block nor \<^verbatim>\<open>attributes\<close>; when the list is not empty the
  expander returns it whole as one aggregate, with the destination and the context
  untouched.
\<close>

theorem dynamic_block_validation:
  "(dynamicBlockErrors blk \<noteq> [] \<longrightarrow>
      appendDynamicBlocks env target blk ctx = (Some (L (dynamicBlockErrors blk)), target, ctx)) \<and>
   (length (Labels blk) \<noteq> 1 \<longrightarrow>
      E (Some ErrParsing) (LabelRanges blk) ''tm_dynamic requires a single label'' [] None
        \<in> set (dynamicBlockErrors blk)) \<and>
   (\<forall>a\<in>set (Attributes (BlockBody blk)).
      Name a \<notin> {''attributes'', ''for_each'', ''labels'', ''iterator'', ''condition''} \<longrightarrow>
      attrErr a ''tm_dynamic unsupported attribute %q'' [ArgStr (Name a)]
        \<in> set (dynamicBlockErrors blk)) \<and>
   (\<forall>c\<in>set (Blocks (BlockBody blk)).
      Type c \<noteq> ''content'' \<longrightarrow>
      E (Some ErrParsing) [TypeRange c] ''unrecognized block %s'' [ArgStr (Type c)] None
        \<in> set (dynamicBlockErrors blk)) \<and>
   (\<forall>pre c1 mid c2 post.
      Blocks (BlockBody blk) = pre @ c1 # mid @ c2 # post \<and> Type c1 = ''content'' \<and>
      Type c2 = ''content'' \<longrightarrow>
      E (Some ErrParsing) [TypeRange c2] ''multiple definitions of the `content` block'' [] None
        \<in> set (dynamicBlockErrors blk)) \<and>
   ((\<forall>c\<in>set (Blocks (BlockBody blk)). Type c \<noteq> ''content'') \<and>
    (\<forall>a\<in>set (Attributes (BlockBody blk)). Name a \<noteq> ''attributes'') \<longrightarrow>
      E (Some ErrParsing) [BodyRange (BlockBody blk)]
        ''`content` block or `attributes` obj must be defined'' [] None
        \<in> set (dynamicBlockErrors blk))"
proof (intro conjI impI ballI allI)
  show "appendDynamicBlocks env target blk ctx = (Some (L (dynamicBlockErrors blk)), target, ctx)"
    if "dynamicBlockErrors blk \<noteq> []"
    using that by (rule appendDynamicBlocks_invalid)
  show "E (Some ErrParsing) (LabelRanges blk) ''tm_dynamic requires a single label'' [] None
      \<in> set (dynamicBlockErrors blk)" if "length (Labels blk) \<noteq> 1"
    using that by (simp add: dynamicBlockErrors_eq)
  show "attrErr a ''tm_dynamic unsupported attribute %q'' [ArgStr (Name a)]
      \<in> set (dynamicBlockErrors blk)"
    if "a \<in> set (Attributes (BlockBody blk))"
      and "Name a \<notin> {''attributes'', ''for_each'', ''labels'', ''iterator'', ''condition''}" for a
    using that by (simp add: dynamicBlockErrors_eq)
  show "E (Some ErrParsing) [TypeRange c] ''unrecognized block %s'' [ArgStr (Type c)] None
      \<in> set (dynamicBlockErrors blk)"
    if "c \<in> set (Blocks (BlockBody blk))" and "Type c \<noteq> ''content''" for c
    using contentBlockLoop_unrecognized [OF that, of None "[]"]
    by (simp add: dynamicBlockErrors_eq)
  show "E (Some ErrParsing) [TypeRange c2] ''multiple definitions of the `content` block'' [] None
      \<in> set (dynamicBlockErrors blk)"
    if "Blocks (BlockBody blk) = pre @ c1 # mid @ c2 # post \<and> Type c1 = ''content'' \<and>
      Type c2 = ''content''" for pre c1 mid c2 post
    using that contentBlockLoop_second [of c1 c2 pre mid post None "[]"]
    by (simp add: dynamicBlockErrors_eq)
  show "E (Some ErrParsing) [BodyRange (BlockBody blk)]
        ''`content` block or `attributes` obj must be defined'' [] None
      \<in> set (dynamicBlockErrors blk)"
    if "(\<forall>c\<in>set (Blocks (BlockBody blk)). Type c \<noteq> ''content'') \<and>
        (\<forall>a\<in>set (Attributes (BlockBody blk)). Name a \<noteq> ''attributes'')"
    using that
    by (simp add: dynamicBlockErrors_eq getContentBlock_none getDynamicBlockAttrs_attributes)
qed

theorem dynamic_block_validation_witness:
  "length (Labels exInvalidDynamic) \<noteq> 1 \<and>
   exAttr ''foo'' (NumberVal 1) \<in> set (Attributes (BlockBody exInvalidDynamic)) \<and>
   exAttr ''bar'' (NumberVal 2) \<in> set (Attributes (BlockBody exInvalidDynamic)) \<and>
   Blocks (BlockBody exInvalidDynamic) =
     [] @ Block ''other'' [] (exBody [] []) [] exRange # [] @ exContentBlock [] #
     [exContentBlock []] \<and>
   Blocks (BlockBody exInvalidDynamic) =
     [Block ''other'' [] (exBody [] []) [] exRange] @ exContentBlock [] # [] @
     exContentBlock [] # [] \<and>
   dynamicBlockErrors exInvalidDynamic \<noteq> [] \<and>
   appendDynamicBlocks refEnv [] exInvalidDynamic exContext =
     (Some (L [E (Some ErrParsing) [exRange, exRange] ''tm_dynamic requires a single label'' []
                 None,
               E (Some ErrParsing) [exRange] ''tm_dynamic unsupported attribute %q''
                 [ArgStr ''foo''] None,
               E (Some ErrParsing) [exRange] ''tm_dynamic unsupported attribute %q''
                 [ArgStr ''bar''] None,
               E (Some ErrParsing) [exRange] ''unrecognized block %s'' [ArgStr ''other''] None,
               E (Some ErrParsing) [exRange] ''multiple definitions of the `content` block'' []
                 None,
               E (Some ErrParsing) [exRange]
                 ''`content` block or `attributes` obj must be defined'' [] None]),
      [], exContext) \<and>
   attrErr (exAttr ''foo'' (NumberVal 1)) ''tm_dynamic unsupported attribute %q'' [ArgStr ''foo'']
     \<in> set (dynamicBlockErrors exInvalidDynamic) \<and>
   E (Some ErrParsing) [exRange] ''multiple definitions of the `content` block'' [] None
     \<in> set (dynamicBlockErrors exInvalidDynamic) \<and>
   dynamicBlockErrors (exDynamic [''a''] [] []) =
     [E (Some ErrParsing) [exRange] ''`content` block or `attributes` obj must be defined'' []
        None]"
proof -
  note t = dynamic_block_validation [of exInvalidDynamic refEnv "[]" exContext]
  have n: "dynamicBlockErrors exInvalidDynamic \<noteq> []"
    by (simp add: exInvalidDynamic_errors)
  have a: "length (Labels exInvalidDynamic) \<noteq> 1"
    by (simp add: exInvalidDynamic_def exDynamic_def)
  have b: "exAttr ''foo'' (NumberVal 1) \<in> set (Attributes (BlockBody exInvalidDynamic))"
    "exAttr ''bar'' (NumberVal 2) \<in> set (Attributes (BlockBody exInvalidDynamic))"
    by (simp_all add: exInvalidDynamic_def exDynamic_def exBody_def)
  have c: "Blocks (BlockBody exInvalidDynamic) =
     [] @ Block ''other'' [] (exBody [] []) [] exRange # [] @ exContentBlock [] #
     [exContentBlock []]"
    "Blocks (BlockBody exInvalidDynamic) =
     [Block ''other'' [] (exBody [] []) [] exRange] @ exContentBlock [] # [] @
     exContentBlock [] # []"
    by (simp_all add: exInvalidDynamic_def exDynamic_def exBody_def)
  from t n have r: "appendDynamicBlocks refEnv [] exInvalidDynamic exContext =
      (Some (L (dynamicBlockErrors exInvalidDynamic)), [], exContext)"
    by blast
  from t b(1) have f: "attrErr (exAttr ''foo'' (NumberVal 1))
      ''tm_dynamic unsupported attribute %q'' [ArgStr (Name (exAttr ''foo'' (NumberVal 1)))]
      \<in> set (dynamicBlockErrors exInvalidDynamic)"
    by (auto simp: exAttr_def)
  have f': "attrErr (exAttr ''foo'' (NumberVal 1)) ''tm_dynamic unsupported attribute %q''
      [ArgStr ''foo''] \<in> set (dynamicBlockErrors exInvalidDynamic)"
    using f by (simp add: exAttr_def)
  have ty: "Type (exContentBlock []) = ''content''" by (simp add: exContentBlock_def)
  from t c(2) ty have m: "E (Some ErrParsing) [TypeRange (exContentBlock [])]
      ''multiple definitions of the `content` block'' [] None
      \<in> set (dynamicBlockErrors exInvalidDynamic)"
    by blast
  have m': "E (Some ErrParsing) [exRange] ''multiple definitions of the `content` block'' [] None
      \<in> set (dynamicBlockErrors exInvalidDynamic)"
    using m by (simp add: exContentBlock_def)
  have k: "dynamicBlockErrors (exDynamic [''a''] [] []) =
     [E (Some ErrParsing) [exRange] ''`content` block or `attributes` obj must be defined'' []
        None]"
    by (simp add: dynamicBlockErrors_def exDynamic_def exBody_def getDynamicBlockAttrs_def
          getContentBlock_def noDynBlockAttributes_def)
  from a b c n r [unfolded exInvalidDynamic_errors] f' m' k show ?thesis by blast
qed

section \<open>The paths of \<^verbatim>\<open>appendDynamicBlocks\<close>\<close>

lemma dynamicCondition_None: "dynamicCondition env ctx None = Inr True"
  by (simp add: dynamicCondition_def)

lemma dynamicCondition_bool:
  "Eval env ctx (Expr g) = Inr (BoolVal x) \<Longrightarrow> dynamicCondition env ctx (Some g) = Inr x"
  by (simp add: dynamicCondition_def)

lemma dynamicCondition_guard:
  "co = None \<or> (\<exists>g. co = Some g \<and> Eval env ctx (Expr g) = Inr (BoolVal True)) \<Longrightarrow>
   dynamicCondition env ctx co = Inr True"
  by (auto simp: dynamicCondition_None dynamicCondition_bool)

lemma evalForEach_None: "evalForEach env ctx None = Inr NilVal"
  by (simp add: evalForEach_def)

lemma evalForEach_value:
  "Eval env ctx (Expr f) = Inr v \<Longrightarrow> CanIterateElements v \<Longrightarrow>
   evalForEach env ctx (Some f) = Inr v"
  by (simp add: evalForEach_def)

lemma ElementIterator_Some:
  "ElementIterator v = Some kvs \<Longrightarrow> CanIterateElements v \<and> \<not> IsNull v"
  by (cases v) (simp_all add: CanIterateElements_def)

lemma appendDynamicBlocks_guard_false:
  assumes "dynamicBlockChecks blk = (attrs, cbo, None)" and "Labels blk = T # rest"
    and "dynamicCondition env ctx (dcondition attrs) = Inr False"
  shows "appendDynamicBlocks env target blk ctx = (None, target, ctx)"
  using assms by (cases blk; cases "BlockBody blk") simp

lemma appendDynamicBlocks_null:
  assumes "dynamicBlockChecks blk = (attrs, cbo, None)" and "Labels blk = T # rest"
    and "dynamicCondition env ctx (dcondition attrs) = Inr True"
    and "evalForEach env ctx (foreach attrs) = Inr fe" and "IsNull fe"
  shows "appendDynamicBlocks env target blk ctx =
     (case iterator attrs of
        Some i \<Rightarrow>
          (Some (E (Some ErrInvalidDynamicIterator) [AttrRange i]
                   ''iterator should not be defined when for_each is omitted'' [] None),
           target, ctx)
      | None \<Rightarrow> appendDynamicBlock env target ctx T attrs cbo)"
  using assms by (cases blk; cases "BlockBody blk") simp

lemma appendDynamicBlocks_iterate:
  assumes "dynamicBlockChecks blk = (attrs, cbo, None)" and "Labels blk = T # rest"
    and "dynamicCondition env ctx (dcondition attrs) = Inr True"
    and "evalForEach env ctx (foreach attrs) = Inr fe" and "ElementIterator fe = Some kvs"
    and "iteratorName env T (iterator attrs) = Inr it"
  shows "appendDynamicBlocks env target blk ctx =
     (case forEachElement env target ctx it T attrs cbo kvs of
        (err, d, c) \<Rightarrow> (err, d, DeleteNamespace it c))"
  using assms ElementIterator_Some [of fe kvs]
  by (cases blk; cases "BlockBody blk") simp

lemmas ex_checks =
  dynamicBlockChecks_def dynamicBlockErrors_def getDynamicBlockAttrs_def dynAttrStep_def
  getContentBlock_def noDynBlockAttributes_def exDynamic_def exBody_def exContentBlock_def
  exAttr_def attrErr_def

lemmas ex_expand =
  appendDynamicBlock.simps evalLabels_def applyAttributes_def evalAttributes_def refEnv_def
  exBody_def exContentBlock_def exAttr_def

text \<open>
  C7, as the source has it. The test for \<^verbatim>\<open>for_each\<close> comes after the structural checks
  and the guard. For a \<^verbatim>\<open>tm_dynamic\<close> block that passes the structural checks, has no
  \<^verbatim>\<open>for_each\<close> attribute, and whose guard is absent or evaluates to true: an \<^verbatim>\<open>iterator\<close>
  attribute is the error of kind \<^verbatim>\<open>invalid tm_dynamic.iterator\<close>, reported at the attribute,
  with the destination and the context untouched; without \<^verbatim>\<open>iterator\<close> the expander
  is one call of \<^verbatim>\<open>appendDynamicBlock\<close> with the context it was given, in which it binds
  no loop variable.
\<close>

theorem no_for_each_expansion:
  "dynamicBlockChecks blk = (attrs, cbo, None) \<and> Labels blk = [T] \<and> foreach attrs = None \<and>
   (dcondition attrs = None \<or>
    (\<exists>g. dcondition attrs = Some g \<and> Eval env ctx (Expr g) = Inr (BoolVal True))) \<longrightarrow>
     (\<forall>i. iterator attrs = Some i \<longrightarrow>
        appendDynamicBlocks env target blk ctx =
          (Some (E (Some ErrInvalidDynamicIterator) [AttrRange i]
                   ''iterator should not be defined when for_each is omitted'' [] None),
           target, ctx)) \<and>
     (iterator attrs = None \<longrightarrow>
        appendDynamicBlocks env target blk ctx =
          appendDynamicBlock env target ctx T attrs cbo) \<and>
     KindText ErrInvalidDynamicIterator = ''invalid tm_dynamic.iterator''"
proof (intro impI)
  assume h: "dynamicBlockChecks blk = (attrs, cbo, None) \<and> Labels blk = [T] \<and>
    foreach attrs = None \<and>
    (dcondition attrs = None \<or>
     (\<exists>g. dcondition attrs = Some g \<and> Eval env ctx (Expr g) = Inr (BoolVal True)))"
  then have g: "dynamicCondition env ctx (dcondition attrs) = Inr True"
    by (simp add: dynamicCondition_guard)
  from h have f: "evalForEach env ctx (foreach attrs) = Inr NilVal"
    by (simp add: evalForEach_None)
  have n: "IsNull NilVal" by simp
  from h have c: "dynamicBlockChecks blk = (attrs, cbo, None)" and l: "Labels blk = T # []"
    by simp_all
  note eq = appendDynamicBlocks_null [OF c l g f n, of target]
  show "(\<forall>i. iterator attrs = Some i \<longrightarrow>
        appendDynamicBlocks env target blk ctx =
          (Some (E (Some ErrInvalidDynamicIterator) [AttrRange i]
                   ''iterator should not be defined when for_each is omitted'' [] None),
           target, ctx)) \<and>
     (iterator attrs = None \<longrightarrow>
        appendDynamicBlocks env target blk ctx =
          appendDynamicBlock env target ctx T attrs cbo) \<and>
     KindText ErrInvalidDynamicIterator = ''invalid tm_dynamic.iterator''"
    by (simp add: eq)
qed

text \<open>
  C7, as the claim states it, fails: a block with no \<^verbatim>\<open>for_each\<close>, with an \<^verbatim>\<open>iterator\<close>
  and with \<^verbatim>\<open>condition = false\<close> passes the structural checks and returns no error and no
  block, since the guard returns before \<^verbatim>\<open>iterator\<close> is looked at.
\<close>

theorem no_for_each_guard_false_counterexample:
  "foreach (fst (dynamicBlockChecks exGuarded)) = None \<and>
   iterator (fst (dynamicBlockChecks exGuarded)) = Some exIteratorAttr \<and>
   dynamicBlockErrors exGuarded = [] \<and>
   appendDynamicBlocks refEnv [] exGuarded exContext = (None, [], exContext)"
proof -
  have c: "dynamicBlockChecks exGuarded =
      (\<lparr>attributes = None, iterator = Some exIteratorAttr, foreach = None, labels = None,
        dcondition = Some (exAttr ''condition'' (BoolVal False))\<rparr>,
       Some (exContentBlock []), None)"
    by (simp add: ex_checks exGuarded_def exIteratorAttr_def)
  have e: "dynamicBlockErrors exGuarded = []"
    by (simp add: ex_checks exGuarded_def exIteratorAttr_def)
  have l: "Labels exGuarded = ''b'' # []" by (simp add: exGuarded_def exDynamic_def)
  have g: "dynamicCondition refEnv exContext (Some (exAttr ''condition'' (BoolVal False))) = Inr False"
    by (simp add: dynamicCondition_bool)
  have "appendDynamicBlocks refEnv [] exGuarded exContext = (None, [], exContext)"
    by (rule appendDynamicBlocks_guard_false [OF c l]) (simp add: g)
  with c e show ?thesis by simp
qed

theorem no_for_each_expansion_witness:
  "dynamicBlockChecks exIteratorOnly =
     (\<lparr>attributes = None, iterator = Some exIteratorAttr, foreach = None, labels = None,
       dcondition = None\<rparr>, Some (exContentBlock []), None) \<and>
   Labels exIteratorOnly = [''b''] \<and>
   appendDynamicBlocks refEnv [] exIteratorOnly exContext =
     (Some (E (Some ErrInvalidDynamicIterator) [exRange]
              ''iterator should not be defined when for_each is omitted'' [] None),
      [], exContext) \<and>
   dynamicBlockChecks exSingle =
     (noDynBlockAttributes, Some (exContentBlock [exAttr ''a'' (NumberVal 1)]), None) \<and>
   Labels exSingle = [''b''] \<and>
   appendDynamicBlocks refEnv [] exSingle exContext =
     (None,
      [BlockItem ''b'' []
         [AttributeItem ''a'' (TokensForExpression (LiteralValueExpr (NumberVal 1) exRange))]],
      exContext)"
proof -
  let ?a1 = "\<lparr>attributes = None, iterator = Some exIteratorAttr, foreach = None, labels = None,
       dcondition = None\<rparr>"
  have c1: "dynamicBlockChecks exIteratorOnly = (?a1, Some (exContentBlock []), None)"
    by (simp add: ex_checks exIteratorOnly_def exIteratorAttr_def)
  have l1: "Labels exIteratorOnly = [''b'']" by (simp add: exIteratorOnly_def exDynamic_def)
  note t1 = no_for_each_expansion [of exIteratorOnly ?a1 "Some (exContentBlock [])" "''b''"
      refEnv exContext "[]"]
  from t1 c1 l1 have r1: "appendDynamicBlocks refEnv [] exIteratorOnly exContext =
     (Some (E (Some ErrInvalidDynamicIterator) [AttrRange exIteratorAttr]
              ''iterator should not be defined when for_each is omitted'' [] None),
      [], exContext)"
    by simp
  have r1': "appendDynamicBlocks refEnv [] exIteratorOnly exContext =
     (Some (E (Some ErrInvalidDynamicIterator) [exRange]
              ''iterator should not be defined when for_each is omitted'' [] None),
      [], exContext)"
    by (subst r1) (simp add: exIteratorAttr_def)
  let ?cb = "exContentBlock [exAttr ''a'' (NumberVal 1)]"
  have c2: "dynamicBlockChecks exSingle = (noDynBlockAttributes, Some ?cb, None)"
    by (simp add: ex_checks exSingle_def)
  have l2: "Labels exSingle = [''b'']" by (simp add: exSingle_def exDynamic_def)
  note t2 = no_for_each_expansion [of exSingle noDynBlockAttributes "Some ?cb" "''b''"
      refEnv exContext "[]"]
  from t2 c2 l2 have r2: "appendDynamicBlocks refEnv [] exSingle exContext =
      appendDynamicBlock refEnv [] exContext ''b'' noDynBlockAttributes (Some ?cb)"
    by (simp add: noDynBlockAttributes_def)
  have r2': "appendDynamicBlocks refEnv [] exSingle exContext =
     (None,
      [BlockItem ''b'' []
         [AttributeItem ''a'' (TokensForExpression (LiteralValueExpr (NumberVal 1) exRange))]],
      exContext)"
    by (subst r2) (simp add: ex_expand noDynBlockAttributes_def)
  from c1 l1 r1' c2 l2 r2' show ?thesis by blast
qed

declare appendDynamicBlocks.simps [simp del]

lemma dynAttrStep_for_each:
  "Name a = ''for_each'' \<Longrightarrow> dynAttrStep a (d, errs) = (d\<lparr>foreach := Some a\<rparr>, errs)"
  by (simp add: dynAttrStep_def)

lemma dynAttrStep_other:
  "Name a \<noteq> ''for_each'' \<Longrightarrow>
   dynAttrStep a (d\<lparr>foreach := x\<rparr>, errs) =
     ((fst (dynAttrStep a (d, errs)))\<lparr>foreach := x\<rparr>, snd (dynAttrStep a (d, errs)))"
  by (simp add: dynAttrStep_def)

lemma dynAttrStep_keeps:
  "Name a \<noteq> ''for_each'' \<Longrightarrow> foreach (fst (dynAttrStep a (d, errs))) = foreach d"
  by (simp add: dynAttrStep_def)

lemma fold_dynAttrStep_without:
  "fold dynAttrStep (filter (\<lambda>a. Name a \<noteq> ''for_each'') as) (d, errs) =
     ((fst (fold dynAttrStep as (d\<lparr>foreach := x\<rparr>, errs)))\<lparr>foreach := foreach d\<rparr>,
      snd (fold dynAttrStep as (d\<lparr>foreach := x\<rparr>, errs)))"
proof (induction as arbitrary: d errs x)
  case Nil
  then show ?case by simp
next
  case (Cons a as)
  show ?case
  proof (cases "Name a = ''for_each''")
    case True
    then show ?thesis
      using Cons [of d errs "Some a"] by (simp add: dynAttrStep_for_each)
  next
    case False
    obtain d' errs' where s: "dynAttrStep a (d, errs) = (d', errs')"
      by (cases "dynAttrStep a (d, errs)") auto
    with False dynAttrStep_other [where a = a and d = d and x = x and errs = errs]
      dynAttrStep_keeps [where a = a and d = d and errs = errs]
    have "dynAttrStep a (d\<lparr>foreach := x\<rparr>, errs) = (d'\<lparr>foreach := x\<rparr>, errs')"
      and "foreach d' = foreach d"
      by simp_all
    with False s Cons [of d' errs' x] show ?thesis by simp
  qed
qed

lemma getDynamicBlockAttrs_without:
  "getDynamicBlockAttrs
     (Block ty ls (Body (filter (\<lambda>a. Name a \<noteq> ''for_each'') ats) bs br) lr tr) =
   ((fst (getDynamicBlockAttrs (Block ty ls (Body ats bs br) lr tr)))\<lparr>foreach := None\<rparr>,
    snd (getDynamicBlockAttrs (Block ty ls (Body ats bs br) lr tr)))"
  using fold_dynAttrStep_without [of ats noDynBlockAttributes "[]" None]
  by (simp add: getDynamicBlockAttrs_def case_prod_beta noDynBlockAttributes_def)

lemma dynamicBlockChecks_without:
  "dynamicBlockChecks (Block ty ls (Body ats bs br) lr tr) = (attrs, cbo, e) \<Longrightarrow>
   dynamicBlockChecks
     (Block ty ls (Body (filter (\<lambda>a. Name a \<noteq> ''for_each'') ats) bs br) lr tr) =
   (attrs\<lparr>foreach := None\<rparr>, cbo, e)"
  by (auto simp: dynamicBlockChecks_def dynamicBlockErrors_def Let_def
        getDynamicBlockAttrs_without)

lemma appendDynamicBlock_foreach:
  "appendDynamicBlock env d c T (attrs\<lparr>foreach := x\<rparr>) cbo = appendDynamicBlock env d c T attrs cbo"
  by (simp add: appendDynamicBlock.simps cong: sum.case_cong)

lemma null_for_each_as_omitted:
  assumes "foreach (fst (dynamicBlockChecks (Block ty ls (Body ats bs br) lr tr))) = Some f"
    and "Eval env ctx (Expr f) = Inr v" and "IsNull v" and "CanIterateElements v"
  shows "appendDynamicBlocks env target (Block ty ls (Body ats bs br) lr tr) ctx =
         appendDynamicBlocks env target
           (Block ty ls (Body (filter (\<lambda>a. Name a \<noteq> ''for_each'') ats) bs br) lr tr) ctx"
proof -
  obtain attrs cbo e where c: "dynamicBlockChecks (Block ty ls (Body ats bs br) lr tr) = (attrs, cbo, e)"
    by (cases "dynamicBlockChecks (Block ty ls (Body ats bs br) lr tr)") auto
  note c' = dynamicBlockChecks_without [OF c]
  from assms c have f: "evalForEach env ctx (foreach attrs) = Inr v"
    by (simp add: evalForEach_value)
  have n: "evalForEach env ctx None = Inr NilVal" by (rule evalForEach_None)
  show ?thesis
    using assms(3) f n
    by (simp add: appendDynamicBlocks.simps c c' appendDynamicBlock_foreach
          split: option.splits list.splits sum.splits bool.splits)
qed

text \<open>
  C10. When \<^verbatim>\<open>for_each\<close> is present and evaluates to a null value of a type that can be
  iterated (a null map, say), the expander does what it does for the same block without
  the \<^verbatim>\<open>for_each\<close> attribute. For a block that passes the structural checks and whose
  guard is absent or true that is: with an \<^verbatim>\<open>iterator\<close>, the error
  \<^verbatim>\<open>iterator should not be defined when for_each is omitted\<close>; without one, a single call of
  \<^verbatim>\<open>appendDynamicBlock\<close> in the given context, with no loop variable bound.
\<close>

theorem null_for_each:
  "foreach (fst (dynamicBlockChecks (Block ty ls (Body ats bs br) lr tr))) = Some f \<and>
   Eval env ctx (Expr f) = Inr v \<and> IsNull v \<and> CanIterateElements v \<longrightarrow>
     appendDynamicBlocks env target (Block ty ls (Body ats bs br) lr tr) ctx =
       appendDynamicBlocks env target
         (Block ty ls (Body (filter (\<lambda>a. Name a \<noteq> ''for_each'') ats) bs br) lr tr) ctx \<and>
     (dynamicBlockChecks (Block ty ls (Body ats bs br) lr tr) = (attrs, cbo, None) \<and>
      ls = [T] \<and>
      (dcondition attrs = None \<or>
       (\<exists>g. dcondition attrs = Some g \<and> Eval env ctx (Expr g) = Inr (BoolVal True))) \<longrightarrow>
        (\<forall>i. iterator attrs = Some i \<longrightarrow>
           appendDynamicBlocks env target (Block ty ls (Body ats bs br) lr tr) ctx =
             (Some (E (Some ErrInvalidDynamicIterator) [AttrRange i]
                      ''iterator should not be defined when for_each is omitted'' [] None),
              target, ctx)) \<and>
        (iterator attrs = None \<longrightarrow>
           appendDynamicBlocks env target (Block ty ls (Body ats bs br) lr tr) ctx =
             appendDynamicBlock env target ctx T attrs cbo))"
proof (intro impI conjI)
  assume h: "foreach (fst (dynamicBlockChecks (Block ty ls (Body ats bs br) lr tr))) = Some f \<and>
    Eval env ctx (Expr f) = Inr v \<and> IsNull v \<and> CanIterateElements v"
  then show "appendDynamicBlocks env target (Block ty ls (Body ats bs br) lr tr) ctx =
      appendDynamicBlocks env target
        (Block ty ls (Body (filter (\<lambda>a. Name a \<noteq> ''for_each'') ats) bs br) lr tr) ctx"
    by (intro null_for_each_as_omitted [of ty ls ats bs br lr tr f env ctx v]) simp_all
  assume k: "dynamicBlockChecks (Block ty ls (Body ats bs br) lr tr) = (attrs, cbo, None) \<and>
      ls = [T] \<and>
      (dcondition attrs = None \<or>
       (\<exists>g. dcondition attrs = Some g \<and> Eval env ctx (Expr g) = Inr (BoolVal True)))"
  then have g: "dynamicCondition env ctx (dcondition attrs) = Inr True"
    by (simp add: dynamicCondition_guard)
  from h k have f: "evalForEach env ctx (foreach attrs) = Inr v"
    by (auto simp: evalForEach_value)
  from k have c: "dynamicBlockChecks (Block ty ls (Body ats bs br) lr tr) = (attrs, cbo, None)"
    and l: "Labels (Block ty ls (Body ats bs br) lr tr) = T # []"
    by auto
  from h have n: "IsNull v" by simp
  note eq = appendDynamicBlocks_null [OF c l g f n, of target]
  show "\<forall>i. iterator attrs = Some i \<longrightarrow>
           appendDynamicBlocks env target (Block ty ls (Body ats bs br) lr tr) ctx =
             (Some (E (Some ErrInvalidDynamicIterator) [AttrRange i]
                      ''iterator should not be defined when for_each is omitted'' [] None),
              target, ctx)"
    by (simp add: eq)
  show "appendDynamicBlocks env target (Block ty ls (Body ats bs br) lr tr) ctx =
      appendDynamicBlock env target ctx T attrs cbo" if "iterator attrs = None"
    using that by (simp add: eq)
qed

theorem null_for_each_witness:
  "foreach (fst (dynamicBlockChecks (exNullForEach [exIteratorAttr] []))) =
     Some (exAttr ''for_each'' (NullVal TMap)) \<and>
   Eval refEnv exContext (Expr (exAttr ''for_each'' (NullVal TMap))) = Inr (NullVal TMap) \<and>
   IsNull (NullVal TMap) \<and> CanIterateElements (NullVal TMap) \<and>
   appendDynamicBlocks refEnv [] (exNullForEach [exIteratorAttr] []) exContext =
     appendDynamicBlocks refEnv [] exIteratorOnly exContext \<and>
   appendDynamicBlocks refEnv [] (exNullForEach [exIteratorAttr] []) exContext =
     (Some (E (Some ErrInvalidDynamicIterator) [exRange]
              ''iterator should not be defined when for_each is omitted'' [] None),
      [], exContext) \<and>
   appendDynamicBlocks refEnv [] (exNullForEach [] [exAttr ''a'' (NumberVal 1)]) exContext =
     (None,
      [BlockItem ''b'' []
         [AttributeItem ''a'' (TokensForExpression (LiteralValueExpr (NumberVal 1) exRange))]],
      exContext)"
proof -
  let ?f = "exAttr ''for_each'' (NullVal TMap)"
  let ?a1 = "\<lparr>attributes = None, iterator = Some exIteratorAttr, foreach = Some ?f,
       labels = None, dcondition = None\<rparr>"
  let ?a2 = "\<lparr>attributes = None, iterator = None, foreach = Some ?f, labels = None,
       dcondition = None\<rparr>"
  let ?cb = "exContentBlock [exAttr ''a'' (NumberVal 1)]"
  have b1: "exNullForEach [exIteratorAttr] [] =
      Block ''tm_dynamic'' [''b''] (Body [?f, exIteratorAttr] [exContentBlock []] exRange)
        [exRange] exRange"
    by (simp add: exNullForEach_def exDynamic_def exBody_def)
  have b2: "exNullForEach [] [exAttr ''a'' (NumberVal 1)] =
      Block ''tm_dynamic'' [''b''] (Body [?f] [?cb] exRange) [exRange] exRange"
    by (simp add: exNullForEach_def exDynamic_def exBody_def)
  have b3: "exIteratorOnly =
      Block ''tm_dynamic'' [''b''] (Body [exIteratorAttr] [exContentBlock []] exRange)
        [exRange] exRange"
    by (simp add: exIteratorOnly_def exDynamic_def exBody_def)
  let ?B1 = "Block ''tm_dynamic'' [''b''] (Body [?f, exIteratorAttr] [exContentBlock []] exRange)
        [exRange] exRange"
  let ?B2 = "Block ''tm_dynamic'' [''b''] (Body [?f] [?cb] exRange) [exRange] exRange"
  have c1: "dynamicBlockChecks ?B1 = (?a1, Some (exContentBlock []), None)"
    unfolding b1 [symmetric] by (simp add: ex_checks exNullForEach_def exIteratorAttr_def)
  have c2: "dynamicBlockChecks ?B2 = (?a2, Some ?cb, None)"
    unfolding b2 [symmetric] by (simp add: ex_checks exNullForEach_def)
  have e: "Eval refEnv exContext (Expr ?f) = Inr (NullVal TMap)" by simp
  have n: "IsNull (NullVal TMap)" "CanIterateElements (NullVal TMap)"
    by (simp_all add: CanIterateElements_def)
  have nf: "filter (\<lambda>a. Name a \<noteq> ''for_each'') [?f, exIteratorAttr] = [exIteratorAttr]"
    by (simp add: exAttr_def exIteratorAttr_def)
  have p1: "foreach (fst (dynamicBlockChecks ?B1)) = Some ?f \<and>
      Eval refEnv exContext (Expr ?f) = Inr (NullVal TMap) \<and> IsNull (NullVal TMap) \<and>
      CanIterateElements (NullVal TMap)"
    using e n by (simp add: c1)
  have q1: "dynamicBlockChecks ?B1 = (?a1, Some (exContentBlock []), None) \<and>
      [''b''] = [''b''] \<and>
      (dcondition ?a1 = None \<or>
       (\<exists>g. dcondition ?a1 = Some g \<and> Eval refEnv exContext (Expr g) = Inr (BoolVal True)))"
    by (simp add: c1)
  note t1 = null_for_each [of "''tm_dynamic''" "[''b'']" "[?f, exIteratorAttr]"
      "[exContentBlock []]" exRange "[exRange]" exRange ?f refEnv exContext "NullVal TMap"
      "[]" ?a1 "Some (exContentBlock [])" "''b''", THEN mp, OF p1]
  have r1: "appendDynamicBlocks refEnv [] (exNullForEach [exIteratorAttr] []) exContext =
      appendDynamicBlocks refEnv [] exIteratorOnly exContext"
    using t1 [THEN conjunct1] unfolding nf b1 [symmetric] b3 [symmetric] .
  have "iterator ?a1 = Some exIteratorAttr" by simp
  from t1 [THEN conjunct2, THEN mp, OF q1, THEN conjunct1, THEN spec, THEN mp, OF this]
  have r2: "appendDynamicBlocks refEnv [] (exNullForEach [exIteratorAttr] []) exContext =
     (Some (E (Some ErrInvalidDynamicIterator) [AttrRange exIteratorAttr]
              ''iterator should not be defined when for_each is omitted'' [] None),
      [], exContext)"
    unfolding b1 [symmetric] .
  have r2': "appendDynamicBlocks refEnv [] (exNullForEach [exIteratorAttr] []) exContext =
     (Some (E (Some ErrInvalidDynamicIterator) [exRange]
              ''iterator should not be defined when for_each is omitted'' [] None),
      [], exContext)"
    by (subst r2) (simp add: exIteratorAttr_def)
  have p2: "foreach (fst (dynamicBlockChecks ?B2)) = Some ?f \<and>
      Eval refEnv exContext (Expr ?f) = Inr (NullVal TMap) \<and> IsNull (NullVal TMap) \<and>
      CanIterateElements (NullVal TMap)"
    using e n by (simp add: c2)
  have q2: "dynamicBlockChecks ?B2 = (?a2, Some ?cb, None) \<and> [''b''] = [''b''] \<and>
      (dcondition ?a2 = None \<or>
       (\<exists>g. dcondition ?a2 = Some g \<and> Eval refEnv exContext (Expr g) = Inr (BoolVal True)))"
    by (simp add: c2)
  note t2 = null_for_each [of "''tm_dynamic''" "[''b'']" "[?f]" "[?cb]" exRange "[exRange]"
      exRange ?f refEnv exContext "NullVal TMap" "[]" ?a2 "Some ?cb" "''b''", THEN mp, OF p2]
  have "iterator ?a2 = None" by simp
  from t2 [THEN conjunct2, THEN mp, OF q2, THEN conjunct2, THEN mp, OF this]
  have r3: "appendDynamicBlocks refEnv []
        (exNullForEach [] [exAttr ''a'' (NumberVal 1)]) exContext =
      appendDynamicBlock refEnv [] exContext ''b'' ?a2 (Some ?cb)"
    unfolding b2 [symmetric] .
  have r3': "appendDynamicBlocks refEnv [] (exNullForEach [] [exAttr ''a'' (NumberVal 1)])
      exContext =
     (None,
      [BlockItem ''b'' []
         [AttributeItem ''a'' (TokensForExpression (LiteralValueExpr (NumberVal 1) exRange))]],
      exContext)"
    by (subst r3) (simp add: ex_expand)
  have c0: "foreach (fst (dynamicBlockChecks (exNullForEach [exIteratorAttr] []))) = Some ?f"
    using p1 unfolding b1 [symmetric] by blast
  from c0 e n r1 r2' r3' show ?thesis by blast
qed

text \<open>
  C6. When the expander iterates (the block passes the structural checks, the guard is
  absent or true, \<^verbatim>\<open>for_each\<close> evaluates to a collection and the name of the loop variable
  is settled), the context it leaves has no namespace of that name, whether the loop
  ended with or without an error: the context is the one the loop left, with the
  namespace of the loop variable deleted.
\<close>

theorem loop_variable_removed:
  "dynamicBlockChecks blk = (attrs, cbo, None) \<and> Labels blk = [T] \<and>
   (dcondition attrs = None \<or>
    (\<exists>g. dcondition attrs = Some g \<and> Eval env ctx (Expr g) = Inr (BoolVal True))) \<and>
   foreach attrs = Some f \<and> Eval env ctx (Expr f) = Inr v \<and> ElementIterator v = Some kvs \<and>
   iteratorName env T (iterator attrs) = Inr it \<longrightarrow>
     (\<forall>err d c. appendDynamicBlocks env target blk ctx = (err, d, c) \<longrightarrow>
        namespaces c it = None \<and>
        (\<exists>c'. forEachElement env target ctx it T attrs cbo kvs = (err, d, c') \<and>
              c = DeleteNamespace it c'))"
proof (intro impI allI)
  fix err d c
  assume h: "dynamicBlockChecks blk = (attrs, cbo, None) \<and> Labels blk = [T] \<and>
    (dcondition attrs = None \<or>
     (\<exists>g. dcondition attrs = Some g \<and> Eval env ctx (Expr g) = Inr (BoolVal True))) \<and>
    foreach attrs = Some f \<and> Eval env ctx (Expr f) = Inr v \<and> ElementIterator v = Some kvs \<and>
    iteratorName env T (iterator attrs) = Inr it"
  assume r: "appendDynamicBlocks env target blk ctx = (err, d, c)"
  from h have g: "dynamicCondition env ctx (dcondition attrs) = Inr True"
    by (simp add: dynamicCondition_guard)
  from h ElementIterator_Some [of v kvs]
  have fe: "evalForEach env ctx (foreach attrs) = Inr v"
    by (simp add: evalForEach_value)
  from h have c: "dynamicBlockChecks blk = (attrs, cbo, None)" and l: "Labels blk = T # []"
    and k: "ElementIterator v = Some kvs" and i: "iteratorName env T (iterator attrs) = Inr it"
    by simp_all
  note eq = appendDynamicBlocks_iterate [OF c l g fe k i, of target]
  from r show "namespaces c it = None \<and>
      (\<exists>c'. forEachElement env target ctx it T attrs cbo kvs = (err, d, c') \<and>
            c = DeleteNamespace it c')"
    by (auto simp: eq DeleteNamespace_def split: prod.splits)
qed

lemma exLoop_checks:
  "dynamicBlockChecks (exLoop [] cs) = (exLoopAttrs, Some (exContentBlock cs), None)"
  by (simp add: ex_checks exLoop_def exLoopAttrs_def exForEachAttr_def)

lemma exLoop_labels: "Labels (exLoop as cs) = [''b'']"
  by (simp add: exLoop_def exDynamic_def)

lemma exLoop_elements:
  "Eval refEnv ctx (Expr exForEachAttr) = Inr (ListVal [StringVal ''u'', StringVal ''v''])"
  "ElementIterator (ListVal [StringVal ''u'', StringVal ''v'']) =
     Some [(NumberVal 0, StringVal ''u''), (NumberVal 1, StringVal ''v'')]"
  by (simp_all add: exForEachAttr_def)

lemma exLoop_iterator: "iteratorName env ''b'' (iterator exLoopAttrs) = Inr ''b''"
  by (simp add: iteratorName_def exLoopAttrs_def noDynBlockAttributes_def)

lemma exLoop_guard: "dcondition exLoopAttrs = None" "foreach exLoopAttrs = Some exForEachAttr"
  by (simp_all add: exLoopAttrs_def noDynBlockAttributes_def)

lemma exLoop_run:
  "forEachElement refEnv [] exContext ''b'' ''b'' exLoopAttrs (Some (exContentBlock [exValueRef]))
     [(NumberVal 0, StringVal ''u''), (NumberVal 1, StringVal ''v'')] =
   (None, [exValBlock ''u'', exValBlock ''v''],
    SetNamespace ''b'' [(''key'', NumberVal 1), (''value'', StringVal ''v'')] exContext)"
  by (simp add: ex_expand exLoopAttrs_def noDynBlockAttributes_def exValueRef_def
        SetNamespace_def exContext_def exValBlock_def)

lemma exLoop_run_bad:
  "forEachElement refEnv [] exContext ''b'' ''b'' exLoopAttrs (Some (exContentBlock [exBadAttr]))
     [(NumberVal 0, StringVal ''u''), (NumberVal 1, StringVal ''v'')] =
   (Some (E None [exRange] [] [] (Some (E None [exRange] ''call to unknown function'' [] None))),
    [BlockItem ''b'' [] []],
    SetNamespace ''b'' [(''key'', NumberVal 0), (''value'', StringVal ''u'')] exContext)"
  by (simp add: ex_expand exLoopAttrs_def noDynBlockAttributes_def exBadAttr_def
        SetNamespace_def exContext_def)

theorem loop_variable_removed_witness:
  "dynamicBlockChecks (exLoop [] [exValueRef]) =
     (exLoopAttrs, Some (exContentBlock [exValueRef]), None) \<and>
   Labels (exLoop [] [exValueRef]) = [''b''] \<and> dcondition exLoopAttrs = None \<and>
   foreach exLoopAttrs = Some exForEachAttr \<and>
   Eval refEnv exContext (Expr exForEachAttr) = Inr (ListVal [StringVal ''u'', StringVal ''v'']) \<and>
   ElementIterator (ListVal [StringVal ''u'', StringVal ''v'']) =
     Some [(NumberVal 0, StringVal ''u''), (NumberVal 1, StringVal ''v'')] \<and>
   iteratorName refEnv ''b'' (iterator exLoopAttrs) = Inr ''b'' \<and>
   appendDynamicBlocks refEnv [] (exLoop [] [exValueRef]) exContext =
     (None, [exValBlock ''u'', exValBlock ''v''], exContext) \<and>
   namespaces exContext ''b'' = None \<and>
   fst (appendDynamicBlocks refEnv [] (exLoop [] [exBadAttr]) exContext) \<noteq> None \<and>
   namespaces (snd (snd (appendDynamicBlocks refEnv [] (exLoop [] [exBadAttr]) exContext))) ''b'' =
     None"
proof -
  let ?kvs = "[(NumberVal 0, StringVal ''u''), (NumberVal 1, StringVal ''v'')]"
  let ?v = "ListVal [StringVal ''u'', StringVal ''v'']"
  have h: "dynamicBlockChecks (exLoop [] cs) = (exLoopAttrs, Some (exContentBlock cs), None) \<and>
      Labels (exLoop [] cs) = [''b''] \<and>
      (dcondition exLoopAttrs = None \<or>
       (\<exists>g. dcondition exLoopAttrs = Some g \<and>
            Eval refEnv exContext (Expr g) = Inr (BoolVal True))) \<and>
      foreach exLoopAttrs = Some exForEachAttr \<and>
      Eval refEnv exContext (Expr exForEachAttr) = Inr ?v \<and> ElementIterator ?v = Some ?kvs \<and>
      iteratorName refEnv ''b'' (iterator exLoopAttrs) = Inr ''b''" for cs
    by (simp add: exLoop_checks exLoop_labels exLoop_elements exLoop_iterator exLoop_guard)
  note t = loop_variable_removed [of _ exLoopAttrs _ "''b''" refEnv exContext exForEachAttr ?v
      ?kvs "''b''" "[]", THEN mp, OF h, THEN spec, THEN spec, THEN spec, THEN mp]
  obtain e1 d1 c1 where r1: "appendDynamicBlocks refEnv [] (exLoop [] [exValueRef]) exContext =
      (e1, d1, c1)"
    by (cases "appendDynamicBlocks refEnv [] (exLoop [] [exValueRef]) exContext") auto
  from t [OF r1] exLoop_run have "e1 = None" "d1 = [exValBlock ''u'', exValBlock ''v'']"
    "c1 = exContext"
    by (auto simp: DeleteNamespace_def SetNamespace_def exContext_def)
  with r1 have s1: "appendDynamicBlocks refEnv [] (exLoop [] [exValueRef]) exContext =
     (None, [exValBlock ''u'', exValBlock ''v''], exContext)"
    by simp
  obtain e2 d2 c2 where r2: "appendDynamicBlocks refEnv [] (exLoop [] [exBadAttr]) exContext =
      (e2, d2, c2)"
    by (cases "appendDynamicBlocks refEnv [] (exLoop [] [exBadAttr]) exContext") auto
  from t [OF r2] exLoop_run_bad have "e2 \<noteq> None" "namespaces c2 ''b'' = None"
    by auto
  with r2 have s2: "fst (appendDynamicBlocks refEnv [] (exLoop [] [exBadAttr]) exContext) \<noteq> None"
    "namespaces (snd (snd (appendDynamicBlocks refEnv [] (exLoop [] [exBadAttr]) exContext))) ''b'' =
     None"
    by simp_all
  have z: "namespaces exContext ''b'' = None" by (simp add: exContext_def)
  from h [of "[exValueRef]"] exLoop_guard s1 s2 z show ?thesis by blast
qed

section \<open>One expansion and the loop over the collection\<close>

lemma setBodyAttributes_valid:
  "\<forall>t\<in>set ts. ValidIdentifier env (name t) \<Longrightarrow> fst (setBodyAttributes env bd ts) = None"
  by (induction ts arbitrary: bd) auto

lemma conflictingField_Some:
  "\<exists>x\<in>set as. Name x \<in> set names \<Longrightarrow>
   \<exists>x\<in>set as. Name x \<in> set names \<and>
     conflictingField names as =
       Some (E (Some ErrDynamicAttrsConflict) [AttrRange x]
               ''attribute %s already set by tm_dynamic.attributes'' [ArgStr (Name x)] None)"
  by (induction as) auto

lemma conflictingField_None:
  "conflictingField names as = None \<longleftrightarrow> (\<forall>x\<in>set as. Name x \<notin> set names)"
  by (induction as) auto

lemma exWithAttributes_eval:
  "evalLabels refEnv ctx (labels exWithAttributes) = Inr []"
  "attributes exWithAttributes = Some (exAttributesAttr (NumberVal 1))"
  "evalAttributes refEnv ctx (exAttributesAttr (NumberVal 1)) = Inr [exTmAttribute]"
  "ValidIdentifier refEnv (name exTmAttribute)"
  "setBodyAttributes refEnv [] [exTmAttribute] =
     (None, [AttributeItem ''a'' (TokensForExpression (exLit (NumberVal 1)))])"
  by (simp_all add: evalLabels_def exWithAttributes_def noDynBlockAttributes_def
        evalAttributes_def exAttributesAttr_def exLit_def refEnv_def exTmAttribute_def)

text \<open>
  C4. In an expansion with both \<^verbatim>\<open>attributes\<close> and a \<^verbatim>\<open>content\<close> block, once the labels are
  evaluated and every entry of \<^verbatim>\<open>attributes\<close> is evaluated and set (its names are the
  names recorded in \<^verbatim>\<open>attributeNames\<close>): if an attribute of the content block has one of
  these names, the expansion ends in the error of kind
  \<^verbatim>\<open>tm_dynamic.attributes and tm_dynamic.content have conflicting fields\<close>, reported at the
  range of such an attribute of the content block. The values play no part: the
  statement does not mention them, and the two runs of the witness collide on \<^verbatim>\<open>a\<close> with
  equal and with different values.
\<close>

theorem attributes_content_conflict:
  "evalLabels env ctx (labels attrs) = Inr ls \<and> attributes attrs = Some a \<and>
   evalAttributes env ctx a = Inr tmAttrs \<and>
   (\<forall>t\<in>set tmAttrs. ValidIdentifier env (name t)) \<and>
   (\<exists>x\<in>set (Attributes (BlockBody cb)). Name x \<in> set (map name tmAttrs)) \<longrightarrow>
     (\<exists>x\<in>set (Attributes (BlockBody cb)).
        Name x \<in> set (map name tmAttrs) \<and>
        appendDynamicBlock env dest ctx T attrs (Some cb) =
          (Some (E (Some ErrDynamicAttrsConflict) [AttrRange x]
                   ''attribute %s already set by tm_dynamic.attributes'' [ArgStr (Name x)] None),
           dest @ [BlockItem T ls (snd (setBodyAttributes env [] tmAttrs))], ctx)) \<and>
     KindText ErrDynamicAttrsConflict =
       ''tm_dynamic.attributes and tm_dynamic.content have conflicting fields''"
proof (intro impI conjI)
  assume h: "evalLabels env ctx (labels attrs) = Inr ls \<and> attributes attrs = Some a \<and>
    evalAttributes env ctx a = Inr tmAttrs \<and>
    (\<forall>t\<in>set tmAttrs. ValidIdentifier env (name t)) \<and>
    (\<exists>x\<in>set (Attributes (BlockBody cb)). Name x \<in> set (map name tmAttrs))"
  then have "fst (setBodyAttributes env [] tmAttrs) = None"
    by (simp add: setBodyAttributes_valid)
  then obtain bd0 where s: "setBodyAttributes env [] tmAttrs = (None, bd0)"
    by (cases "setBodyAttributes env [] tmAttrs") auto
  from h have ap: "applyAttributes env ctx (attributes attrs) =
      (None, snd (setBodyAttributes env [] tmAttrs), map name tmAttrs)"
    by (simp add: applyAttributes_def s)
  from h conflictingField_Some [of "Attributes (BlockBody cb)" "map name tmAttrs"]
  obtain x where x: "x \<in> set (Attributes (BlockBody cb))" "Name x \<in> set (map name tmAttrs)"
    "conflictingField (map name tmAttrs) (Attributes (BlockBody cb)) =
       Some (E (Some ErrDynamicAttrsConflict) [AttrRange x]
               ''attribute %s already set by tm_dynamic.attributes'' [ArgStr (Name x)] None)"
    by blast
  from h ap x(3) have "appendDynamicBlock env dest ctx T attrs (Some cb) =
      (Some (E (Some ErrDynamicAttrsConflict) [AttrRange x]
               ''attribute %s already set by tm_dynamic.attributes'' [ArgStr (Name x)] None),
       dest @ [BlockItem T ls (snd (setBodyAttributes env [] tmAttrs))], ctx)"
    by (simp add: appendDynamicBlock.simps)
  with x(1,2) show "\<exists>x\<in>set (Attributes (BlockBody cb)).
        Name x \<in> set (map name tmAttrs) \<and>
        appendDynamicBlock env dest ctx T attrs (Some cb) =
          (Some (E (Some ErrDynamicAttrsConflict) [AttrRange x]
                   ''attribute %s already set by tm_dynamic.attributes'' [ArgStr (Name x)] None),
           dest @ [BlockItem T ls (snd (setBodyAttributes env [] tmAttrs))], ctx)"
    by blast
  show "KindText ErrDynamicAttrsConflict =
       ''tm_dynamic.attributes and tm_dynamic.content have conflicting fields''"
    by simp
qed

theorem attributes_content_conflict_witness:
  "evalLabels refEnv exContext (labels exWithAttributes) = Inr [] \<and>
   attributes exWithAttributes = Some (exAttributesAttr (NumberVal 1)) \<and>
   evalAttributes refEnv exContext (exAttributesAttr (NumberVal 1)) = Inr [exTmAttribute] \<and>
   ValidIdentifier refEnv (name exTmAttribute) \<and>
   Name (exAttr ''a'' (NumberVal 1)) = name exTmAttribute \<and>
   Name (exAttr ''a'' (NumberVal 2)) = name exTmAttribute \<and>
   appendDynamicBlock refEnv [] exContext ''b'' exWithAttributes
       (Some (exContentBlock [exAttr ''a'' (NumberVal 1)])) =
     (Some (E (Some ErrDynamicAttrsConflict) [exRange]
              ''attribute %s already set by tm_dynamic.attributes'' [ArgStr ''a''] None),
      [BlockItem ''b'' [] [AttributeItem ''a'' (TokensForExpression (exLit (NumberVal 1)))]],
      exContext) \<and>
   appendDynamicBlock refEnv [] exContext ''b'' exWithAttributes
       (Some (exContentBlock [exAttr ''a'' (NumberVal 2)])) =
     (Some (E (Some ErrDynamicAttrsConflict) [exRange]
              ''attribute %s already set by tm_dynamic.attributes'' [ArgStr ''a''] None),
      [BlockItem ''b'' [] [AttributeItem ''a'' (TokensForExpression (exLit (NumberVal 1)))]],
      exContext)"
proof -
  have run: "appendDynamicBlock refEnv [] exContext ''b'' exWithAttributes
       (Some (exContentBlock [exAttr ''a'' v])) =
     (Some (E (Some ErrDynamicAttrsConflict) [exRange]
              ''attribute %s already set by tm_dynamic.attributes'' [ArgStr ''a''] None),
      [BlockItem ''b'' [] [AttributeItem ''a'' (TokensForExpression (exLit (NumberVal 1)))]],
      exContext)" for v
  proof -
    let ?cb = "exContentBlock [exAttr ''a'' v]"
    have as: "Attributes (BlockBody ?cb) = [exAttr ''a'' v]"
      by (simp add: exContentBlock_def exBody_def)
    have nm: "Name (exAttr ''a'' v) = ''a''" "AttrRange (exAttr ''a'' v) = exRange"
      by (simp_all add: exAttr_def)
    have h: "evalLabels refEnv exContext (labels exWithAttributes) = Inr [] \<and>
        attributes exWithAttributes = Some (exAttributesAttr (NumberVal 1)) \<and>
        evalAttributes refEnv exContext (exAttributesAttr (NumberVal 1)) = Inr [exTmAttribute] \<and>
        (\<forall>t\<in>set [exTmAttribute]. ValidIdentifier refEnv (name t)) \<and>
        (\<exists>x\<in>set (Attributes (BlockBody ?cb)). Name x \<in> set (map name [exTmAttribute]))"
      by (simp add: exWithAttributes_eval as nm) (simp add: exTmAttribute_def)
    from attributes_content_conflict [of refEnv exContext exWithAttributes "[]"
        "exAttributesAttr (NumberVal 1)" "[exTmAttribute]" ?cb "[]" "''b''", THEN mp, OF h,
        THEN conjunct1]
    obtain x where x: "x \<in> set (Attributes (BlockBody ?cb))"
      "appendDynamicBlock refEnv [] exContext ''b'' exWithAttributes (Some ?cb) =
        (Some (E (Some ErrDynamicAttrsConflict) [AttrRange x]
                 ''attribute %s already set by tm_dynamic.attributes'' [ArgStr (Name x)] None),
         [] @ [BlockItem ''b'' [] (snd (setBodyAttributes refEnv [] [exTmAttribute]))], exContext)"
      by blast
    from x(1) as have xv: "x = exAttr ''a'' v" by simp
    from x(2) [unfolded xv nm exWithAttributes_eval(5)] show ?thesis by simp
  qed
  have n: "Name (exAttr ''a'' v) = name exTmAttribute" for v
    by (simp add: exAttr_def exTmAttribute_def)
  from exWithAttributes_eval(1) [of exContext] exWithAttributes_eval(2)
    exWithAttributes_eval(3) [of exContext] exWithAttributes_eval(4) n run
  show ?thesis by blast
qed

lemma appendDynamicBlock_block:
  "appendDynamicBlock env d c T attrs cbo = (None, d', c') \<Longrightarrow>
   \<exists>ls bd. d' = d @ [BlockItem T ls bd]"
  by (auto simp: appendDynamicBlock.simps split: sum.splits prod.splits option.splits)

lemma iteratorName_default: "iteratorName env T None = Inr T"
  by (simp add: iteratorName_def)

lemma iteratorName_override:
  "AbsTraversalForExpr env (Expr a) = Some [root] \<Longrightarrow> iteratorName env T (Some a) = Inr root"
  by (simp add: iteratorName_def)

lemma iteratorName_invalid:
  "AbsTraversalForExpr env (Expr a) = None \<or>
   (\<exists>tr. AbsTraversalForExpr env (Expr a) = Some tr \<and> length tr \<noteq> 1) \<Longrightarrow>
   iteratorName env T (Some a) =
     Inl (E (Some ErrInvalidDynamicIterator) [AttrRange a]
            ''dynamic iterator must be a single variable name'' [] None)"
  by (auto simp: iteratorName_def split: option.splits list.splits)

lemma appendDynamicBlocks_iterator_invalid:
  assumes "dynamicBlockChecks blk = (attrs, cbo, None)" and "Labels blk = T # rest"
    and "dynamicCondition env ctx (dcondition attrs) = Inr True"
    and "evalForEach env ctx (foreach attrs) = Inr fe" and "\<not> IsNull fe"
    and "iteratorName env T (iterator attrs) = Inl err"
  shows "appendDynamicBlocks env target blk ctx = (Some err, target, ctx)"
  using assms by (cases blk; cases "BlockBody blk") (simp add: appendDynamicBlocks.simps)

lemma forEachElement_run:
  "forEachElement env d c it T attrs cbo kvs = (None, d', c') \<Longrightarrow>
   \<exists>bs cs. d' = d @ bs \<and> length bs = length kvs \<and> length cs = Suc (length kvs) \<and>
     cs ! 0 = c \<and> cs ! length kvs = c' \<and>
     (\<forall>i<length kvs. \<exists>ls bd.
        bs ! i = BlockItem T ls bd \<and>
        appendDynamicBlock env (d @ take i bs)
            (SetNamespace it [(''key'', fst (kvs ! i)), (''value'', snd (kvs ! i))] (cs ! i))
            T attrs cbo =
          (None, d @ take (Suc i) bs, cs ! Suc i))"
proof (induction kvs arbitrary: d c)
  case Nil
  then show ?case by (intro exI [of _ "[]"] exI [of _ "[c]"]) simp
next
  case (Cons kv kvs)
  obtain k v where kv: "kv = (k, v)" by (cases kv) auto
  let ?c0 = "SetNamespace it [(''key'', k), (''value'', v)] c"
  obtain e1 d1 c1 where s: "appendDynamicBlock env d ?c0 T attrs cbo = (e1, d1, c1)"
    by (cases "appendDynamicBlock env d ?c0 T attrs cbo") auto
  with Cons.prems kv have e1: "e1 = None"
    and r: "forEachElement env d1 c1 it T attrs cbo kvs = (None, d', c')"
    by (auto split: option.splits)
  from s e1 appendDynamicBlock_block [of env d ?c0 T attrs cbo d1 c1]
  obtain ls bd where b: "d1 = d @ [BlockItem T ls bd]" by auto
  from Cons.IH [OF r] obtain bs cs where
    bs: "d' = d1 @ bs" "length bs = length kvs" "length cs = Suc (length kvs)"
      "cs ! 0 = c1" "cs ! length kvs = c'"
    and st: "\<And>i. i < length kvs \<Longrightarrow> \<exists>ls bd.
        bs ! i = BlockItem T ls bd \<and>
        appendDynamicBlock env (d1 @ take i bs)
            (SetNamespace it [(''key'', fst (kvs ! i)), (''value'', snd (kvs ! i))] (cs ! i))
            T attrs cbo =
          (None, d1 @ take (Suc i) bs, cs ! Suc i)"
    by blast
  let ?bs = "BlockItem T ls bd # bs" and ?cs = "c # cs"
  have "\<exists>ls' bd'.
        ?bs ! i = BlockItem T ls' bd' \<and>
        appendDynamicBlock env (d @ take i ?bs)
            (SetNamespace it [(''key'', fst ((kv # kvs) ! i)), (''value'', snd ((kv # kvs) ! i))]
               (?cs ! i))
            T attrs cbo =
          (None, d @ take (Suc i) ?bs, ?cs ! Suc i)" if "i < length (kv # kvs)" for i
  proof (cases i)
    case 0
    with s e1 b kv bs(4) show ?thesis by simp
  next
    case (Suc j)
    with that have "j < length kvs" by simp
    from st [OF this] Suc b show ?thesis by simp
  qed
  with bs b show ?case
    by (intro exI [of _ ?bs] exI [of _ ?cs]) simp
qed

lemma forEachElement_stop:
  "forEachElement env d c it T attrs cbo kvs = (Some e, d', c') \<Longrightarrow>
   \<exists>n bs cs. n < length kvs \<and> length bs = n \<and> length cs = Suc n \<and> cs ! 0 = c \<and>
     (\<forall>i<n. \<exists>ls bd.
        bs ! i = BlockItem T ls bd \<and>
        appendDynamicBlock env (d @ take i bs)
            (SetNamespace it [(''key'', fst (kvs ! i)), (''value'', snd (kvs ! i))] (cs ! i))
            T attrs cbo =
          (None, d @ take (Suc i) bs, cs ! Suc i)) \<and>
     appendDynamicBlock env (d @ bs)
         (SetNamespace it [(''key'', fst (kvs ! n)), (''value'', snd (kvs ! n))] (cs ! n))
         T attrs cbo =
       (Some e, d', c')"
proof (induction kvs arbitrary: d c)
  case Nil
  then show ?case by simp
next
  case (Cons kv kvs)
  obtain k v where kv: "kv = (k, v)" by (cases kv) auto
  let ?c0 = "SetNamespace it [(''key'', k), (''value'', v)] c"
  obtain e1 d1 c1 where s: "appendDynamicBlock env d ?c0 T attrs cbo = (e1, d1, c1)"
    by (cases "appendDynamicBlock env d ?c0 T attrs cbo") auto
  show ?case
  proof (cases e1)
    case (Some e')
    with Cons.prems kv s have "e' = e" "d1 = d'" "c1 = c'" by auto
    with s Some kv show ?thesis
      by (intro exI [of _ 0] exI [of _ "[]"] exI [of _ "[c]"]) simp
  next
    case None
    with Cons.prems kv s have r: "forEachElement env d1 c1 it T attrs cbo kvs = (Some e, d', c')"
      by auto
    from s None appendDynamicBlock_block [of env d ?c0 T attrs cbo d1 c1]
    obtain ls bd where b: "d1 = d @ [BlockItem T ls bd]" by auto
    from Cons.IH [OF r] obtain n bs cs where
      p: "n < length kvs" "length bs = n" "length cs = Suc n" "cs ! 0 = c1"
        "appendDynamicBlock env (d1 @ bs)
           (SetNamespace it [(''key'', fst (kvs ! n)), (''value'', snd (kvs ! n))] (cs ! n))
           T attrs cbo = (Some e, d', c')"
      and st: "\<And>i. i < n \<Longrightarrow> \<exists>ls bd.
        bs ! i = BlockItem T ls bd \<and>
        appendDynamicBlock env (d1 @ take i bs)
            (SetNamespace it [(''key'', fst (kvs ! i)), (''value'', snd (kvs ! i))] (cs ! i))
            T attrs cbo =
          (None, d1 @ take (Suc i) bs, cs ! Suc i)"
      by blast
    let ?bs = "BlockItem T ls bd # bs" and ?cs = "c # cs"
    have "\<exists>ls' bd'.
        ?bs ! i = BlockItem T ls' bd' \<and>
        appendDynamicBlock env (d @ take i ?bs)
            (SetNamespace it [(''key'', fst ((kv # kvs) ! i)), (''value'', snd ((kv # kvs) ! i))]
               (?cs ! i))
            T attrs cbo =
          (None, d @ take (Suc i) ?bs, ?cs ! Suc i)" if "i < Suc n" for i
    proof (cases i)
      case 0
      with s None b kv p(4) show ?thesis by simp
    next
      case (Suc j)
      with that have "j < n" by simp
      from st [OF this] Suc b show ?thesis by simp
    qed
    with p b show ?thesis
      by (intro exI [of _ "Suc n"] exI [of _ ?bs] exI [of _ ?cs]) simp
  qed
qed

lemma exGuardedLoop_checks:
  "dynamicBlockChecks (exLoop [exAttr ''condition'' (BoolVal False)] cs) =
     (exGuardedLoopAttrs, Some (exContentBlock cs), None)"
  by (simp add: ex_checks exLoop_def exLoopAttrs_def exForEachAttr_def exGuardedLoopAttrs_def)

lemma exLoop_result:
  "appendDynamicBlocks refEnv [] (exLoop [] [exValueRef]) exContext =
     (None, [exValBlock ''u'', exValBlock ''v''], exContext)"
  "appendDynamicBlocks refEnv [] (exLoop [] [exBadAttr]) exContext =
     (Some (E None [exRange] [] [] (Some (E None [exRange] ''call to unknown function'' [] None))),
      [BlockItem ''b'' [] []], exContext)"
proof -
  have g: "dynamicCondition refEnv exContext (dcondition exLoopAttrs) = Inr True"
    by (simp add: exLoop_guard dynamicCondition_None)
  have f: "evalForEach refEnv exContext (foreach exLoopAttrs) =
      Inr (ListVal [StringVal ''u'', StringVal ''v''])"
    by (simp add: exLoop_guard evalForEach_value exLoop_elements CanIterateElements_def)
  have l: "Labels (exLoop [] cs) = ''b'' # []" for cs by (simp add: exLoop_labels)
  note eq = appendDynamicBlocks_iterate [OF exLoop_checks l g f exLoop_elements(2)
      exLoop_iterator, where target = "[]"]
  show "appendDynamicBlocks refEnv [] (exLoop [] [exValueRef]) exContext =
     (None, [exValBlock ''u'', exValBlock ''v''], exContext)"
    by (subst eq, subst exLoop_run)
       (simp add: DeleteNamespace_def SetNamespace_def exContext_def)
  show "appendDynamicBlocks refEnv [] (exLoop [] [exBadAttr]) exContext =
     (Some (E None [exRange] [] [] (Some (E None [exRange] ''call to unknown function'' [] None))),
      [BlockItem ''b'' [] []], exContext)"
    by (subst eq, subst exLoop_run_bad)
       (simp add: DeleteNamespace_def SetNamespace_def exContext_def)
qed

lemma exBadIterator_checks:
  "dynamicBlockChecks (exLoop [exBadIteratorAttr] cs) =
     (exBadIteratorAttrs, Some (exContentBlock cs), None)"
  by (simp add: ex_checks exLoop_def exLoopAttrs_def exForEachAttr_def exBadIteratorAttr_def
        exBadIteratorAttrs_def)

lemma exBadIterator_fields:
  "foreach exBadIteratorAttrs = Some exForEachAttr" "dcondition exBadIteratorAttrs = None"
  "iterator exBadIteratorAttrs = Some exBadIteratorAttr"
  "AbsTraversalForExpr refEnv (Expr exBadIteratorAttr) = Some [''x'', ''y'']"
  "AttrRange exBadIteratorAttr = exRange"
  by (simp_all add: exBadIteratorAttrs_def exLoopAttrs_def noDynBlockAttributes_def
        exBadIteratorAttr_def refEnv_def)

lemma exGuardedInvalid_errors:
  "dynamicBlockErrors exGuardedInvalid =
     [E (Some ErrParsing) [exRange] ''`content` block or `attributes` obj must be defined'' []
        None]"
  "dcondition (fst (dynamicBlockChecks exGuardedInvalid)) =
     Some (exAttr ''condition'' (BoolVal False))"
  by (simp_all add: ex_checks exGuardedInvalid_def exForEachAttr_def)

lemma exNamedLoop_checks:
  "dynamicBlockChecks (exLoop [exIteratorAttr] cs) =
     (exNamedLoopAttrs, Some (exContentBlock cs), None)"
  by (simp add: ex_checks exLoop_def exLoopAttrs_def exForEachAttr_def exIteratorAttr_def
        exNamedLoopAttrs_def)

lemma exNamedLoop_fields:
  "foreach exNamedLoopAttrs = Some exForEachAttr" "dcondition exNamedLoopAttrs = None"
  "iterator exNamedLoopAttrs = Some exIteratorAttr"
  "AbsTraversalForExpr refEnv (Expr exIteratorAttr) = Some [''x'']"
  by (simp_all add: exNamedLoopAttrs_def exLoopAttrs_def noDynBlockAttributes_def
        exIteratorAttr_def refEnv_def)

lemma exNamedLoop_run:
  "forEachElement refEnv [] exContext ''x'' ''b'' exNamedLoopAttrs
     (Some (exContentBlock [exNamedValueRef]))
     [(NumberVal 0, StringVal ''u''), (NumberVal 1, StringVal ''v'')] =
   (None, [exValBlock ''u'', exValBlock ''v''],
    SetNamespace ''x'' [(''key'', NumberVal 1), (''value'', StringVal ''v'')] exContext)"
  by (simp add: ex_expand exNamedLoopAttrs_def exLoopAttrs_def noDynBlockAttributes_def
        exNamedValueRef_def SetNamespace_def exContext_def exValBlock_def)

lemma exNamedLoop_result:
  "appendDynamicBlocks refEnv [] (exLoop [exIteratorAttr] [exNamedValueRef]) exContext =
     (None, [exValBlock ''u'', exValBlock ''v''], exContext)"
proof -
  have g: "dynamicCondition refEnv exContext (dcondition exNamedLoopAttrs) = Inr True"
    by (simp add: exNamedLoop_fields dynamicCondition_None)
  have f: "evalForEach refEnv exContext (foreach exNamedLoopAttrs) =
      Inr (ListVal [StringVal ''u'', StringVal ''v''])"
    by (simp add: exNamedLoop_fields evalForEach_value exLoop_elements CanIterateElements_def)
  have l: "Labels (exLoop [exIteratorAttr] [exNamedValueRef]) = ''b'' # []"
    by (simp add: exLoop_labels)
  have i: "iteratorName refEnv ''b'' (iterator exNamedLoopAttrs) = Inr ''x''"
    by (simp add: exNamedLoop_fields iteratorName_override)
  note eq = appendDynamicBlocks_iterate [OF exNamedLoop_checks l g f exLoop_elements(2) i,
      where target = "[]"]
  show ?thesis
    by (subst eq, subst exNamedLoop_run)
       (simp add: DeleteNamespace_def SetNamespace_def exContext_def)
qed

text \<open>
  C1, as the source has it. The loop comes after the structural checks, the guard and
  the test of \<^verbatim>\<open>iterator\<close>. For a \<^verbatim>\<open>tm_dynamic\<close> block that passes the structural checks:
  when \<^verbatim>\<open>for_each\<close> evaluates to a collection with the key/value pairs \<open>kvs\<close> (in the order
  of iteration), the guard is absent or true, and the loop variable \<open>it\<close> is the generated
  block type (no \<^verbatim>\<open>iterator\<close>) or the single name \<^verbatim>\<open>iterator\<close> is a traversal of, then

    \<^item> a run without error has added exactly \<open>length kvs\<close> blocks of the generated type to
      the destination; the i-th one is made by one expansion, run on the destination
      with the earlier blocks, in the context the expansion before it left (the given
      context for the first) with \<open>it\<close> bound to the key and the value of the i-th pair;
      the run leaves the context of the last expansion without the loop variable;

    \<^item> a run with an error has made such an expansion for each of the first \<open>n\<close> pairs,
      \<open>n < length kvs\<close>, and then the expansion for the next pair, which failed: the run
      returns the error and the destination of that expansion, so no pair after it is
      expanded.

  An \<^verbatim>\<open>iterator\<close> that is no single name is the error of kind \<^verbatim>\<open>invalid tm_dynamic.iterator\<close>,
  with nothing added. When the guard evaluates to false the run adds nothing and returns
  no error.
\<close>

theorem for_each_expansion:
  "dynamicBlockChecks blk = (attrs, cbo, None) \<and> Labels blk = [T] \<longrightarrow>
     (foreach attrs = Some f \<and> Eval env ctx (Expr f) = Inr v \<and> ElementIterator v = Some kvs \<and>
      (dcondition attrs = None \<or>
       (\<exists>g. dcondition attrs = Some g \<and> Eval env ctx (Expr g) = Inr (BoolVal True))) \<and>
      (iterator attrs = None \<and> it = T \<or>
       (\<exists>a. iterator attrs = Some a \<and> AbsTraversalForExpr env (Expr a) = Some [it])) \<longrightarrow>
        (\<forall>d c. appendDynamicBlocks env target blk ctx = (None, d, c) \<longrightarrow>
           (\<exists>bs cs. d = target @ bs \<and> length bs = length kvs \<and> length cs = Suc (length kvs) \<and>
              cs ! 0 = ctx \<and> c = DeleteNamespace it (cs ! length kvs) \<and>
              (\<forall>i<length kvs. \<exists>ls bd.
                 bs ! i = BlockItem T ls bd \<and>
                 appendDynamicBlock env (target @ take i bs)
                     (SetNamespace it [(''key'', fst (kvs ! i)), (''value'', snd (kvs ! i))]
                        (cs ! i))
                     T attrs cbo =
                   (None, target @ take (Suc i) bs, cs ! Suc i)))) \<and>
        (\<forall>e d c. appendDynamicBlocks env target blk ctx = (Some e, d, c) \<longrightarrow>
           (\<exists>n bs cs c'. n < length kvs \<and> length bs = n \<and> length cs = Suc n \<and> cs ! 0 = ctx \<and>
              (\<forall>i<n. \<exists>ls bd.
                 bs ! i = BlockItem T ls bd \<and>
                 appendDynamicBlock env (target @ take i bs)
                     (SetNamespace it [(''key'', fst (kvs ! i)), (''value'', snd (kvs ! i))]
                        (cs ! i))
                     T attrs cbo =
                   (None, target @ take (Suc i) bs, cs ! Suc i)) \<and>
              appendDynamicBlock env (target @ bs)
                  (SetNamespace it [(''key'', fst (kvs ! n)), (''value'', snd (kvs ! n))] (cs ! n))
                  T attrs cbo =
                (Some e, d, c') \<and>
              c = DeleteNamespace it c'))) \<and>
     (foreach attrs = Some f \<and> Eval env ctx (Expr f) = Inr v \<and> ElementIterator v = Some kvs \<and>
      (dcondition attrs = None \<or>
       (\<exists>g. dcondition attrs = Some g \<and> Eval env ctx (Expr g) = Inr (BoolVal True))) \<and>
      iterator attrs = Some a \<and>
      (AbsTraversalForExpr env (Expr a) = None \<or>
       (\<exists>tr. AbsTraversalForExpr env (Expr a) = Some tr \<and> length tr \<noteq> 1)) \<longrightarrow>
        appendDynamicBlocks env target blk ctx =
          (Some (E (Some ErrInvalidDynamicIterator) [AttrRange a]
                   ''dynamic iterator must be a single variable name'' [] None),
           target, ctx)) \<and>
     ((\<exists>g. dcondition attrs = Some g \<and> Eval env ctx (Expr g) = Inr (BoolVal False)) \<longrightarrow>
        appendDynamicBlocks env target blk ctx = (None, target, ctx))"
proof (intro impI conjI allI)
  assume k: "dynamicBlockChecks blk = (attrs, cbo, None) \<and> Labels blk = [T]"
  then have c: "dynamicBlockChecks blk = (attrs, cbo, None)" and l: "Labels blk = T # []"
    by simp_all
  {
    assume "\<exists>g. dcondition attrs = Some g \<and> Eval env ctx (Expr g) = Inr (BoolVal False)"
    then have "dynamicCondition env ctx (dcondition attrs) = Inr False"
      by (auto simp: dynamicCondition_bool)
    from appendDynamicBlocks_guard_false [OF c l this]
    show "appendDynamicBlocks env target blk ctx = (None, target, ctx)" .
  }
  {
    assume h: "foreach attrs = Some f \<and> Eval env ctx (Expr f) = Inr v \<and> ElementIterator v = Some kvs \<and>
      (dcondition attrs = None \<or>
       (\<exists>g. dcondition attrs = Some g \<and> Eval env ctx (Expr g) = Inr (BoolVal True))) \<and>
      iterator attrs = Some a \<and>
      (AbsTraversalForExpr env (Expr a) = None \<or>
       (\<exists>tr. AbsTraversalForExpr env (Expr a) = Some tr \<and> length tr \<noteq> 1))"
    then have g: "dynamicCondition env ctx (dcondition attrs) = Inr True"
      by (simp add: dynamicCondition_guard)
    from h ElementIterator_Some [of v kvs]
    have fe: "evalForEach env ctx (foreach attrs) = Inr v" and n: "\<not> IsNull v"
      by (simp_all add: evalForEach_value)
    from h have i: "iteratorName env T (iterator attrs) =
        Inl (E (Some ErrInvalidDynamicIterator) [AttrRange a]
               ''dynamic iterator must be a single variable name'' [] None)"
      using iteratorName_invalid [of env a T] by simp
    from appendDynamicBlocks_iterator_invalid [OF c l g fe n i]
    show "appendDynamicBlocks env target blk ctx =
          (Some (E (Some ErrInvalidDynamicIterator) [AttrRange a]
                   ''dynamic iterator must be a single variable name'' [] None),
           target, ctx)" .
  }
  assume h: "foreach attrs = Some f \<and> Eval env ctx (Expr f) = Inr v \<and> ElementIterator v = Some kvs \<and>
      (dcondition attrs = None \<or>
       (\<exists>g. dcondition attrs = Some g \<and> Eval env ctx (Expr g) = Inr (BoolVal True))) \<and>
      (iterator attrs = None \<and> it = T \<or>
       (\<exists>a. iterator attrs = Some a \<and> AbsTraversalForExpr env (Expr a) = Some [it]))"
  then have g: "dynamicCondition env ctx (dcondition attrs) = Inr True"
    by (simp add: dynamicCondition_guard)
  from h ElementIterator_Some [of v kvs]
  have fe: "evalForEach env ctx (foreach attrs) = Inr v"
    by (simp add: evalForEach_value)
  from h have e: "ElementIterator v = Some kvs" by simp
  from h have i: "iteratorName env T (iterator attrs) = Inr it"
    by (auto simp: iteratorName_default iteratorName_override)
  note eq = appendDynamicBlocks_iterate [OF c l g fe e i, of target]
  {
    fix d c'
    assume "appendDynamicBlocks env target blk ctx = (None, d, c')"
    then obtain c'' where r: "forEachElement env target ctx it T attrs cbo kvs = (None, d, c'')"
      and c': "c' = DeleteNamespace it c''"
      by (auto simp: eq split: prod.splits)
    from forEachElement_run [OF r] c'
    show "\<exists>bs cs. d = target @ bs \<and> length bs = length kvs \<and> length cs = Suc (length kvs) \<and>
              cs ! 0 = ctx \<and> c' = DeleteNamespace it (cs ! length kvs) \<and>
              (\<forall>i<length kvs. \<exists>ls bd.
                 bs ! i = BlockItem T ls bd \<and>
                 appendDynamicBlock env (target @ take i bs)
                     (SetNamespace it [(''key'', fst (kvs ! i)), (''value'', snd (kvs ! i))]
                        (cs ! i))
                     T attrs cbo =
                   (None, target @ take (Suc i) bs, cs ! Suc i))"
      by blast
  }
  {
    fix e' d c'
    assume "appendDynamicBlocks env target blk ctx = (Some e', d, c')"
    then obtain c'' where r: "forEachElement env target ctx it T attrs cbo kvs = (Some e', d, c'')"
      and c': "c' = DeleteNamespace it c''"
      by (auto simp: eq split: prod.splits)
    from forEachElement_stop [OF r] c'
    show "\<exists>n bs cs c''. n < length kvs \<and> length bs = n \<and> length cs = Suc n \<and> cs ! 0 = ctx \<and>
              (\<forall>i<n. \<exists>ls bd.
                 bs ! i = BlockItem T ls bd \<and>
                 appendDynamicBlock env (target @ take i bs)
                     (SetNamespace it [(''key'', fst (kvs ! i)), (''value'', snd (kvs ! i))]
                        (cs ! i))
                     T attrs cbo =
                   (None, target @ take (Suc i) bs, cs ! Suc i)) \<and>
              appendDynamicBlock env (target @ bs)
                  (SetNamespace it [(''key'', fst (kvs ! n)), (''value'', snd (kvs ! n))] (cs ! n))
                  T attrs cbo =
                (Some e', d, c'') \<and>
              c' = DeleteNamespace it c''"
      by blast
  }
qed

text \<open>
  C1, as the claim states it, fails. With \<^verbatim>\<open>for_each = ["u", "v"]\<close>, no guard and
  \<^verbatim>\<open>iterator = x.y\<close> the block passes the structural checks and \<^verbatim>\<open>for_each\<close> evaluates to a
  collection of two pairs, yet the run adds no block and returns the error of the
  iterator, which no expansion made. And a block with \<^verbatim>\<open>condition = false\<close> that has
  neither \<^verbatim>\<open>content\<close> nor \<^verbatim>\<open>attributes\<close> returns the error of the structural checks.
\<close>

theorem for_each_bad_iterator_counterexample:
  "dynamicBlockErrors (exLoop [exBadIteratorAttr] [exValueRef]) = [] \<and>
   foreach (fst (dynamicBlockChecks (exLoop [exBadIteratorAttr] [exValueRef]))) =
     Some exForEachAttr \<and>
   dcondition (fst (dynamicBlockChecks (exLoop [exBadIteratorAttr] [exValueRef]))) = None \<and>
   Eval refEnv exContext (Expr exForEachAttr) = Inr (ListVal [StringVal ''u'', StringVal ''v'']) \<and>
   ElementIterator (ListVal [StringVal ''u'', StringVal ''v'']) =
     Some [(NumberVal 0, StringVal ''u''), (NumberVal 1, StringVal ''v'')] \<and>
   appendDynamicBlocks refEnv [] (exLoop [exBadIteratorAttr] [exValueRef]) exContext =
     (Some (E (Some ErrInvalidDynamicIterator) [exRange]
              ''dynamic iterator must be a single variable name'' [] None),
      [], exContext) \<and>
   dcondition (fst (dynamicBlockChecks exGuardedInvalid)) =
     Some (exAttr ''condition'' (BoolVal False)) \<and>
   Eval refEnv exContext (Expr (exAttr ''condition'' (BoolVal False))) = Inr (BoolVal False) \<and>
   appendDynamicBlocks refEnv [] exGuardedInvalid exContext =
     (Some (L [E (Some ErrParsing) [exRange]
                 ''`content` block or `attributes` obj must be defined'' [] None]),
      [], exContext)"
proof -
  let ?v = "ListVal [StringVal ''u'', StringVal ''v'']"
  let ?blk = "exLoop [exBadIteratorAttr] [exValueRef]"
  note c = exBadIterator_checks [of "[exValueRef]"]
  have e: "dynamicBlockErrors ?blk = []"
    by (simp add: ex_checks exLoop_def exForEachAttr_def exBadIteratorAttr_def)
  have l: "Labels ?blk = ''b'' # []" by (simp add: exLoop_labels)
  have g: "dynamicCondition refEnv exContext (dcondition exBadIteratorAttrs) = Inr True"
    by (simp add: exBadIterator_fields dynamicCondition_None)
  have f: "evalForEach refEnv exContext (foreach exBadIteratorAttrs) = Inr ?v"
    by (simp add: exBadIterator_fields evalForEach_value exLoop_elements CanIterateElements_def)
  have n: "\<not> IsNull ?v" by simp
  have i: "iteratorName refEnv ''b'' (iterator exBadIteratorAttrs) =
      Inl (E (Some ErrInvalidDynamicIterator) [exRange]
             ''dynamic iterator must be a single variable name'' [] None)"
    using iteratorName_invalid [of refEnv exBadIteratorAttr "''b''"]
    by (simp add: exBadIterator_fields)
  note r = appendDynamicBlocks_iterator_invalid [OF c l g f n i, of "[]"]
  have r2: "appendDynamicBlocks refEnv [] exGuardedInvalid exContext =
     (Some (L [E (Some ErrParsing) [exRange]
                 ''`content` block or `attributes` obj must be defined'' [] None]),
      [], exContext)"
    using appendDynamicBlocks_invalid [of exGuardedInvalid refEnv "[]" exContext]
    by (simp add: exGuardedInvalid_errors(1))
  have eg: "Eval refEnv exContext (Expr (exAttr ''condition'' (BoolVal False))) =
      Inr (BoolVal False)"
    by simp
  from e c exBadIterator_fields(1,2) exLoop_elements(1) [of exContext] exLoop_elements(2) r
    exGuardedInvalid_errors(2) eg r2
  show ?thesis by simp
qed

theorem for_each_expansion_witness:
  "dynamicBlockChecks (exLoop [] [exValueRef]) =
     (exLoopAttrs, Some (exContentBlock [exValueRef]), None) \<and>
   Labels (exLoop [] [exValueRef]) = [''b''] \<and>
   foreach exLoopAttrs = Some exForEachAttr \<and>
   Eval refEnv exContext (Expr exForEachAttr) = Inr (ListVal [StringVal ''u'', StringVal ''v'']) \<and>
   ElementIterator (ListVal [StringVal ''u'', StringVal ''v'']) =
     Some [(NumberVal 0, StringVal ''u''), (NumberVal 1, StringVal ''v'')] \<and>
   dcondition exLoopAttrs = None \<and> iterator exLoopAttrs = None \<and>
   appendDynamicBlocks refEnv [] (exLoop [] [exValueRef]) exContext =
     (None, [exValBlock ''u'', exValBlock ''v''], exContext) \<and>
   (\<exists>c1 c2.
      appendDynamicBlock refEnv []
          (SetNamespace ''b'' [(''key'', NumberVal 0), (''value'', StringVal ''u'')] exContext)
          ''b'' exLoopAttrs (Some (exContentBlock [exValueRef])) =
        (None, [exValBlock ''u''], c1) \<and>
      appendDynamicBlock refEnv [exValBlock ''u'']
          (SetNamespace ''b'' [(''key'', NumberVal 1), (''value'', StringVal ''v'')] c1)
          ''b'' exLoopAttrs (Some (exContentBlock [exValueRef])) =
        (None, [exValBlock ''u'', exValBlock ''v''], c2) \<and>
      exContext = DeleteNamespace ''b'' c2) \<and>
   appendDynamicBlocks refEnv [] (exLoop [] [exBadAttr]) exContext =
     (Some (E None [exRange] [] [] (Some (E None [exRange] ''call to unknown function'' [] None))),
      [BlockItem ''b'' [] []], exContext) \<and>
   (\<exists>c'.
      appendDynamicBlock refEnv []
          (SetNamespace ''b'' [(''key'', NumberVal 0), (''value'', StringVal ''u'')] exContext)
          ''b'' exLoopAttrs (Some (exContentBlock [exBadAttr])) =
        (Some (E None [exRange] [] []
                 (Some (E None [exRange] ''call to unknown function'' [] None))),
         [BlockItem ''b'' [] []], c') \<and>
      exContext = DeleteNamespace ''b'' c') \<and>
   dynamicBlockChecks (exLoop [exIteratorAttr] [exNamedValueRef]) =
     (exNamedLoopAttrs, Some (exContentBlock [exNamedValueRef]), None) \<and>
   foreach exNamedLoopAttrs = Some exForEachAttr \<and> dcondition exNamedLoopAttrs = None \<and>
   iterator exNamedLoopAttrs = Some exIteratorAttr \<and>
   AbsTraversalForExpr refEnv (Expr exIteratorAttr) = Some [''x''] \<and>
   appendDynamicBlocks refEnv [] (exLoop [exIteratorAttr] [exNamedValueRef]) exContext =
     (None, [exValBlock ''u'', exValBlock ''v''], exContext) \<and>
   (\<exists>c1.
      appendDynamicBlock refEnv []
          (SetNamespace ''x'' [(''key'', NumberVal 0), (''value'', StringVal ''u'')] exContext)
          ''b'' exNamedLoopAttrs (Some (exContentBlock [exNamedValueRef])) =
        (None, [exValBlock ''u''], c1)) \<and>
   dynamicBlockChecks (exLoop [exBadIteratorAttr] [exValueRef]) =
     (exBadIteratorAttrs, Some (exContentBlock [exValueRef]), None) \<and>
   foreach exBadIteratorAttrs = Some exForEachAttr \<and> dcondition exBadIteratorAttrs = None \<and>
   iterator exBadIteratorAttrs = Some exBadIteratorAttr \<and>
   AbsTraversalForExpr refEnv (Expr exBadIteratorAttr) = Some [''x'', ''y''] \<and>
   length [''x'', ''y''] \<noteq> 1 \<and>
   appendDynamicBlocks refEnv [] (exLoop [exBadIteratorAttr] [exValueRef]) exContext =
     (Some (E (Some ErrInvalidDynamicIterator) [exRange]
              ''dynamic iterator must be a single variable name'' [] None),
      [], exContext) \<and>
   dynamicBlockChecks (exLoop [exAttr ''condition'' (BoolVal False)] [exValueRef]) =
     (exGuardedLoopAttrs, Some (exContentBlock [exValueRef]), None) \<and>
   dcondition exGuardedLoopAttrs = Some (exAttr ''condition'' (BoolVal False)) \<and>
   Eval refEnv exContext (Expr (exAttr ''condition'' (BoolVal False))) = Inr (BoolVal False) \<and>
   appendDynamicBlocks refEnv [] (exLoop [exAttr ''condition'' (BoolVal False)] [exValueRef])
       exContext = (None, [], exContext)"
proof -
  let ?kvs = "[(NumberVal 0, StringVal ''u''), (NumberVal 1, StringVal ''v'')]"
  let ?v = "ListVal [StringVal ''u'', StringVal ''v'']"
  let ?g = "exAttr ''condition'' (BoolVal False)"
  have it: "iterator exLoopAttrs = None"
    by (simp add: exLoopAttrs_def noDynBlockAttributes_def)
  have k: "dynamicBlockChecks (exLoop [] cs) = (exLoopAttrs, Some (exContentBlock cs), None) \<and>
      Labels (exLoop [] cs) = [''b'']" for cs
    by (simp add: exLoop_checks exLoop_labels)
  have h: "foreach exLoopAttrs = Some exForEachAttr \<and>
      Eval refEnv exContext (Expr exForEachAttr) = Inr ?v \<and> ElementIterator ?v = Some ?kvs \<and>
      (dcondition exLoopAttrs = None \<or>
       (\<exists>g. dcondition exLoopAttrs = Some g \<and>
            Eval refEnv exContext (Expr g) = Inr (BoolVal True))) \<and>
      (iterator exLoopAttrs = None \<and> ''b'' = ''b'' \<or>
       (\<exists>a. iterator exLoopAttrs = Some a \<and>
            AbsTraversalForExpr refEnv (Expr a) = Some [''b'']))"
    by (simp add: exLoop_elements exLoop_guard it)
  note t = for_each_expansion [where attrs = exLoopAttrs and T = "''b''" and f = exForEachAttr
      and env = refEnv and ctx = exContext and v = ?v and kvs = ?kvs and it = "''b''"
      and target = "[]", THEN mp, OF k, THEN conjunct1, THEN mp, OF h]
  from t [THEN conjunct1, THEN spec, THEN spec, THEN mp, OF exLoop_result(1)]
  obtain bs cs where
    p: "[exValBlock ''u'', exValBlock ''v''] = [] @ bs" "cs ! 0 = exContext"
      "exContext = DeleteNamespace ''b'' (cs ! length ?kvs)"
    and st: "\<And>i. i < length ?kvs \<Longrightarrow> \<exists>ls bd.
        bs ! i = BlockItem ''b'' ls bd \<and>
        appendDynamicBlock refEnv ([] @ take i bs)
            (SetNamespace ''b'' [(''key'', fst (?kvs ! i)), (''value'', snd (?kvs ! i))] (cs ! i))
            ''b'' exLoopAttrs (Some (exContentBlock [exValueRef])) =
          (None, [] @ take (Suc i) bs, cs ! Suc i)"
    by blast
  from p(1) have bs: "bs = [exValBlock ''u'', exValBlock ''v'']" by simp
  from st [of 0] bs p(2) have s0: "appendDynamicBlock refEnv []
          (SetNamespace ''b'' [(''key'', NumberVal 0), (''value'', StringVal ''u'')] exContext)
          ''b'' exLoopAttrs (Some (exContentBlock [exValueRef])) =
        (None, [exValBlock ''u''], cs ! 1)"
    by simp
  from st [of 1] bs have s1: "appendDynamicBlock refEnv [exValBlock ''u'']
          (SetNamespace ''b'' [(''key'', NumberVal 1), (''value'', StringVal ''v'')] (cs ! 1))
          ''b'' exLoopAttrs (Some (exContentBlock [exValueRef])) =
        (None, [exValBlock ''u'', exValBlock ''v''], cs ! 2)"
    by (simp add: numeral_2_eq_2)
  from p(3) have s2: "exContext = DeleteNamespace ''b'' (cs ! 2)" by (simp add: numeral_2_eq_2)
  from s0 s1 s2 have q1: "\<exists>c1 c2.
      appendDynamicBlock refEnv []
          (SetNamespace ''b'' [(''key'', NumberVal 0), (''value'', StringVal ''u'')] exContext)
          ''b'' exLoopAttrs (Some (exContentBlock [exValueRef])) =
        (None, [exValBlock ''u''], c1) \<and>
      appendDynamicBlock refEnv [exValBlock ''u'']
          (SetNamespace ''b'' [(''key'', NumberVal 1), (''value'', StringVal ''v'')] c1)
          ''b'' exLoopAttrs (Some (exContentBlock [exValueRef])) =
        (None, [exValBlock ''u'', exValBlock ''v''], c2) \<and>
      exContext = DeleteNamespace ''b'' c2"
    by blast
  from t [THEN conjunct2, THEN spec, THEN spec, THEN spec, THEN mp, OF exLoop_result(2)]
  obtain n bs' cs' c' where
    p': "n < length ?kvs" "length bs' = n" "cs' ! 0 = exContext"
      "appendDynamicBlock refEnv ([] @ bs')
          (SetNamespace ''b'' [(''key'', fst (?kvs ! n)), (''value'', snd (?kvs ! n))] (cs' ! n))
          ''b'' exLoopAttrs (Some (exContentBlock [exBadAttr])) =
        (Some (E None [exRange] [] []
                 (Some (E None [exRange] ''call to unknown function'' [] None))),
         [BlockItem ''b'' [] []], c')"
      "exContext = DeleteNamespace ''b'' c'"
    by blast
  have "bs' = []"
  proof (rule ccontr)
    assume "bs' \<noteq> []"
    then obtain b bs'' where "bs' = b # bs''" by (cases bs') auto
    with p'(4) show False
      by (auto simp: appendDynamicBlock.simps evalLabels_def exLoopAttrs_def
            noDynBlockAttributes_def split: sum.splits prod.splits option.splits)
  qed
  with p' have "n = 0" by simp
  with p' \<open>bs' = []\<close> have q2: "\<exists>c'.
      appendDynamicBlock refEnv []
          (SetNamespace ''b'' [(''key'', NumberVal 0), (''value'', StringVal ''u'')] exContext)
          ''b'' exLoopAttrs (Some (exContentBlock [exBadAttr])) =
        (Some (E None [exRange] [] []
                 (Some (E None [exRange] ''call to unknown function'' [] None))),
         [BlockItem ''b'' [] []], c') \<and>
      exContext = DeleteNamespace ''b'' c'"
    by auto
  have kn: "dynamicBlockChecks (exLoop [exIteratorAttr] [exNamedValueRef]) =
        (exNamedLoopAttrs, Some (exContentBlock [exNamedValueRef]), None) \<and>
      Labels (exLoop [exIteratorAttr] [exNamedValueRef]) = [''b'']"
    by (simp add: exNamedLoop_checks exLoop_labels)
  have hn: "foreach exNamedLoopAttrs = Some exForEachAttr \<and>
      Eval refEnv exContext (Expr exForEachAttr) = Inr ?v \<and> ElementIterator ?v = Some ?kvs \<and>
      (dcondition exNamedLoopAttrs = None \<or>
       (\<exists>g. dcondition exNamedLoopAttrs = Some g \<and>
            Eval refEnv exContext (Expr g) = Inr (BoolVal True))) \<and>
      (iterator exNamedLoopAttrs = None \<and> ''x'' = ''b'' \<or>
       (\<exists>a. iterator exNamedLoopAttrs = Some a \<and>
            AbsTraversalForExpr refEnv (Expr a) = Some [''x'']))"
    by (simp add: exLoop_elements exNamedLoop_fields)
  note tn = for_each_expansion [where attrs = exNamedLoopAttrs and T = "''b''"
      and f = exForEachAttr and env = refEnv and ctx = exContext and v = ?v and kvs = ?kvs
      and it = "''x''" and target = "[]", THEN mp, OF kn, THEN conjunct1, THEN mp, OF hn]
  from tn [THEN conjunct1, THEN spec, THEN spec, THEN mp, OF exNamedLoop_result]
  obtain bn cn where
    pn: "[exValBlock ''u'', exValBlock ''v''] = [] @ bn" "cn ! 0 = exContext"
    and sn: "\<And>i. i < length ?kvs \<Longrightarrow> \<exists>ls bd.
        bn ! i = BlockItem ''b'' ls bd \<and>
        appendDynamicBlock refEnv ([] @ take i bn)
            (SetNamespace ''x'' [(''key'', fst (?kvs ! i)), (''value'', snd (?kvs ! i))] (cn ! i))
            ''b'' exNamedLoopAttrs (Some (exContentBlock [exNamedValueRef])) =
          (None, [] @ take (Suc i) bn, cn ! Suc i)"
    by blast
  from pn(1) have bn: "bn = [exValBlock ''u'', exValBlock ''v'']" by simp
  from sn [of 0] bn pn(2) have "appendDynamicBlock refEnv []
          (SetNamespace ''x'' [(''key'', NumberVal 0), (''value'', StringVal ''u'')] exContext)
          ''b'' exNamedLoopAttrs (Some (exContentBlock [exNamedValueRef])) =
        (None, [exValBlock ''u''], cn ! 1)"
    by simp
  then have qn: "\<exists>c1.
      appendDynamicBlock refEnv []
          (SetNamespace ''x'' [(''key'', NumberVal 0), (''value'', StringVal ''u'')] exContext)
          ''b'' exNamedLoopAttrs (Some (exContentBlock [exNamedValueRef])) =
        (None, [exValBlock ''u''], c1)"
    by blast
  have kb: "dynamicBlockChecks (exLoop [exBadIteratorAttr] [exValueRef]) =
        (exBadIteratorAttrs, Some (exContentBlock [exValueRef]), None) \<and>
      Labels (exLoop [exBadIteratorAttr] [exValueRef]) = [''b'']"
    by (simp add: exBadIterator_checks exLoop_labels)
  have ln: "length [''x'', ''y''] \<noteq> 1" by simp
  have hb: "foreach exBadIteratorAttrs = Some exForEachAttr \<and>
      Eval refEnv exContext (Expr exForEachAttr) = Inr ?v \<and> ElementIterator ?v = Some ?kvs \<and>
      (dcondition exBadIteratorAttrs = None \<or>
       (\<exists>g. dcondition exBadIteratorAttrs = Some g \<and>
            Eval refEnv exContext (Expr g) = Inr (BoolVal True))) \<and>
      iterator exBadIteratorAttrs = Some exBadIteratorAttr \<and>
      (AbsTraversalForExpr refEnv (Expr exBadIteratorAttr) = None \<or>
       (\<exists>tr. AbsTraversalForExpr refEnv (Expr exBadIteratorAttr) = Some tr \<and> length tr \<noteq> 1))"
    by (simp add: exLoop_elements exBadIterator_fields)
  note rb = for_each_expansion [where blk = "exLoop [exBadIteratorAttr] [exValueRef]"
      and attrs = exBadIteratorAttrs and cbo = "Some (exContentBlock [exValueRef])"
      and T = "''b''" and f = exForEachAttr and env = refEnv and ctx = exContext and v = ?v
      and kvs = ?kvs and a = exBadIteratorAttr and target = "[]", THEN mp, OF kb,
      THEN conjunct2, THEN conjunct1, THEN mp, OF hb]
  have rb': "appendDynamicBlocks refEnv [] (exLoop [exBadIteratorAttr] [exValueRef]) exContext =
     (Some (E (Some ErrInvalidDynamicIterator) [exRange]
              ''dynamic iterator must be a single variable name'' [] None),
      [], exContext)"
    by (subst rb) (simp add: exBadIterator_fields)
  have k2: "dynamicBlockChecks (exLoop [?g] [exValueRef]) =
        (exGuardedLoopAttrs, Some (exContentBlock [exValueRef]), None) \<and>
      Labels (exLoop [?g] [exValueRef]) = [''b'']"
    by (simp add: exGuardedLoop_checks exLoop_labels)
  have dg: "dcondition exGuardedLoopAttrs = Some ?g" by (simp add: exGuardedLoopAttrs_def)
  have eg: "Eval refEnv exContext (Expr ?g) = Inr (BoolVal False)" by simp
  from dg eg have h2: "\<exists>g. dcondition exGuardedLoopAttrs = Some g \<and>
      Eval refEnv exContext (Expr g) = Inr (BoolVal False)"
    by blast
  note r3 = for_each_expansion [where blk = "exLoop [?g] [exValueRef]"
      and attrs = exGuardedLoopAttrs and cbo = "Some (exContentBlock [exValueRef])"
      and T = "''b''" and env = refEnv and ctx = exContext and target = "[]", THEN mp,
      OF k2, THEN conjunct2, THEN conjunct2, THEN mp, OF h2]
  from k [of "[exValueRef]"] h exLoop_guard(1) it exLoop_result q1 q2 kn exNamedLoop_fields
    exNamedLoop_result qn kb exBadIterator_fields
    ln rb' k2 dg eg r3
  show ?thesis by blast
qed

end
